theory Spec2Isabelle
  imports Complex_Main "HOL-Library.AList" "HOL-Library.Word"
begin

section \<open>Python values used by the notebook\<close>

text \<open>
  The notebook \<^verbatim>\<open>Section_4_hls4ml.ipynb\<close> handles one data structure of its own: the
  hls4ml configuration dictionary, a nested Python \<^verbatim>\<open>dict\<close> whose leaves are strings
  and integers. A \<^verbatim>\<open>dict\<close> keeps insertion order, so it is an association list;
  storing under an existing key keeps the key's position, storing under a new key appends
  (\<open>AList.update\<close> does exactly this). The dictionary returned by
  \<^verbatim>\<open>config_from_keras_model\<close> is taken as a tree: no sub-dictionary is shared
  between two places. Exceptions are values: the Python exceptions the notebook's own
  statements can raise, and \<open>ExternalError\<close> for whatever a library call raises.
\<close>

datatype pyerr =
    KeyError | TypeError | ValueError | IndexError | AttributeError | RecursionError
  | ExternalError string

datatype pykey = KStr string | KInt int

datatype pyval = VStr string | VInt int | VDict "(pykey \<times> pyval) list"

type_synonym pydict = "(pykey \<times> pyval) list"

text \<open>\<^verbatim>\<open>d[k]\<close> with a string literal \<^verbatim>\<open>k\<close>: \<^verbatim>\<open>KeyError\<close> on a missing key,
  \<^verbatim>\<open>TypeError\<close> when \<^verbatim>\<open>d\<close> is a string or an integer.\<close>

fun getitem :: "pyval \<Rightarrow> string \<Rightarrow> pyerr + pyval" where
  "getitem (VDict kvs) k = (case map_of kvs (KStr k) of None \<Rightarrow> Inl KeyError | Some v \<Rightarrow> Inr v)"
| "getitem (VStr s) k = Inl TypeError"
| "getitem (VInt n) k = Inl TypeError"

text \<open>\<^verbatim>\<open>d[k] = v\<close>: never a \<^verbatim>\<open>KeyError\<close>; a missing key is created.\<close>

fun setitem :: "pyval \<Rightarrow> string \<Rightarrow> pyval \<Rightarrow> pyerr + pyval" where
  "setitem (VDict kvs) k v = Inr (VDict (AList.update (KStr k) v kvs))"
| "setitem (VStr s) k v = Inl TypeError"
| "setitem (VInt n) k v = Inl TypeError"

text \<open>
  \<^verbatim>\<open>d[k1][k2][k3] = v\<close>: two lookups, then a store into the dictionary found. The
  store mutates that inner dictionary in place; in the tree model the two enclosing
  dictionaries are rebuilt around it (the last two \<open>setitem\<close>s, which cannot fail once
  the lookups have succeeded).
\<close>

definition setitem3 :: "pyval \<Rightarrow> string \<Rightarrow> string \<Rightarrow> string \<Rightarrow> pyval \<Rightarrow> pyerr + pyval" where
  "setitem3 d k1 k2 k3 v =
     (case getitem d k1 of
        Inl e \<Rightarrow> Inl e
      | Inr d1 \<Rightarrow>
          (case getitem d1 k2 of
             Inl e \<Rightarrow> Inl e
           | Inr d2 \<Rightarrow>
               (case setitem d2 k3 v of
                  Inl e \<Rightarrow> Inl e
                | Inr d2' \<Rightarrow>
                    (case setitem d1 k2 d2' of
                       Inl e \<Rightarrow> Inl e
                     | Inr d1' \<Rightarrow> setitem d k1 d1'))))"

section \<open>The configuration overrides\<close>

text \<open>
  The fourth code cell changes the configuration with two forms of statement:
  \<^verbatim>\<open>cfg['Model'] = value\<close> and \<^verbatim>\<open>cfg['LayerName'][layer][key] = value\<close>.
\<close>

datatype override = OvModel pyval | OvLayer string string pyval

fun apply_override :: "override \<Rightarrow> pyval \<Rightarrow> pyerr + pyval" where
  "apply_override (OvModel v) cfg = setitem cfg ''Model'' v"
| "apply_override (OvLayer layer key v) cfg = setitem3 cfg ''LayerName'' layer key v"

text \<open>
  A statement that raises has mutated nothing (every lookup precedes the one store), so
  the state after a failed override is the state before it. A sequence stops at the first
  statement that raises and keeps what the earlier statements did.
\<close>

definition exec_override :: "override \<Rightarrow> pyval \<Rightarrow> pyerr option \<times> pyval" where
  "exec_override ov cfg =
     (case apply_override ov cfg of Inl e \<Rightarrow> (Some e, cfg) | Inr cfg' \<Rightarrow> (None, cfg'))"

fun run_overrides :: "override list \<Rightarrow> pyval \<Rightarrow> pyerr option \<times> pyval" where
  "run_overrides [] cfg = (None, cfg)"
| "run_overrides (ov # ovs) cfg =
     (case exec_override ov cfg of
        (Some e, cfg') \<Rightarrow> (Some e, cfg')
      | (None, cfg') \<Rightarrow> run_overrides ovs cfg')"

text \<open>The four assignments of the cell, statement by statement.\<close>

definition cfg_tweaks :: "pyval \<Rightarrow> pyerr option \<times> pyval" where
  "cfg_tweaks cfg =
     (case setitem cfg ''Model''
             (VDict [(KStr ''Precision'', VStr ''ap_fixed<16,6>''),
                     (KStr ''ReuseFactor'', VInt 1),
                     (KStr ''Strategy'', VStr ''Resource'')]) of
        Inl e \<Rightarrow> (Some e, cfg)
      | Inr cfg1 \<Rightarrow>
          (case setitem3 cfg1 ''LayerName'' ''q_dense'' ''ReuseFactor'' (VInt 112) of
             Inl e \<Rightarrow> (Some e, cfg1)
           | Inr cfg2 \<Rightarrow>
               (case setitem3 cfg2 ''LayerName'' ''q_dense_1'' ''Strategy'' (VStr ''Latency'') of
                  Inl e \<Rightarrow> (Some e, cfg2)
                | Inr cfg3 \<Rightarrow>
                    (case setitem3 cfg3 ''LayerName'' ''activation_2'' ''Strategy'' (VStr ''Stable'') of
                       Inl e \<Rightarrow> (Some e, cfg3)
                     | Inr cfg4 \<Rightarrow> (None, cfg4)))))"

text \<open>The override sequence as the specification lists it (section 4.2).\<close>

definition spec_override_sequence :: "override list" where
  "spec_override_sequence =
     [OvModel (VDict [(KStr ''Precision'', VStr ''ap_fixed<16,6>''),
                      (KStr ''ReuseFactor'', VInt 1),
                      (KStr ''Strategy'', VStr ''Resource'')]),
      OvLayer ''q_dense'' ''ReuseFactor'' (VInt 112),
      OvLayer ''q_dense_1'' ''Strategy'' (VStr ''Latency''),
      OvLayer ''activation_2'' ''Strategy'' (VStr ''Stable'')]"

text \<open>
  Entries of the configuration are addressed by a scope and a setting name:
  \<^verbatim>\<open>cfg['Model'][key]\<close> or \<^verbatim>\<open>cfg['LayerName'][layer][key]\<close>. \<open>lookup\<close> reads
  without raising (\<open>None\<close> for "no such entry").
\<close>

datatype scope = Model | Layer string

fun lookup :: "pyval \<Rightarrow> string \<Rightarrow> pyval option" where
  "lookup (VDict kvs) k = map_of kvs (KStr k)"
| "lookup (VStr s) k = None"
| "lookup (VInt n) k = None"

fun entry :: "pyval \<Rightarrow> scope \<Rightarrow> string \<Rightarrow> pyval option" where
  "entry cfg Model key = Option.bind (lookup cfg ''Model'') (\<lambda>m. lookup m key)"
| "entry cfg (Layer layer) key =
     Option.bind (lookup cfg ''LayerName'')
       (\<lambda>ls. Option.bind (lookup ls layer) (\<lambda>l. lookup l key))"

text \<open>
  What a statement does to the entries. It assigns the entries it gives a value: the
  settings listed in the dictionary stored under \<^verbatim>\<open>cfg['Model']\<close>, or the one layer
  setting. Storing under \<^verbatim>\<open>cfg['Model']\<close> also replaces the \<open>Model\<close> scope: the
  settings of the old dictionary are gone, whether the new one lists them or not.
  \<open>written\<close> is what the statement leaves at an entry of the scope it wrote to.
\<close>

fun assigns :: "override \<Rightarrow> scope \<Rightarrow> string \<Rightarrow> bool" where
  "assigns (OvModel v) Model key = (lookup v key \<noteq> None)"
| "assigns (OvModel v) (Layer layer) key = False"
| "assigns (OvLayer l k v) Model key = False"
| "assigns (OvLayer l k v) (Layer layer) key = (l = layer \<and> k = key)"

fun replaces :: "override \<Rightarrow> scope \<Rightarrow> bool" where
  "replaces (OvModel v) Model = True"
| "replaces (OvModel v) (Layer layer) = False"
| "replaces (OvLayer l k v) s = False"

fun written :: "override \<Rightarrow> string \<Rightarrow> pyval option" where
  "written (OvModel v) key = lookup v key"
| "written (OvLayer l k v) key = Some v"

text \<open>A configuration shaped like the one hls4ml derives for the tutorial's model.\<close>

definition sample_cfg :: pyval where
  "sample_cfg =
     VDict [(KStr ''Model'',
               VDict [(KStr ''Precision'', VStr ''ap_fixed<16,6>''),
                      (KStr ''ReuseFactor'', VInt 1),
                      (KStr ''Strategy'', VStr ''Latency'')]),
            (KStr ''LayerName'',
               VDict [(KStr ''q_dense'',
                         VDict [(KStr ''Precision'', VDict [(KStr ''weight'', VStr ''ap_fixed<6,1>'')]),
                                (KStr ''ReuseFactor'', VInt 1)]),
                      (KStr ''q_dense_1'',
                         VDict [(KStr ''Precision'', VDict [(KStr ''weight'', VStr ''ap_fixed<6,1>'')]),
                                (KStr ''ReuseFactor'', VInt 1)]),
                      (KStr ''activation_2'',
                         VDict [(KStr ''Precision'', VStr ''ap_fixed<16,6>''),
                                (KStr ''ReuseFactor'', VInt 1)])])]"

text \<open>
  The same configuration with one more global setting, as later versions of hls4ml derive
  it.
\<close>

definition sample_cfg_bram :: pyval where
  "sample_cfg_bram =
     VDict [(KStr ''Model'',
               VDict [(KStr ''Precision'', VStr ''ap_fixed<16,6>''),
                      (KStr ''ReuseFactor'', VInt 1),
                      (KStr ''Strategy'', VStr ''Latency''),
                      (KStr ''BramFactor'', VInt 1000000000)]),
            (KStr ''LayerName'',
               VDict [(KStr ''q_dense'',
                         VDict [(KStr ''Precision'', VDict [(KStr ''weight'', VStr ''ap_fixed<6,1>'')]),
                                (KStr ''ReuseFactor'', VInt 1)]),
                      (KStr ''q_dense_1'',
                         VDict [(KStr ''Precision'', VDict [(KStr ''weight'', VStr ''ap_fixed<6,1>'')]),
                                (KStr ''ReuseFactor'', VInt 1)]),
                      (KStr ''activation_2'',
                         VDict [(KStr ''Precision'', VStr ''ap_fixed<16,6>''),
                                (KStr ''ReuseFactor'', VInt 1)])])]"

section \<open>Printing a dictionary\<close>

text \<open>
  \<^verbatim>\<open>str\<close> of a Python integer: its decimal digits, with a minus sign when negative.
\<close>

fun str_nat :: "nat \<Rightarrow> string" where
  "str_nat n = (if n < 10 then [''0123456789'' ! n]
                else str_nat (n div 10) @ [''0123456789'' ! (n mod 10)])"

declare str_nat.simps [simp del]

definition str_int :: "int \<Rightarrow> string" where
  "str_int i = (if i < 0 then CHR ''-'' # str_nat (nat (- i)) else str_nat (nat i))"

text \<open>
  \<^verbatim>\<open>s * n\<close> on a string repeats it \<open>n\<close> times, and gives the empty string
  when \<open>n\<close> is zero or negative.
\<close>

definition py_repeat :: "string \<Rightarrow> int \<Rightarrow> string" where
  "py_repeat s n = concat (replicate (nat n) s)"

definition newline :: string where
  "newline = [CHR 0x0A]"

text \<open>
  \<^verbatim>\<open>str(key)\<close> accepts any key; \<^verbatim>\<open>len(key)\<close> raises \<^verbatim>\<open>TypeError\<close> on an
  integer key. (A \<^verbatim>\<open>len\<close> counts characters; keys are taken as ASCII.)
\<close>

fun str_key :: "pykey \<Rightarrow> string" where
  "str_key (KStr s) = s"
| "str_key (KInt i) = str_int i"

fun len_key :: "pykey \<Rightarrow> pyerr + int" where
  "len_key (KStr s) = Inr (int (length s))"
| "len_key (KInt i) = Inl TypeError"

text \<open>
  \<^verbatim>\<open>print_dict(d, indent=0)\<close> of the first cell. Its output is the list of
  \<^verbatim>\<open>print\<close> calls made, each as the text printed and the \<^verbatim>\<open>end\<close> string
  (the empty string for the key, a newline otherwise). For each item it prints the
  indented key; for a nested dictionary it ends the line and recurses with
  \<open>indent + 1\<close>; otherwise it prints a colon, the padding and \<^verbatim>\<open>str(value)\<close>. An
  exception ends the run with what was printed so far. Every call takes a frame of the
  interpreter's stack, the loop over the items none: \<open>frames\<close> is the number of frames
  the interpreter still allows when the call is made, and a call made when none is left
  raises \<^verbatim>\<open>RecursionError\<close>.
\<close>

definition key_text :: "pykey \<Rightarrow> int \<Rightarrow> string" where
  "key_text key indent = py_repeat ''  '' indent @ str_key key"

definition leaf_line :: "pykey \<Rightarrow> int \<Rightarrow> string \<Rightarrow> pyerr + (string \<times> string)" where
  "leaf_line key indent sv =
     (case len_key key of
        Inl e \<Rightarrow> Inl e
      | Inr n \<Rightarrow> Inr ('':'' @ py_repeat '' '' (20 - n - 2 * indent) @ sv, newline))"

function print_dict :: "nat \<Rightarrow> pydict \<Rightarrow> int \<Rightarrow> (string \<times> string) list \<times> pyerr option" where
  "print_dict 0 d indent = ([], Some RecursionError)"
| "print_dict (Suc frames) [] indent = ([], None)"
| "print_dict (Suc frames) ((key, value) # rest) indent =
     (case value of
        VDict sub \<Rightarrow>
          (case print_dict frames sub (indent + 1) of
             (out, Some e) \<Rightarrow> ((key_text key indent, '''') # ('''', newline) # out, Some e)
           | (out, None) \<Rightarrow>
               (case print_dict (Suc frames) rest indent of
                  (out', r) \<Rightarrow> ((key_text key indent, '''') # ('''', newline) # out @ out', r)))
      | VStr s \<Rightarrow>
          (case leaf_line key indent s of
             Inl e \<Rightarrow> ([(key_text key indent, '''')], Some e)
           | Inr line \<Rightarrow>
               (case print_dict (Suc frames) rest indent of
                  (out', r) \<Rightarrow> ((key_text key indent, '''') # line # out', r)))
      | VInt i \<Rightarrow>
          (case leaf_line key indent (str_int i) of
             Inl e \<Rightarrow> ([(key_text key indent, '''')], Some e)
           | Inr line \<Rightarrow>
               (case print_dict (Suc frames) rest indent of
                  (out', r) \<Rightarrow> ((key_text key indent, '''') # line # out', r))))"
  by pat_completeness auto
termination
  by (relation "measure (\<lambda>(f, d, i). size_list (size_prod (\<lambda>_. 0) size) d)") auto

text \<open>Every key is a string, at every depth of nesting.\<close>

function str_keys :: "pydict \<Rightarrow> bool" where
  "str_keys [] = True"
| "str_keys ((key, value) # rest) =
     ((case key of KStr s \<Rightarrow> True | KInt i \<Rightarrow> False)
      \<and> (case value of VDict sub \<Rightarrow> str_keys sub | VStr s \<Rightarrow> True | VInt i \<Rightarrow> True)
      \<and> str_keys rest)"
  by pat_completeness auto
termination
  by (relation "measure (size_list (size_prod (\<lambda>_. 0) size))") auto


text \<open>
  The stack frames a call needs: one for itself, and one more for each level of nesting
  below it. \<open>nested n\<close> is a dictionary nested \<open>n\<close> levels deep; the interpreter's
  recursion limit is 1000 unless a program changes it, so no call has more than 1000
  frames.
\<close>

function frames_needed :: "pydict \<Rightarrow> nat" where
  "frames_needed [] = 1"
| "frames_needed ((key, value) # rest) =
     max (case value of VDict sub \<Rightarrow> Suc (frames_needed sub) | VStr s \<Rightarrow> 1 | VInt i \<Rightarrow> 1)
         (frames_needed rest)"
  by pat_completeness auto
termination
  by (relation "measure (size_list (size_prod (\<lambda>_. 0) size))") auto



section \<open>Loading the data set\<close>

text \<open>
  \<^verbatim>\<open>get_train_test_set\<close> of the first cell. \<^verbatim>\<open>mnist.load_data()\<close> belongs to
  Keras; what it returns is a parameter here: images as arrays of unsigned bytes
  (samples, rows, columns) and labels as unsigned bytes. Dividing a byte by \<^verbatim>\<open>256.0\<close>
  is exact in binary floating point, so the quotients are modelled as rationals.
\<close>

type_synonym image = "8 word list list"

text \<open>\<^verbatim>\<open>x / 256.0\<close>, elementwise.\<close>

definition pixel_to_float :: "8 word \<Rightarrow> rat" where
  "pixel_to_float p = of_nat (unat p) / 256"

definition scale :: "image list \<Rightarrow> rat list list list" where
  "scale x = map (map (map pixel_to_float)) x"

text \<open>
  \<^verbatim>\<open>x.reshape(x.shape[0], -1)\<close>: each sample becomes the row-major sequence of its
  values. numpy cannot infer the free dimension of an array without samples and raises
  \<^verbatim>\<open>ValueError\<close>.
\<close>

definition reshape_rows :: "rat list list list \<Rightarrow> pyerr + rat list list" where
  "reshape_rows x = (if x = [] then Inl ValueError else Inr (map concat x))"

text \<open>
  \<^verbatim>\<open>to_categorical(y, num_classes)\<close>: a row of zeros per label with a one at the
  label's index; \<^verbatim>\<open>IndexError\<close> when a label is not below the number of classes.
\<close>

definition to_categorical :: "8 word list \<Rightarrow> nat \<Rightarrow> pyerr + rat list list" where
  "to_categorical y num_classes =
     (if list_all (\<lambda>c. unat c < num_classes) y
      then Inr (map (\<lambda>c. (replicate num_classes 0)[unat c := 1]) y)
      else Inl IndexError)"

definition get_train_test_set ::
  "(image list \<times> 8 word list) \<times> (image list \<times> 8 word list)
     \<Rightarrow> pyerr + ((rat list list \<times> rat list list) \<times> (rat list list \<times> rat list list))" where
  "get_train_test_set loaded =
     (case loaded of ((x_train, y_train), (x_test, y_test)) \<Rightarrow>
        (case reshape_rows (scale x_train) of
           Inl e \<Rightarrow> Inl e
         | Inr x_train' \<Rightarrow>
             (case reshape_rows (scale x_test) of
                Inl e \<Rightarrow> Inl e
              | Inr x_test' \<Rightarrow>
                  (case to_categorical y_train 10 of
                     Inl e \<Rightarrow> Inl e
                   | Inr y_train' \<Rightarrow>
                       (case to_categorical y_test 10 of
                          Inl e \<Rightarrow> Inl e
                        | Inr y_test' \<Rightarrow> Inr ((x_train', y_train'), (x_test', y_test')))))))"

section \<open>The workflow of the notebook\<close>

text \<open>
  The remaining cells call the libraries: Keras, hls4ml, numpy, scikit-learn and, through
  hls4ml, the synthesis tools. None of that code is the notebook's. (The first cell also
  fills the registry \<^verbatim>\<open>co\<close> of QKeras objects that \<^verbatim>\<open>load_model\<close> is given;
  the registry is part of what the environment's \<open>load_model\<close> stands for.) Each library function
  is a field of an environment, with the result it gives (an exception or a value); the
  notebook is modelled over every environment. The environment also says how many stack
  frames the interpreter still allows at the top level of a cell (\<open>recursion_frames\<close>). What the notebook does is kept in a
  \<open>world\<close>: the class attributes of hls4ml's \<^verbatim>\<open>OutputRoundingSaturationMode\<close>
  (process-wide state that the converter reads), the library calls made so far, in order
  and with their arguments, and what has been printed.
\<close>

record optimizer_globals =
  layers :: "string list"
  rounding_mode :: "string option"
  saturation_mode :: "string option"

datatype ('m, 'h) call =
    LoadModel string
  | ConfigFromKerasModel 'm string
  | ConvertFromKerasModel 'm pyval string string optimizer_globals
  | Compile 'h
  | MnistLoadData
  | HlsPredict 'h "rat list list"
  | KerasPredict 'm "rat list list"
  | Build 'h bool bool bool bool
  | ReadVivadoReport string

datatype 's out = Printed string string | Formatted string 's

record ('m, 'h, 's) world =
  globals :: optimizer_globals
  calls :: "('m, 'h) call list"
  stdout :: "'s out list"

record ('m, 'h, 's) env =
  load_model :: "string \<Rightarrow> pyerr + 'm"
  config_from_keras_model :: "'m \<Rightarrow> string \<Rightarrow> pyerr + pydict"
  convert_from_keras_model ::
    "'m \<Rightarrow> pyval \<Rightarrow> string \<Rightarrow> string \<Rightarrow> optimizer_globals \<Rightarrow> pyerr + 'h"
  compile :: "'h \<Rightarrow> pyerr + unit"
  mnist_load_data :: "pyerr + ((image list \<times> 8 word list) \<times> (image list \<times> 8 word list))"
  hls_predict :: "'h \<Rightarrow> rat list list \<Rightarrow> pyerr + rat list list"
  keras_predict :: "'m \<Rightarrow> rat list list \<Rightarrow> pyerr + rat list list"
  argmax_axis1 :: "rat list list \<Rightarrow> pyerr + nat list"
  accuracy_score :: "nat list \<Rightarrow> nat list \<Rightarrow> pyerr + 's"
  build :: "'h \<Rightarrow> bool \<Rightarrow> bool \<Rightarrow> bool \<Rightarrow> bool \<Rightarrow> pyerr + unit"
  get_output_dir :: "'h \<Rightarrow> string"
  read_vivado_report :: "string \<Rightarrow> pyerr + unit"
  recursion_frames :: nat

text \<open>
  Statements run in sequence; an exception ends the run. The world is kept in both
  cases: calls made and text printed before the exception remain.
\<close>

definition bindW ::
  "('w \<Rightarrow> (pyerr + 'a) \<times> 'w) \<Rightarrow> ('a \<Rightarrow> 'w \<Rightarrow> (pyerr + 'b) \<times> 'w) \<Rightarrow> 'w \<Rightarrow> (pyerr + 'b) \<times> 'w" where
  "bindW stmt rest w = (case stmt w of (Inl e, w') \<Rightarrow> (Inl e, w') | (Inr a, w') \<Rightarrow> rest a w')"

definition extcall ::
  "('m, 'h) call \<Rightarrow> pyerr + 'a \<Rightarrow> ('m, 'h, 's) world \<Rightarrow> (pyerr + 'a) \<times> ('m, 'h, 's) world" where
  "extcall c result w = (result, w\<lparr>calls := calls w @ [c]\<rparr>)"

definition pure_step :: "pyerr + 'a \<Rightarrow> 'w \<Rightarrow> (pyerr + 'a) \<times> 'w" where
  "pure_step result w = (result, w)"

text \<open>\<^verbatim>\<open>print_dict(cfg)\<close> as a statement: the prints go to the output.\<close>

definition print_dict_stmt ::
  "('m, 'h, 's) env \<Rightarrow> pyval \<Rightarrow> ('m, 'h, 's) world \<Rightarrow> (pyerr + unit) \<times> ('m, 'h, 's) world" where
  "print_dict_stmt env v w =
     (case v of
        VDict d \<Rightarrow>
          (case print_dict (recursion_frames env) d 0 of
             (out, r) \<Rightarrow>
               ((case r of None \<Rightarrow> Inr () | Some e \<Rightarrow> Inl e),
                w\<lparr>stdout := stdout w @ map (\<lambda>(t, e). Printed t e) out\<rparr>))
      | VStr s \<Rightarrow> (Inl AttributeError, w)
      | VInt i \<Rightarrow> (Inl AttributeError, w))"

text \<open>Cell 2: \<^verbatim>\<open>model = tf.keras.models.load_model('./section2_model_0.h5', custom_objects=co)\<close>.\<close>

definition cell_load_model :: "('m, 'h, 's) env \<Rightarrow> ('m, 'h, 's) world \<Rightarrow> (pyerr + 'm) \<times> ('m, 'h, 's) world" where
  "cell_load_model env =
     extcall (LoadModel ''./section2_model_0.h5'') (load_model env ''./section2_model_0.h5'')"

text \<open>Cell 3: the auto-derived configuration, printed.\<close>

definition cell_make_config ::
  "('m, 'h, 's) env \<Rightarrow> 'm \<Rightarrow> ('m, 'h, 's) world \<Rightarrow> (pyerr + pyval) \<times> ('m, 'h, 's) world" where
  "cell_make_config env model =
     bindW (extcall (ConfigFromKerasModel model ''name'') (config_from_keras_model env model ''name''))
       (\<lambda>d. bindW (print_dict_stmt env (VDict d)) (\<lambda>_. pure_step (Inr (VDict d))))"

text \<open>
  Cell 4: the four overrides, \<^verbatim>\<open>print_dict(cfg)\<close>, then the three assignments to the
  class attributes of \<^verbatim>\<open>hls4ml.model.optimizer.OutputRoundingSaturationMode\<close>.
\<close>

definition set_rounding_saturation :: "('m, 'h, 's) world \<Rightarrow> ('m, 'h, 's) world" where
  "set_rounding_saturation w =
     (let w1 = w\<lparr>globals := (globals w)\<lparr>layers := [''Activation'']\<rparr>\<rparr>;
          w2 = w1\<lparr>globals := (globals w1)\<lparr>rounding_mode := Some ''AP_RND''\<rparr>\<rparr>
      in w2\<lparr>globals := (globals w2)\<lparr>saturation_mode := Some ''AP_SAT''\<rparr>\<rparr>)"

definition cell_tweak_config ::
  "('m, 'h, 's) env \<Rightarrow> pyval \<Rightarrow> ('m, 'h, 's) world \<Rightarrow> (pyerr + pyval) \<times> ('m, 'h, 's) world" where
  "cell_tweak_config env cfg =
     bindW (pure_step (case cfg_tweaks cfg of (Some e, cfg') \<Rightarrow> Inl e | (None, cfg') \<Rightarrow> Inr cfg'))
       (\<lambda>cfg'. bindW (print_dict_stmt env cfg')
          (\<lambda>_ w. (Inr cfg', set_rounding_saturation w)))"

text \<open>Cell 5: conversion, which reads the class attributes as they are then, and compilation.\<close>

definition cell_convert ::
  "('m, 'h, 's) env \<Rightarrow> 'm \<Rightarrow> pyval \<Rightarrow> ('m, 'h, 's) world \<Rightarrow> (pyerr + 'h) \<times> ('m, 'h, 's) world" where
  "cell_convert env model cfg =
     bindW (\<lambda>w. extcall
               (ConvertFromKerasModel model cfg ''section2_hls4ml_prj'' ''xcu250-figd2104-2L-e'' (globals w))
               (convert_from_keras_model env model cfg ''section2_hls4ml_prj'' ''xcu250-figd2104-2L-e''
                  (globals w)) w)
       (\<lambda>hls_model. bindW (extcall (Compile hls_model) (compile env hls_model))
          (\<lambda>_. pure_step (Inr hls_model)))"

text \<open>Cell 6: the test set and the two predictions on it.\<close>

definition cell_predict ::
  "('m, 'h, 's) env \<Rightarrow> 'm \<Rightarrow> 'h \<Rightarrow> ('m, 'h, 's) world
     \<Rightarrow> (pyerr + (rat list list \<times> rat list list \<times> rat list list)) \<times> ('m, 'h, 's) world" where
  "cell_predict env model hls_model =
     bindW (extcall MnistLoadData (mnist_load_data env))
       (\<lambda>loaded. bindW (pure_step (get_train_test_set loaded))
          (\<lambda>sets. case sets of ((x_train, y_train), (x_test, y_test)) \<Rightarrow>
             bindW (extcall (HlsPredict hls_model x_test) (hls_predict env hls_model x_test))
               (\<lambda>y_hls. bindW (extcall (KerasPredict model x_test) (keras_predict env model x_test))
                  (\<lambda>y_qke. pure_step (Inr (y_test, y_hls, y_qke))))))"

text \<open>
  Cell 7: the two accuracies, printed. \<^verbatim>\<open>"QKeras Accuracy: {}".format(a)\<close> is kept as
  the label and the number formatted into it.
\<close>

definition print_accuracy ::
  "('m, 'h, 's) env \<Rightarrow> string \<Rightarrow> rat list list \<Rightarrow> rat list list
     \<Rightarrow> ('m, 'h, 's) world \<Rightarrow> (pyerr + unit) \<times> ('m, 'h, 's) world" where
  "print_accuracy env label y_true y_pred =
     bindW (pure_step (argmax_axis1 env y_true))
       (\<lambda>t. bindW (pure_step (argmax_axis1 env y_pred))
          (\<lambda>p. bindW (pure_step (accuracy_score env t p))
             (\<lambda>a w. (Inr (), w\<lparr>stdout := stdout w @ [Formatted label a]\<rparr>))))"

definition cell_accuracy ::
  "('m, 'h, 's) env \<Rightarrow> rat list list \<Rightarrow> rat list list \<Rightarrow> rat list list
     \<Rightarrow> ('m, 'h, 's) world \<Rightarrow> (pyerr + unit) \<times> ('m, 'h, 's) world" where
  "cell_accuracy env y_test y_hls y_qke =
     bindW (print_accuracy env ''QKeras Accuracy: '' y_test y_qke)
       (\<lambda>_. print_accuracy env ''hls4ml Accuracy: '' y_test y_hls)"

text \<open>Cell 8: \<^verbatim>\<open>hls_model.build(csim=False, synth=True, vsynth=True, export=False)\<close>.\<close>

definition cell_build :: "('m, 'h, 's) env \<Rightarrow> 'h \<Rightarrow> ('m, 'h, 's) world \<Rightarrow> (pyerr + unit) \<times> ('m, 'h, 's) world" where
  "cell_build env hls_model =
     extcall (Build hls_model False True True False) (build env hls_model False True True False)"

text \<open>Cell 9: \<^verbatim>\<open>hls4ml.report.read_vivado_report(hls_model.config.get_output_dir())\<close>.\<close>

definition cell_report :: "('m, 'h, 's) env \<Rightarrow> 'h \<Rightarrow> ('m, 'h, 's) world \<Rightarrow> (pyerr + unit) \<times> ('m, 'h, 's) world" where
  "cell_report env hls_model =
     extcall (ReadVivadoReport (get_output_dir env hls_model))
       (read_vivado_report env (get_output_dir env hls_model))"

text \<open>The cells in the order of the notebook.\<close>

definition notebook :: "('m, 'h, 's) env \<Rightarrow> ('m, 'h, 's) world \<Rightarrow> (pyerr + unit) \<times> ('m, 'h, 's) world" where
  "notebook env =
     bindW (cell_load_model env)
       (\<lambda>model. bindW (cell_make_config env model)
          (\<lambda>cfg0. bindW (cell_tweak_config env cfg0)
             (\<lambda>cfg. bindW (cell_convert env model cfg)
                (\<lambda>hls_model. bindW (cell_predict env model hls_model)
                   (\<lambda>preds. case preds of (y_test, y_hls, y_qke) \<Rightarrow>
                      bindW (cell_accuracy env y_test y_hls y_qke)
                        (\<lambda>_. bindW (cell_build env hls_model)
                           (\<lambda>_. cell_report env hls_model)))))))"

definition init_world :: "optimizer_globals \<Rightarrow> ('m, 'h, 's) world" where
  "init_world g = \<lparr>globals = g, calls = [], stdout = []\<rparr>"

definition rounding_saturation_setting :: optimizer_globals where
  "rounding_saturation_setting =
     \<lparr>layers = [''Activation''], rounding_mode = Some ''AP_RND'', saturation_mode = Some ''AP_SAT''\<rparr>"

text \<open>
  What the workflow fixes about two of its library calls: a conversion sees the rounding
  and saturation setting and gets the tweaked auto-derived configuration, the output
  directory and the part; a build gets the four flags \<^verbatim>\<open>csim=False\<close>,
  \<^verbatim>\<open>synth=True\<close>, \<^verbatim>\<open>vsynth=True\<close>, \<^verbatim>\<open>export=False\<close>.
\<close>

definition call_ok :: "('m, 'h, 's) env \<Rightarrow> ('m, 'h) call \<Rightarrow> bool" where
  "call_ok env e =
     (case e of
        ConvertFromKerasModel m c dir part g \<Rightarrow>
          g = rounding_saturation_setting \<and> dir = ''section2_hls4ml_prj''
          \<and> part = ''xcu250-figd2104-2L-e''
          \<and> (case config_from_keras_model env m ''name'' of
                Inl err \<Rightarrow> False
              | Inr d \<Rightarrow> cfg_tweaks (VDict d) = (None, c))
      | Build h csim synth vsynth export \<Rightarrow> \<not> csim \<and> synth \<and> vsynth \<and> \<not> export
      | _ \<Rightarrow> True)"

text \<open>
  An environment for examples. Its stand-ins for \<^verbatim>\<open>np.argmax(..., axis=1)\<close> and
  \<^verbatim>\<open>accuracy_score\<close> compute the index of the first maximum of each row and the
  fraction of equal entries; its model agrees with the labels of a two-sample test set,
  its emulation predicts class 0 throughout.
\<close>

fun argmax_from :: "rat \<Rightarrow> nat \<Rightarrow> nat \<Rightarrow> rat list \<Rightarrow> nat" where
  "argmax_from best pos i [] = pos"
| "argmax_from best pos i (x # xs) =
     (if best < x then argmax_from x i (Suc i) xs else argmax_from best pos (Suc i) xs)"

definition sample_argmax :: "rat list list \<Rightarrow> pyerr + nat list" where
  "sample_argmax rows =
     (if list_ex (\<lambda>r. r = []) rows then Inl ValueError
      else Inr (map (\<lambda>r. argmax_from (hd r) 0 1 (tl r)) rows))"

definition sample_accuracy :: "nat list \<Rightarrow> nat list \<Rightarrow> pyerr + rat" where
  "sample_accuracy y_true y_pred =
     (if length y_true \<noteq> length y_pred \<or> y_true = [] then Inl ValueError
      else Inr (of_nat (length (filter (\<lambda>(a, b). a = b) (zip y_true y_pred)))
                / of_nat (length y_true)))"

definition sample_env :: "(unit, unit, rat) env" where
  "sample_env =
     \<lparr>load_model = (\<lambda>path. Inr ()),
      config_from_keras_model =
        (\<lambda>model granularity. case sample_cfg of VDict d \<Rightarrow> Inr d | VStr s \<Rightarrow> Inl TypeError
                                | VInt i \<Rightarrow> Inl TypeError),
      convert_from_keras_model = (\<lambda>model cfg dir part g. Inr ()),
      compile = (\<lambda>h. Inr ()),
      mnist_load_data = Inr (([[[0, 255]]], [1]), ([[[0, 255]], [[255, 0]]], [1, 0])),
      hls_predict = (\<lambda>h x. Inr (map (\<lambda>r. [1 / 2, 1 / 2, 0, 0, 0, 0, 0, 0, 0, 0]) x)),
      keras_predict = (\<lambda>model x. Inr (map (\<lambda>r. r @ [0, 0, 0, 0, 0, 0, 0, 0]) x)),
      argmax_axis1 = sample_argmax,
      accuracy_score = sample_accuracy,
      build = (\<lambda>h csim synth vsynth export. Inr ()),
      get_output_dir = (\<lambda>h. ''section2_hls4ml_prj''),
      read_vivado_report = (\<lambda>dir. Inr ()),
      recursion_frames = 1000\<rparr>"

definition initial_globals :: optimizer_globals where
  "initial_globals = \<lparr>layers = [], rounding_mode = None, saturation_mode = None\<rparr>"

text \<open>
  Two notions for the statements about the log: a statement that never removes a recorded
  call, and the calls of \<^verbatim>\<open>build\<close>.
\<close>

definition grows :: "(('m, 'h, 's) world \<Rightarrow> (pyerr + 'a) \<times> ('m, 'h, 's) world) \<Rightarrow> bool" where
  "grows stmt = (\<forall>w. set (calls w) \<subseteq> set (calls (snd (stmt w))))"

fun is_build :: "('m, 'h) call \<Rightarrow> bool" where
  "is_build (Build h csim synth vsynth export) = True"
| "is_build e = False"

section \<open>The synthesis report\<close>

text \<open>
  The file \<^verbatim>\<open>files/section2_hls4ml_prj_1/vivado_synth.rpt\<close>, line by line.
\<close>

definition rpt_preamble :: "string list" where
  "rpt_preamble =
     [''Copyright 1986-2019 Xilinx, Inc. All Rights Reserved.'',
      ''------------------------------------------------------------------------------------'',
      ''| Tool Version : Vivado v.2019.2 (lin64) Build 2708876 Wed Nov  6 21:39:14 MST 2019'',
      ''| Date         : Thu Nov  5 15:17:34 2020'',
      ''| Host         : yavin running 64-bit Ubuntu 18.04.5 LTS'',
      ''| Command      : report_utilization -file vivado_synth.rpt'',
      ''| Design       : myproject'',
      ''| Device       : xcu250figd2104-2L'',
      ''| Design State : Synthesized'',
      ''------------------------------------------------------------------------------------'',
      '''',
      ''Utilization Design Information'',
      '''',
      ''Table of Contents'',
      ''-----------------'',
      ''1. CLB Logic'',
      ''1.1 Summary of Registers by Type'',
      ''2. BLOCKRAM'',
      ''3. ARITHMETIC'',
      ''4. I/O'',
      ''5. CLOCK'',
      ''6. ADVANCED'',
      ''7. CONFIGURATION'',
      ''8. Primitives'',
      ''9. Black Boxes'',
      ''10. Instantiated Netlists'',
      ''11. SLR Connectivity'',
      ''12. SLR Connectivity Matrix'',
      ''13. SLR CLB Logic and Dedicated Block Utilization'',
      ''14. SLR IO Utilization'',
      '''']"

definition rpt_clb_logic :: "string list" where
  "rpt_clb_logic =
     [''1. CLB Logic'',
      ''------------'',
      '''',
      ''+----------------------------+-------+-------+-----------+-------+'',
      ''|          Site Type         |  Used | Fixed | Available | Util% |'',
      ''+----------------------------+-------+-------+-----------+-------+'',
      ''| CLB LUTs*                  | 50888 |     0 |   1728000 |  2.94 |'',
      ''|   LUT as Logic             | 50536 |     0 |   1728000 |  2.92 |'',
      ''|   LUT as Memory            |   352 |     0 |    791040 |  0.04 |'',
      ''|     LUT as Distributed RAM |     0 |     0 |           |       |'',
      ''|     LUT as Shift Register  |   352 |     0 |           |       |'',
      ''| CLB Registers              | 71920 |     0 |   3456000 |  2.08 |'',
      ''|   Register as Flip Flop    | 71920 |     0 |   3456000 |  2.08 |'',
      ''|   Register as Latch        |     0 |     0 |   3456000 |  0.00 |'',
      ''| CARRY8                     |  1693 |     0 |    216000 |  0.78 |'',
      ''| F7 Muxes                   |  2027 |     0 |    864000 |  0.23 |'',
      ''| F8 Muxes                   |   795 |     0 |    432000 |  0.18 |'',
      ''| F9 Muxes                   |     0 |     0 |    216000 |  0.00 |'',
      ''+----------------------------+-------+-------+-----------+-------+'',
      ''* Warning! The Final LUT count, after physical optimizations and full implementation, is typically lower. Run opt_design after synthesis, if not already completed, for a more realistic count.'',
      '''',
      '''']"

definition rpt_registers :: "string list" where
  "rpt_registers =
     [''1.1 Summary of Registers by Type'',
      ''--------------------------------'',
      '''',
      ''+-------+--------------+-------------+--------------+'',
      ''| Total | Clock Enable | Synchronous | Asynchronous |'',
      ''+-------+--------------+-------------+--------------+'',
      ''| 0     |            _ |           - |            - |'',
      ''| 0     |            _ |           - |          Set |'',
      ''| 0     |            _ |           - |        Reset |'',
      ''| 0     |            _ |         Set |            - |'',
      ''| 0     |            _ |       Reset |            - |'',
      ''| 0     |          Yes |           - |            - |'',
      ''| 0     |          Yes |           - |          Set |'',
      ''| 0     |          Yes |           - |        Reset |'',
      ''| 1786  |          Yes |         Set |            - |'',
      ''| 70134 |          Yes |       Reset |            - |'',
      ''+-------+--------------+-------------+--------------+'',
      '''',
      '''']"

definition rpt_blockram :: "string list" where
  "rpt_blockram =
     [''2. BLOCKRAM'',
      ''-----------'',
      '''',
      ''+-------------------+------+-------+-----------+-------+'',
      ''|     Site Type     | Used | Fixed | Available | Util% |'',
      ''+-------------------+------+-------+-----------+-------+'',
      ''| Block RAM Tile    |  580 |     0 |      2688 | 21.58 |'',
      ''|   RAMB36/FIFO*    |  348 |     0 |      2688 | 12.95 |'',
      ''|     RAMB36E2 only |  348 |       |           |       |'',
      ''|   RAMB18          |  464 |     0 |      5376 |  8.63 |'',
      ''|     RAMB18E2 only |  464 |       |           |       |'',
      ''| URAM              |    0 |     0 |      1280 |  0.00 |'',
      ''+-------------------+------+-------+-----------+-------+'',
      ''* Note: Each Block RAM Tile only has one FIFO logic available and therefore can accommodate only one FIFO36E2 or one FIFO18E2. However, if a FIFO18E2 occupies a Block RAM Tile, that tile can still accommodate a RAMB18E2'',
      '''',
      '''']"

definition rpt_arithmetic :: "string list" where
  "rpt_arithmetic =
     [''3. ARITHMETIC'',
      ''-------------'',
      '''',
      ''+----------------+------+-------+-----------+-------+'',
      ''|    Site Type   | Used | Fixed | Available | Util% |'',
      ''+----------------+------+-------+-----------+-------+'',
      ''| DSPs           |   79 |     0 |     12288 |  0.64 |'',
      ''|   DSP48E2 only |   79 |       |           |       |'',
      ''+----------------+------+-------+-----------+-------+'',
      '''',
      '''']"

definition rpt_io :: "string list" where
  "rpt_io =
     [''4. I/O'',
      ''------'',
      '''',
      ''+------------+-------+-------+-----------+---------+'',
      ''|  Site Type |  Used | Fixed | Available |  Util%  |'',
      ''+------------+-------+-------+-----------+---------+'',
      ''| Bonded IOB | 12755 |     0 |       676 | 1886.83 |'',
      ''+------------+-------+-------+-----------+---------+'',
      '''',
      '''']"

definition rpt_clock :: "string list" where
  "rpt_clock =
     [''5. CLOCK'',
      ''--------'',
      '''',
      ''+----------------------+------+-------+-----------+-------+'',
      ''|       Site Type      | Used | Fixed | Available | Util% |'',
      ''+----------------------+------+-------+-----------+-------+'',
      ''| GLOBAL CLOCK BUFFERs |    1 |     0 |      1344 |  0.07 |'',
      ''|   BUFGCE             |    1 |     0 |       384 |  0.26 |'',
      ''|   BUFGCE_DIV         |    0 |     0 |        64 |  0.00 |'',
      ''|   BUFG_GT            |    0 |     0 |       768 |  0.00 |'',
      ''|   BUFGCTRL*          |    0 |     0 |       128 |  0.00 |'',
      ''| PLL                  |    0 |     0 |        32 |  0.00 |'',
      ''| MMCM                 |    0 |     0 |        16 |  0.00 |'',
      ''+----------------------+------+-------+-----------+-------+'',
      ''* Note: Each used BUFGCTRL counts as two GLOBAL CLOCK BUFFERs. This table does not include global clocking resources, only buffer cell usage. See the Clock Utilization Report (report_clock_utilization) for detailed accounting of global clocking resource availability.'',
      '''',
      '''']"

definition rpt_advanced :: "string list" where
  "rpt_advanced =
     [''6. ADVANCED'',
      ''-----------'',
      '''',
      ''+-----------------+------+-------+-----------+-------+'',
      ''|    Site Type    | Used | Fixed | Available | Util% |'',
      ''+-----------------+------+-------+-----------+-------+'',
      ''| CMACE4          |    0 |     0 |        12 |  0.00 |'',
      ''| GTYE4_CHANNEL   |    0 |     0 |        24 |  0.00 |'',
      ''| GTYE4_COMMON    |    0 |     0 |         6 |  0.00 |'',
      ''| ILKNE4          |    0 |     0 |         8 |  0.00 |'',
      ''| OBUFDS_GTE4     |    0 |     0 |        12 |  0.00 |'',
      ''| OBUFDS_GTE4_ADV |    0 |     0 |        12 |  0.00 |'',
      ''| PCIE40E4        |    0 |     0 |         4 |  0.00 |'',
      ''| SYSMONE4        |    0 |     0 |         4 |  0.00 |'',
      ''+-----------------+------+-------+-----------+-------+'',
      '''',
      '''']"

definition rpt_configuration :: "string list" where
  "rpt_configuration =
     [''7. CONFIGURATION'',
      ''----------------'',
      '''',
      ''+-------------+------+-------+-----------+-------+'',
      ''|  Site Type  | Used | Fixed | Available | Util% |'',
      ''+-------------+------+-------+-----------+-------+'',
      ''| BSCANE2     |    0 |     0 |        16 |  0.00 |'',
      ''| DNA_PORTE2  |    0 |     0 |         4 |  0.00 |'',
      ''| EFUSE_USR   |    0 |     0 |         4 |  0.00 |'',
      ''| FRAME_ECCE4 |    0 |     0 |         4 |  0.00 |'',
      ''| ICAPE3      |    0 |     0 |         8 |  0.00 |'',
      ''| MASTER_JTAG |    0 |     0 |         4 |  0.00 |'',
      ''| STARTUPE3   |    0 |     0 |         4 |  0.00 |'',
      ''+-------------+------+-------+-----------+-------+'',
      '''',
      '''']"

definition rpt_primitives :: "string list" where
  "rpt_primitives =
     [''8. Primitives'',
      ''-------------'',
      '''',
      ''+----------+-------+---------------------+'',
      ''| Ref Name |  Used | Functional Category |'',
      ''+----------+-------+---------------------+'',
      ''| FDRE     | 70134 |            Register |'',
      ''| LUT3     | 31613 |                 CLB |'',
      ''| LUT6     | 14893 |                 CLB |'',
      ''| LUT2     | 14417 |                 CLB |'',
      ''| INBUF    | 12548 |                 I/O |'',
      ''| IBUFCTRL | 12548 |              Others |'',
      ''| LUT5     |  5474 |                 CLB |'',
      ''| LUT4     |  5344 |                 CLB |'',
      ''| LUT1     |  3092 |                 CLB |'',
      ''| MUXF7    |  2027 |                 CLB |'',
      ''| FDSE     |  1786 |            Register |'',
      ''| CARRY8   |  1693 |                 CLB |'',
      ''| MUXF8    |   795 |                 CLB |'',
      ''| RAMB18E2 |   464 |           Block Ram |'',
      ''| SRL16E   |   352 |                 CLB |'',
      ''| RAMB36E2 |   348 |           Block Ram |'',
      ''| OBUF     |   207 |                 I/O |'',
      ''| DSP48E2  |    79 |          Arithmetic |'',
      ''| BUFGCE   |     1 |               Clock |'',
      ''+----------+-------+---------------------+'',
      '''',
      '''']"

definition rpt_black_boxes :: "string list" where
  "rpt_black_boxes =
     [''9. Black Boxes'',
      ''--------------'',
      '''',
      ''+----------+------+'',
      ''| Ref Name | Used |'',
      ''+----------+------+'',
      '''',
      '''']"

definition rpt_netlists :: "string list" where
  "rpt_netlists =
     [''10. Instantiated Netlists'',
      ''-------------------------'',
      '''',
      ''+----------+------+'',
      ''| Ref Name | Used |'',
      ''+----------+------+'',
      '''',
      '''']"

definition rpt_slr_connectivity :: "string list" where
  "rpt_slr_connectivity =
     [''11. SLR Connectivity'',
      ''--------------------'',
      '''',
      ''+----------------------------------+------+-------+-----------+-------+'',
      ''|                                  | Used | Fixed | Available | Util% |'',
      ''+----------------------------------+------+-------+-----------+-------+'',
      ''| SLR3 <-> SLR2                    |    0 |       |     23040 |  0.00 |'',
      ''|   SLR2 -> SLR3                   |    0 |       |           |  0.00 |'',
      ''|     Using TX_REG only            |    0 |     0 |           |       |'',
      ''|     Using RX_REG only            |    0 |     0 |           |       |'',
      ''|     Using Both TX_REG and RX_REG |    0 |     0 |           |       |'',
      ''|   SLR3 -> SLR2                   |    0 |       |           |  0.00 |'',
      ''|     Using TX_REG only            |    0 |     0 |           |       |'',
      ''|     Using RX_REG only            |    0 |     0 |           |       |'',
      ''|     Using Both TX_REG and RX_REG |    0 |     0 |           |       |'',
      ''| SLR2 <-> SLR1                    |    0 |       |     23040 |  0.00 |'',
      ''|   SLR1 -> SLR2                   |    0 |       |           |  0.00 |'',
      ''|     Using TX_REG only            |    0 |     0 |           |       |'',
      ''|     Using RX_REG only            |    0 |     0 |           |       |'',
      ''|     Using Both TX_REG and RX_REG |    0 |     0 |           |       |'',
      ''|   SLR2 -> SLR1                   |    0 |       |           |  0.00 |'',
      ''|     Using TX_REG only            |    0 |     0 |           |       |'',
      ''|     Using RX_REG only            |    0 |     0 |           |       |'',
      ''|     Using Both TX_REG and RX_REG |    0 |     0 |           |       |'',
      ''| SLR1 <-> SLR0                    |    0 |       |     23040 |  0.00 |'',
      ''|   SLR0 -> SLR1                   |    0 |       |           |  0.00 |'',
      ''|     Using TX_REG only            |    0 |     0 |           |       |'',
      ''|     Using RX_REG only            |    0 |     0 |           |       |'',
      ''|     Using Both TX_REG and RX_REG |    0 |     0 |           |       |'',
      ''|   SLR1 -> SLR0                   |    0 |       |           |  0.00 |'',
      ''|     Using TX_REG only            |    0 |     0 |           |       |'',
      ''|     Using RX_REG only            |    0 |     0 |           |       |'',
      ''|     Using Both TX_REG and RX_REG |    0 |     0 |           |       |'',
      ''+----------------------------------+------+-------+-----------+-------+'',
      ''| Total SLLs Used                  |    0 |       |           |       |'',
      ''+----------------------------------+------+-------+-----------+-------+'',
      '''',
      '''']"

definition rpt_slr_matrix :: "string list" where
  "rpt_slr_matrix =
     [''12. SLR Connectivity Matrix'',
      ''---------------------------'',
      '''',
      ''+-----------+------+------+------+------+'',
      ''| FROM '' @ [CHR 0x5C] @ '' TO | SLR3 | SLR2 | SLR1 | SLR0 |'',
      ''+-----------+------+------+------+------+'',
      ''| SLR3      |    0 |    0 |    0 |    0 |'',
      ''| SLR2      |    0 |    0 |    0 |    0 |'',
      ''| SLR1      |    0 |    0 |    0 |    0 |'',
      ''| SLR0      |    0 |    0 |    0 |    0 |'',
      ''+-----------+------+------+------+------+'',
      '''',
      '''']"

definition rpt_slr_clb :: "string list" where
  "rpt_slr_clb =
     [''13. SLR CLB Logic and Dedicated Block Utilization'',
      ''-------------------------------------------------'',
      '''',
      ''+----------------------------+------+------+------+------+--------+--------+--------+--------+'',
      ''|          Site Type         | SLR0 | SLR1 | SLR2 | SLR3 | SLR0 % | SLR1 % | SLR2 % | SLR3 % |'',
      ''+----------------------------+------+------+------+------+--------+--------+--------+--------+'',
      ''| CLB                        |    0 |    0 |    0 |    0 |   0.00 |   0.00 |   0.00 |   0.00 |'',
      ''|   CLBL                     |    0 |    0 |    0 |    0 |   0.00 |   0.00 |   0.00 |   0.00 |'',
      ''|   CLBM                     |    0 |    0 |    0 |    0 |   0.00 |   0.00 |   0.00 |   0.00 |'',
      ''| CLB LUTs                   |    0 |    0 |    0 |    0 |   0.00 |   0.00 |   0.00 |   0.00 |'',
      ''|   LUT as Logic             |    0 |    0 |    0 |    0 |   0.00 |   0.00 |   0.00 |   0.00 |'',
      ''|   LUT as Memory            |    0 |    0 |    0 |    0 |   0.00 |   0.00 |   0.00 |   0.00 |'',
      ''|     LUT as Distributed RAM |    0 |    0 |    0 |    0 |   0.00 |   0.00 |   0.00 |   0.00 |'',
      ''|     LUT as Shift Register  |    0 |    0 |    0 |    0 |   0.00 |   0.00 |   0.00 |   0.00 |'',
      ''| CLB Registers              |    0 |    0 |    0 |    0 |   0.00 |   0.00 |   0.00 |   0.00 |'',
      ''| CARRY8                     |    0 |    0 |    0 |    0 |   0.00 |   0.00 |   0.00 |   0.00 |'',
      ''| F7 Muxes                   |    0 |    0 |    0 |    0 |   0.00 |   0.00 |   0.00 |   0.00 |'',
      ''| F8 Muxes                   |    0 |    0 |    0 |    0 |   0.00 |   0.00 |   0.00 |   0.00 |'',
      ''| F9 Muxes                   |    0 |    0 |    0 |    0 |   0.00 |   0.00 |   0.00 |   0.00 |'',
      ''| Block RAM Tile             |    0 |    0 |    0 |    0 |   0.00 |   0.00 |   0.00 |   0.00 |'',
      ''|   RAMB36/FIFO              |    0 |    0 |    0 |    0 |   0.00 |   0.00 |   0.00 |   0.00 |'',
      ''|   RAMB18                   |    0 |    0 |    0 |    0 |   0.00 |   0.00 |   0.00 |   0.00 |'',
      ''| URAM                       |    0 |    0 |    0 |    0 |   0.00 |   0.00 |   0.00 |   0.00 |'',
      ''| DSPs                       |    0 |    0 |    0 |    0 |   0.00 |   0.00 |   0.00 |   0.00 |'',
      ''| PLL                        |    0 |    0 |    0 |    0 |   0.00 |   0.00 |   0.00 |   0.00 |'',
      ''| MMCM                       |    0 |    0 |    0 |    0 |   0.00 |   0.00 |   0.00 |   0.00 |'',
      ''| Unique Control Sets        |    0 |    0 |    0 |    0 |   0.00 |   0.00 |   0.00 |   0.00 |'',
      ''+----------------------------+------+------+------+------+--------+--------+--------+--------+'',
      ''* Note: Available Control Sets based on CLB Registers / 8'',
      '''',
      '''']"

definition rpt_slr_io :: "string list" where
  "rpt_slr_io =
     [''14. SLR IO Utilization'',
      ''----------------------'',
      '''',
      ''+-----------+-----------+---------+------------+----------+------------+----------+-----+'',
      ''| SLR Index | Used IOBs | (%)IOBs | Used IPADs | (%)IPADs | Used OPADs | (%)OPADs | GTs |'',
      ''+-----------+-----------+---------+------------+----------+------------+----------+-----+'',
      ''| SLR3      |         0 |    0.00 |          0 |     0.00 |          0 |     0.00 |   0 |'',
      ''| SLR2      |         0 |    0.00 |          0 |     0.00 |          0 |     0.00 |   0 |'',
      ''| SLR1      |         0 |    0.00 |          0 |     0.00 |          0 |     0.00 |   0 |'',
      ''| SLR0      |         0 |    0.00 |          0 |     0.00 |          0 |     0.00 |   0 |'',
      ''+-----------+-----------+---------+------------+----------+------------+----------+-----+'',
      ''| Total     |         0 |         |          0 |          |          0 |          |   0 |'',
      ''+-----------+-----------+---------+------------+----------+------------+----------+-----+'',
      '''']"

definition vivado_synth_rpt :: "string list" where
  "vivado_synth_rpt =
     rpt_preamble
     @ rpt_clb_logic
     @ rpt_registers
     @ rpt_blockram
     @ rpt_arithmetic
     @ rpt_io
     @ rpt_clock
     @ rpt_advanced
     @ rpt_configuration
     @ rpt_primitives
     @ rpt_black_boxes
     @ rpt_netlists
     @ rpt_slr_connectivity
     @ rpt_slr_matrix
     @ rpt_slr_clb
     @ rpt_slr_io"

text \<open>
  Modelled from the spec: the Reporter. \<^verbatim>\<open>read_vivado_report\<close> is hls4ml's; the
  notebook only calls it. The specification (sections 4.6 and 6) has the report as a
  fixed-width text table in numbered sections and the Reporter as a parser that returns,
  for each resource, the used, available and percentage figures. The functions below
  read that layout: a table line starts with a bar, and its cells are the strings between bars
  without the surrounding spaces; the first table line of a section names the columns.
\<close>

fun split_on :: "char \<Rightarrow> string \<Rightarrow> string list" where
  "split_on c [] = [[]]"
| "split_on c (x # xs) =
     (if x = c then [] # split_on c xs
      else (case split_on c xs of [] \<Rightarrow> [[x]] | w # ws \<Rightarrow> (x # w) # ws))"

definition trim :: "string \<Rightarrow> string" where
  "trim s = rev (dropWhile (\<lambda>c. c = CHR '' '') (rev (dropWhile (\<lambda>c. c = CHR '' '') s)))"

definition is_table_line :: "string \<Rightarrow> bool" where
  "is_table_line l = (case l of [] \<Rightarrow> False | c # cs \<Rightarrow> c = CHR ''|'')"

definition cells :: "string \<Rightarrow> string list" where
  "cells l = map trim (butlast (tl (split_on CHR ''|'' l)))"

text \<open>
  A heading is a line underlined by a line of dashes of its own length; the lines up to
  the next heading are its block. The table of contents is the block headed
  \<open>Table of Contents\<close>, up to its first empty line; the other blocks are the sections.
\<close>

definition underlines :: "string \<Rightarrow> string \<Rightarrow> bool" where
  "underlines l u =
     (case u of
        [] \<Rightarrow> False
      | c # cs \<Rightarrow>
          (if c = CHR ''-'' then list_all (\<lambda>x. x = CHR ''-'') cs \<and> length u = length l
           else False))"

fun headed_step ::
  "string \<Rightarrow> string list \<times> (string \<times> string list) list
     \<Rightarrow> string list \<times> (string \<times> string list) list" where
  "headed_step l ([], blocks) = ([l], blocks)"
| "headed_step l (u # body, blocks) =
     (if underlines l u then ([], (l, body) # blocks) else (l # u # body, blocks))"

definition headed_blocks :: "string list \<Rightarrow> (string \<times> string list) list" where
  "headed_blocks ls = snd (foldr headed_step ls ([], []))"

definition table_of_contents :: "string list \<Rightarrow> string list" where
  "table_of_contents ls =
     (case filter (\<lambda>b. fst b = ''Table of Contents'') (headed_blocks ls) of
        [] \<Rightarrow> []
      | b # bs \<Rightarrow> takeWhile (\<lambda>l. l \<noteq> []) (snd b))"

definition split_sections :: "string list \<Rightarrow> (string \<times> string list) list" where
  "split_sections ls = filter (\<lambda>b. fst b \<noteq> ''Table of Contents'') (headed_blocks ls)"

record report_section =
  title :: string
  columns :: "string list"
  rows :: "string list list"

definition parse_section :: "string \<times> string list \<Rightarrow> report_section" where
  "parse_section s =
     (case filter is_table_line (snd s) of
        [] \<Rightarrow> \<lparr>title = fst s, columns = [], rows = []\<rparr>
      | h # rs \<Rightarrow> \<lparr>title = fst s, columns = cells h, rows = map cells rs\<rparr>)"

definition sections :: "string list \<Rightarrow> report_section list" where
  "sections ls = map parse_section (split_sections ls)"

text \<open>Numbers: a cell of digits, or digits with a decimal point; an empty cell is no figure.\<close>

definition digit_val :: "char \<Rightarrow> nat option" where
  "digit_val c = map_of (zip ''0123456789'' [0, 1, 2, 3, 4, 5, 6, 7, 8, 9]) c"

fun parse_digits :: "nat \<Rightarrow> string \<Rightarrow> nat option" where
  "parse_digits acc [] = Some acc"
| "parse_digits acc (c # cs) =
     (case digit_val c of None \<Rightarrow> None | Some d \<Rightarrow> parse_digits (10 * acc + d) cs)"

definition parse_nat :: "string \<Rightarrow> nat option" where
  "parse_nat s = (if s = [] then None else parse_digits 0 s)"

definition parse_decimal :: "string \<Rightarrow> rat option" where
  "parse_decimal s =
     (case split_on CHR ''.'' s of
        [w] \<Rightarrow> map_option of_nat (parse_nat w)
      | [w, f] \<Rightarrow>
          (case (parse_nat w, parse_nat f) of
             (Some a, Some b) \<Rightarrow> Some (of_nat a + of_nat b / 10 ^ length f)
           | _ \<Rightarrow> None)
      | _ \<Rightarrow> None)"

text \<open>The cell of a row under a named column.\<close>

fun index_of :: "'a \<Rightarrow> 'a list \<Rightarrow> nat option" where
  "index_of x [] = None"
| "index_of x (y # ys) = (if x = y then Some 0 else map_option Suc (index_of x ys))"

definition cell_under :: "string list \<Rightarrow> string \<Rightarrow> string list \<Rightarrow> string option" where
  "cell_under cols name row =
     (case index_of name cols of
        None \<Rightarrow> None
      | Some i \<Rightarrow> if i < length row then Some (row ! i) else None)"

record figures =
  used :: "nat option"
  available :: "nat option"
  util :: "rat option"

definition row_figures :: "string list \<Rightarrow> string list \<Rightarrow> figures" where
  "row_figures cols row =
     \<lparr>used = Option.bind (cell_under cols ''Used'' row) parse_nat,
      available = Option.bind (cell_under cols ''Available'' row) parse_nat,
      util = Option.bind (cell_under cols ''Util%'' row) parse_decimal\<rparr>"

definition has_utilization_columns :: "report_section \<Rightarrow> bool" where
  "has_utilization_columns s = (tl (columns s) = [''Used'', ''Fixed'', ''Available'', ''Util%''])"

definition section_figures :: "report_section \<Rightarrow> (string \<times> figures) list" where
  "section_figures s =
     (if has_utilization_columns s
      then map (\<lambda>r. (case r of [] \<Rightarrow> [] | n # cs \<Rightarrow> n, row_figures (columns s) r)) (rows s)
      else [])"

definition read_report :: "string list \<Rightarrow> (string \<times> figures) list" where
  "read_report ls = concat (map section_figures (sections ls))"

text \<open>
  Fixed width: within a section, the table lines (rules and rows) all have the same length.
\<close>

definition fixed_width :: "string list \<Rightarrow> bool" where
  "fixed_width ls =
     (case filter (\<lambda>l. case l of [] \<Rightarrow> False | c # cs \<Rightarrow> c = CHR ''|'' \<or> c = CHR ''+'') ls of
        [] \<Rightarrow> True
      | l # rest \<Rightarrow> list_all (\<lambda>x. length x = length l) rest)"

text \<open>Whether a title mentions a phrase.\<close>

fun starts_with :: "string \<Rightarrow> string \<Rightarrow> bool" where
  "starts_with [] s = True"
| "starts_with (p # ps) [] = False"
| "starts_with (p # ps) (c # cs) = (p = c \<and> starts_with ps cs)"

fun mentions :: "string \<Rightarrow> string \<Rightarrow> bool" where
  "mentions p [] = (p = [])"
| "mentions p (c # cs) = (starts_with p (c # cs) \<or> mentions p cs)"

section \<open>Properties\<close>

subsection \<open>The overrides\<close>

lemma getitem_Inr:
  "getitem d k = Inr v \<longleftrightarrow> (\<exists>kvs. d = VDict kvs \<and> map_of kvs (KStr k) = Some v)"
  by (cases d) (auto split: option.splits)

lemma setitem_Inr:
  "setitem d k v = Inr d' \<longleftrightarrow> (\<exists>kvs. d = VDict kvs \<and> d' = VDict (AList.update (KStr k) v kvs))"
  by (cases d) auto

lemma lookup_setitem:
  "setitem d k v = Inr d' \<Longrightarrow> lookup d' k' = (if k' = k then Some v else lookup d k')"
  by (auto simp: setitem_Inr update_conv')

lemma lookup_getitem: "getitem d k = Inr v \<Longrightarrow> lookup d k = Some v"
  by (auto simp: getitem_Inr)

lemma setitem3_Inr:
  assumes "setitem3 d k1 k2 k3 v = Inr d'"
  shows "\<exists>d1 d2 d2' d1'. getitem d k1 = Inr d1 \<and> getitem d1 k2 = Inr d2 \<and>
           setitem d2 k3 v = Inr d2' \<and> setitem d1 k2 d2' = Inr d1' \<and> setitem d k1 d1' = Inr d'"
  using assms unfolding setitem3_def by (auto split: sum.splits)

lemma entry_apply_override:
  assumes "apply_override ov cfg = Inr cfg'"
  shows "entry cfg' s key = (if assigns ov s key \<or> replaces ov s then written ov key else entry cfg s key)"
proof (cases ov)
  case (OvModel v)
  with assms have st: "setitem cfg ''Model'' v = Inr cfg'" by simp
  show ?thesis
  proof (cases s)
    case Model
    with OvModel show ?thesis by (simp add: lookup_setitem [OF st])
  next
    case (Layer layer)
    with OvModel show ?thesis by (simp add: lookup_setitem [OF st])
  qed
next
  case (OvLayer l k v)
  with assms have "setitem3 cfg ''LayerName'' l k v = Inr cfg'" by simp
  from setitem3_Inr [OF this] obtain d1 d2 d2' d1' where
    g1: "getitem cfg ''LayerName'' = Inr d1" and g2: "getitem d1 l = Inr d2" and
    s3: "setitem d2 k v = Inr d2'" and s2: "setitem d1 l d2' = Inr d1'" and
    s1: "setitem cfg ''LayerName'' d1' = Inr cfg'"
    by blast
  show ?thesis
  proof (cases s)
    case Model
    with OvLayer show ?thesis by (simp add: lookup_setitem [OF s1])
  next
    case (Layer layer)
    with OvLayer show ?thesis
      by (simp add: lookup_setitem [OF s1] lookup_setitem [OF s2] lookup_setitem [OF s3]
          lookup_getitem [OF g1] lookup_getitem [OF g2])
  qed
qed

lemma exec_override_step:
  assumes "exec_override ov cfg = (None, cfg')"
  shows "entry cfg' s key = (if assigns ov s key \<or> replaces ov s then written ov key else entry cfg s key)"
proof -
  from assms have "apply_override ov cfg = Inr cfg'"
    by (auto simp: exec_override_def split: sum.splits)
  then show ?thesis by (rule entry_apply_override)
qed

lemma run_overrides_append:
  "run_overrides (xs @ ys) cfg =
     (case run_overrides xs cfg of
        (Some e, c) \<Rightarrow> (Some e, c)
      | (None, c) \<Rightarrow> run_overrides ys c)"
  by (induction xs arbitrary: cfg) (auto split: prod.splits option.splits)

lemma run_overrides_untouched:
  assumes "run_overrides ovs cfg = (None, cfg')"
    and "\<forall>ov \<in> set ovs. \<not> assigns ov s key \<and> \<not> replaces ov s"
  shows "entry cfg' s key = entry cfg s key"
  using assms
proof (induction ovs arbitrary: cfg)
  case Nil
  then show ?case by simp
next
  case (Cons ov ovs)
  from Cons.prems(1) obtain c where
    st: "exec_override ov cfg = (None, c)" and rest: "run_overrides ovs c = (None, cfg')"
    by (auto split: prod.splits option.splits)
  from Cons.prems(2) have "\<not> (assigns ov s key \<or> replaces ov s)"
    and "\<forall>ov \<in> set ovs. \<not> assigns ov s key \<and> \<not> replaces ov s"
    by simp_all
  with Cons.IH [OF rest] exec_override_step [OF st, of s key] show ?case by simp
qed


lemma run_overrides_failure:
  "run_overrides ovs cfg = (Some e, cfg') \<Longrightarrow>
     \<exists>pre ov post. ovs = pre @ ov # post \<and> run_overrides pre cfg = (None, cfg')
        \<and> apply_override ov cfg' = Inl e"
proof (induction ovs arbitrary: cfg)
  case Nil
  then show ?case by simp
next
  case (Cons ov ovs)
  show ?case
  proof (cases "apply_override ov cfg")
    case (Inl e')
    with Cons.prems have "e' = e" and "cfg' = cfg" by (simp_all add: exec_override_def)
    with Inl have "ov # ovs = [] @ ov # ovs \<and> run_overrides [] cfg = (None, cfg')
        \<and> apply_override ov cfg' = Inl e"
      by simp
    then show ?thesis by blast
  next
    case (Inr c)
    with Cons.prems have "run_overrides ovs c = (Some e, cfg')" by (simp add: exec_override_def)
    from Cons.IH [OF this] obtain pre ov' post where
      "ovs = pre @ ov' # post" "run_overrides pre c = (None, cfg')" "apply_override ov' cfg' = Inl e"
      by blast
    with Inr have "ov # ovs = (ov # pre) @ ov' # post \<and> run_overrides (ov # pre) cfg = (None, cfg')
        \<and> apply_override ov' cfg' = Inl e"
      by (simp add: exec_override_def)
    then show ?thesis by blast
  qed
qed

lemma cfg_tweaks_run: "cfg_tweaks cfg = run_overrides spec_override_sequence cfg"
  unfolding cfg_tweaks_def spec_override_sequence_def
  by (simp add: exec_override_def split: sum.splits)

lemma cfg_tweaks_entry:
  assumes "cfg_tweaks cfg = (None, cfg')"
  shows "entry cfg' s key =
     (case s of
        Model \<Rightarrow>
          lookup (VDict [(KStr ''Precision'', VStr ''ap_fixed<16,6>''),
                         (KStr ''ReuseFactor'', VInt 1),
                         (KStr ''Strategy'', VStr ''Resource'')]) key
      | Layer layer \<Rightarrow>
          if layer = ''activation_2'' \<and> key = ''Strategy'' then Some (VStr ''Stable'')
          else if layer = ''q_dense_1'' \<and> key = ''Strategy'' then Some (VStr ''Latency'')
          else if layer = ''q_dense'' \<and> key = ''ReuseFactor'' then Some (VInt 112)
          else entry cfg (Layer layer) key)"
proof -
  let ?m = "VDict [(KStr ''Precision'', VStr ''ap_fixed<16,6>''),
                   (KStr ''ReuseFactor'', VInt 1),
                   (KStr ''Strategy'', VStr ''Resource'')]"
  from assms obtain c1 c2 c3 where
    1: "exec_override (OvModel ?m) cfg = (None, c1)" and
    2: "exec_override (OvLayer ''q_dense'' ''ReuseFactor'' (VInt 112)) c1 = (None, c2)" and
    3: "exec_override (OvLayer ''q_dense_1'' ''Strategy'' (VStr ''Latency'')) c2 = (None, c3)" and
    4: "exec_override (OvLayer ''activation_2'' ''Strategy'' (VStr ''Stable'')) c3 = (None, cfg')"
    unfolding cfg_tweaks_run spec_override_sequence_def
    by (auto split: prod.splits option.splits)
  note e1 = exec_override_step [OF 1, of s key] and e2 = exec_override_step [OF 2, of s key]
    and e3 = exec_override_step [OF 3, of s key] and e4 = exec_override_step [OF 4, of s key]
  show ?thesis
  proof (cases s)
    case Model
    with e1 e2 e3 e4 show ?thesis by simp
  next
    case (Layer layer)
    with e1 e2 e3 e4 show ?thesis by auto
  qed
qed

text \<open>
  C4. The configuration cell applies exactly the override sequence of the specification,
  in that order: the \<open>Model\<close> scope set to precision \<open>ap_fixed<16,6>\<close>, reuse factor 1
  and strategy \<open>Resource\<close>; then reuse factor 112 for \<open>q_dense\<close>; then strategy
  \<open>Latency\<close> for \<open>q_dense_1\<close>; then strategy \<open>Stable\<close> for \<open>activation_2\<close>. On every
  configuration the four statements of the cell and the run of that sequence agree, in
  the resulting dictionary and in the error raised (if any). When the cell returns, the
  configuration holds these six values, the \<open>Model\<close> scope holds nothing else, and every
  other layer setting is the one the cell found. When a statement raises, the
  configuration is the one the statements before it have made, in the order of the
  sequence.
\<close>

theorem cfg_tweaks_is_spec_sequence:
  "cfg_tweaks cfg = run_overrides spec_override_sequence cfg
   \<and> (\<forall>cfg'. cfg_tweaks cfg = (None, cfg') \<longrightarrow>
          entry cfg' Model ''Precision'' = Some (VStr ''ap_fixed<16,6>'')
        \<and> entry cfg' Model ''ReuseFactor'' = Some (VInt 1)
        \<and> entry cfg' Model ''Strategy'' = Some (VStr ''Resource'')
        \<and> entry cfg' (Layer ''q_dense'') ''ReuseFactor'' = Some (VInt 112)
        \<and> entry cfg' (Layer ''q_dense_1'') ''Strategy'' = Some (VStr ''Latency'')
        \<and> entry cfg' (Layer ''activation_2'') ''Strategy'' = Some (VStr ''Stable'')
        \<and> (\<forall>key. key \<notin> {''Precision'', ''ReuseFactor'', ''Strategy''}
              \<longrightarrow> entry cfg' Model key = None)
        \<and> (\<forall>layer key.
              (layer, key) \<notin> {(''q_dense'', ''ReuseFactor''), (''q_dense_1'', ''Strategy''),
                               (''activation_2'', ''Strategy'')}
              \<longrightarrow> entry cfg' (Layer layer) key = entry cfg (Layer layer) key))
   \<and> (\<forall>e cfg'. cfg_tweaks cfg = (Some e, cfg') \<longrightarrow>
          (\<exists>pre ov post. spec_override_sequence = pre @ ov # post
             \<and> run_overrides pre cfg = (None, cfg') \<and> apply_override ov cfg' = Inl e))"
proof -
  have succ: "entry cfg' Model ''Precision'' = Some (VStr ''ap_fixed<16,6>'')
        \<and> entry cfg' Model ''ReuseFactor'' = Some (VInt 1)
        \<and> entry cfg' Model ''Strategy'' = Some (VStr ''Resource'')
        \<and> entry cfg' (Layer ''q_dense'') ''ReuseFactor'' = Some (VInt 112)
        \<and> entry cfg' (Layer ''q_dense_1'') ''Strategy'' = Some (VStr ''Latency'')
        \<and> entry cfg' (Layer ''activation_2'') ''Strategy'' = Some (VStr ''Stable'')
        \<and> (\<forall>key. key \<notin> {''Precision'', ''ReuseFactor'', ''Strategy''}
              \<longrightarrow> entry cfg' Model key = None)
        \<and> (\<forall>layer key.
              (layer, key) \<notin> {(''q_dense'', ''ReuseFactor''), (''q_dense_1'', ''Strategy''),
                               (''activation_2'', ''Strategy'')}
              \<longrightarrow> entry cfg' (Layer layer) key = entry cfg (Layer layer) key)"
    if r: "cfg_tweaks cfg = (None, cfg')" for cfg'
    unfolding cfg_tweaks_entry [OF r] by auto
  have fail: "\<exists>pre ov post. spec_override_sequence = pre @ ov # post
             \<and> run_overrides pre cfg = (None, cfg') \<and> apply_override ov cfg' = Inl e"
    if "cfg_tweaks cfg = (Some e, cfg')" for e cfg'
    using that unfolding cfg_tweaks_run by (rule run_overrides_failure)
  have eq: "cfg_tweaks cfg = run_overrides spec_override_sequence cfg" by (rule cfg_tweaks_run)
  from eq succ fail show ?thesis by blast
qed

theorem cfg_tweaks_is_spec_sequence_witness:
  "fst (cfg_tweaks sample_cfg) = None
   \<and> entry (snd (cfg_tweaks sample_cfg)) Model ''Strategy'' = Some (VStr ''Resource'')
   \<and> entry sample_cfg Model ''Strategy'' = Some (VStr ''Latency'')
   \<and> entry (snd (cfg_tweaks sample_cfg)) (Layer ''q_dense'') ''ReuseFactor'' = Some (VInt 112)
   \<and> entry sample_cfg (Layer ''q_dense'') ''ReuseFactor'' = Some (VInt 1)
   \<and> entry (snd (cfg_tweaks sample_cfg)) (Layer ''q_dense_1'') ''Strategy'' = Some (VStr ''Latency'')
   \<and> entry (snd (cfg_tweaks sample_cfg)) (Layer ''activation_2'') ''Strategy'' = Some (VStr ''Stable'')
   \<and> entry (snd (cfg_tweaks sample_cfg)) (Layer ''q_dense_1'') ''ReuseFactor'' = Some (VInt 1)
   \<and> cfg_tweaks (VDict [(KStr ''LayerName'', VDict [(KStr ''q_dense'', VDict [])])])
       = (Some KeyError,
          VDict [(KStr ''LayerName'',
                    VDict [(KStr ''q_dense'', VDict [(KStr ''ReuseFactor'', VInt 112)])]),
                 (KStr ''Model'',
                    VDict [(KStr ''Precision'', VStr ''ap_fixed<16,6>''),
                           (KStr ''ReuseFactor'', VInt 1),
                           (KStr ''Strategy'', VStr ''Resource'')])])
   \<and> (\<exists>pre ov post. spec_override_sequence = pre @ ov # post
         \<and> fst (run_overrides pre (VDict [(KStr ''LayerName'', VDict [(KStr ''q_dense'', VDict [])])]))
             = None
         \<and> apply_override ov
             (VDict [(KStr ''LayerName'',
                        VDict [(KStr ''q_dense'', VDict [(KStr ''ReuseFactor'', VInt 112)])]),
                     (KStr ''Model'',
                        VDict [(KStr ''Precision'', VStr ''ap_fixed<16,6>''),
                               (KStr ''ReuseFactor'', VInt 1),
                               (KStr ''Strategy'', VStr ''Resource'')])])
             = Inl KeyError)"
proof -
  have ok: "fst (cfg_tweaks sample_cfg) = None"
    by (simp add: cfg_tweaks_def sample_cfg_def setitem3_def)
  then have r: "cfg_tweaks sample_cfg = (None, snd (cfg_tweaks sample_cfg))"
    by (metis prod.collapse)
  note main = cfg_tweaks_is_spec_sequence [of sample_cfg, THEN conjunct2, THEN conjunct1,
      rule_format, OF r]
  have base: "entry sample_cfg Model ''Strategy'' = Some (VStr ''Latency'')"
    "entry sample_cfg (Layer ''q_dense'') ''ReuseFactor'' = Some (VInt 1)"
    "entry sample_cfg (Layer ''q_dense_1'') ''ReuseFactor'' = Some (VInt 1)"
    by (simp_all add: sample_cfg_def)
  from main have keep: "entry (snd (cfg_tweaks sample_cfg)) (Layer ''q_dense_1'') ''ReuseFactor''
      = entry sample_cfg (Layer ''q_dense_1'') ''ReuseFactor''"
    by simp
  let ?small = "VDict [(KStr ''LayerName'', VDict [(KStr ''q_dense'', VDict [])])]"
  let ?state = "VDict [(KStr ''LayerName'',
                    VDict [(KStr ''q_dense'', VDict [(KStr ''ReuseFactor'', VInt 112)])]),
                 (KStr ''Model'',
                    VDict [(KStr ''Precision'', VStr ''ap_fixed<16,6>''),
                           (KStr ''ReuseFactor'', VInt 1),
                           (KStr ''Strategy'', VStr ''Resource'')])]"
  have fail: "cfg_tweaks ?small = (Some KeyError, ?state)"
    by (simp add: cfg_tweaks_def setitem3_def)
  from cfg_tweaks_is_spec_sequence [of ?small, THEN conjunct2, THEN conjunct2, rule_format, OF fail]
  obtain pre ov post where
    "spec_override_sequence = pre @ ov # post" "run_overrides pre ?small = (None, ?state)"
    "apply_override ov ?state = Inl KeyError"
    by blast
  then have ex: "\<exists>pre ov post. spec_override_sequence = pre @ ov # post
         \<and> fst (run_overrides pre ?small) = None \<and> apply_override ov ?state = Inl KeyError"
    by force
  from ok main base keep fail ex show ?thesis by simp
qed

text \<open>
  C2 as stated fails. The cell's overrides run on a configuration with a fourth global
  setting, \<open>BramFactor\<close>. No override assigns that setting, yet it does not keep its
  auto-derived value: the first statement replaces the whole \<open>Model\<close> scope, and the
  setting is gone.
\<close>

theorem unassigned_setting_counterexample:
  "fst (run_overrides spec_override_sequence sample_cfg_bram) = None
   \<and> list_all (\<lambda>ov. \<not> assigns ov Model ''BramFactor'') spec_override_sequence
   \<and> entry sample_cfg_bram Model ''BramFactor'' = Some (VInt 1000000000)
   \<and> entry (snd (run_overrides spec_override_sequence sample_cfg_bram)) Model ''BramFactor''
       = None"
  by (simp add: spec_override_sequence_def sample_cfg_bram_def exec_override_def setitem3_def)

text \<open>
  C2, amended. When a sequence of overrides runs without raising: an entry assigned by
  some override holds the value of the last override assigning it, provided no later
  override replaces its scope; an entry that no override assigns and whose scope no
  override replaces holds what it held in the auto-derived dictionary; and a setting of the
  \<open>Model\<close> scope that the last assignment to \<^verbatim>\<open>cfg['Model']\<close> does not list, and
  no later override assigns, is absent.
\<close>

theorem overrides_last_write_wins:
  assumes "run_overrides ovs cfg = (None, cfg')"
  shows "(\<forall>pre ov post. ovs = pre @ ov # post \<and> assigns ov s key \<and>
             (\<forall>ov' \<in> set post. \<not> assigns ov' s key \<and> \<not> replaces ov' s)
           \<longrightarrow> entry cfg' s key = written ov key \<and> written ov key \<noteq> None)
       \<and> ((\<forall>ov \<in> set ovs. \<not> assigns ov s key \<and> \<not> replaces ov s)
           \<longrightarrow> entry cfg' s key = entry cfg s key)
       \<and> (\<forall>pre ov post. ovs = pre @ ov # post \<and> replaces ov s \<and> \<not> assigns ov s key \<and>
             (\<forall>ov' \<in> set post. \<not> assigns ov' s key \<and> \<not> replaces ov' s)
           \<longrightarrow> entry cfg' s key = None)"
proof -
  have last: "entry cfg' s key = written ov key"
    if h: "ovs = pre @ ov # post" "assigns ov s key \<or> replaces ov s"
      "\<forall>ov' \<in> set post. \<not> assigns ov' s key \<and> \<not> replaces ov' s"
    for pre ov post
  proof -
    from assms h(1) have "run_overrides (pre @ [ov] @ post) cfg = (None, cfg')" by simp
    then obtain c1 c2 where
      r1: "run_overrides pre cfg = (None, c1)" and
      r2: "exec_override ov c1 = (None, c2)" and
      r3: "run_overrides post c2 = (None, cfg')"
      by (auto simp: run_overrides_append split: prod.splits option.splits)
    from run_overrides_untouched [OF r3 h(3)] have "entry cfg' s key = entry c2 s key" .
    also from exec_override_step [OF r2, of s key] h(2) have "\<dots> = written ov key" by simp
    finally show ?thesis .
  qed
  have some: "written ov key \<noteq> None" if "assigns ov s key" for ov
    using that by (cases ov; cases s) auto
  have none: "written ov key = None" if "replaces ov s" "\<not> assigns ov s key" for ov
    using that by (cases ov; cases s) auto
  show ?thesis
  proof (intro conjI allI impI)
    fix pre ov post
    assume h: "ovs = pre @ ov # post \<and> assigns ov s key \<and>
             (\<forall>ov' \<in> set post. \<not> assigns ov' s key \<and> \<not> replaces ov' s)"
    then show "entry cfg' s key = written ov key" by (intro last [of pre ov post]) simp_all
    from h show "written ov key \<noteq> None" by (intro some) simp
  next
    assume "\<forall>ov \<in> set ovs. \<not> assigns ov s key \<and> \<not> replaces ov s"
    with run_overrides_untouched [OF assms] show "entry cfg' s key = entry cfg s key" by blast
  next
    fix pre ov post
    assume h: "ovs = pre @ ov # post \<and> replaces ov s \<and> \<not> assigns ov s key \<and>
             (\<forall>ov' \<in> set post. \<not> assigns ov' s key \<and> \<not> replaces ov' s)"
    then have "entry cfg' s key = written ov key" by (intro last [of pre ov post]) simp_all
    with h none [of ov] show "entry cfg' s key = None" by simp
  qed
qed

theorem overrides_last_write_wins_witness:
  "fst (run_overrides [OvLayer ''q_dense'' ''ReuseFactor'' (VInt 112),
                       OvModel (VDict [(KStr ''Strategy'', VStr ''Resource'')]),
                       OvLayer ''q_dense'' ''ReuseFactor'' (VInt 8)] sample_cfg_bram) = None
   \<and> entry (snd (run_overrides [OvLayer ''q_dense'' ''ReuseFactor'' (VInt 112),
                       OvModel (VDict [(KStr ''Strategy'', VStr ''Resource'')]),
                       OvLayer ''q_dense'' ''ReuseFactor'' (VInt 8)] sample_cfg_bram))
        (Layer ''q_dense'') ''ReuseFactor'' = Some (VInt 8)
   \<and> entry (snd (run_overrides [OvLayer ''q_dense'' ''ReuseFactor'' (VInt 112),
                       OvModel (VDict [(KStr ''Strategy'', VStr ''Resource'')]),
                       OvLayer ''q_dense'' ''ReuseFactor'' (VInt 8)] sample_cfg_bram))
        (Layer ''q_dense_1'') ''ReuseFactor''
       = entry sample_cfg_bram (Layer ''q_dense_1'') ''ReuseFactor''
   \<and> entry (snd (run_overrides [OvLayer ''q_dense'' ''ReuseFactor'' (VInt 112),
                       OvModel (VDict [(KStr ''Strategy'', VStr ''Resource'')]),
                       OvLayer ''q_dense'' ''ReuseFactor'' (VInt 8)] sample_cfg_bram))
        Model ''BramFactor'' = None
   \<and> entry sample_cfg_bram Model ''BramFactor'' = Some (VInt 1000000000)"
proof -
  let ?o1 = "OvLayer ''q_dense'' ''ReuseFactor'' (VInt 112)"
  let ?o2 = "OvModel (VDict [(KStr ''Strategy'', VStr ''Resource'')])"
  let ?o3 = "OvLayer ''q_dense'' ''ReuseFactor'' (VInt 8)"
  let ?ovs = "[?o1, ?o2, ?o3]"
  have ok: "fst (run_overrides ?ovs sample_cfg_bram) = None"
    by (simp add: sample_cfg_bram_def exec_override_def setitem3_def)
  then have r: "run_overrides ?ovs sample_cfg_bram = (None, snd (run_overrides ?ovs sample_cfg_bram))"
    by (metis prod.collapse)
  have a: "entry (snd (run_overrides ?ovs sample_cfg_bram)) (Layer ''q_dense'') ''ReuseFactor''
             = written ?o3 ''ReuseFactor''"
    by (rule overrides_last_write_wins [OF r, THEN conjunct1, rule_format,
          of "[?o1, ?o2]" _ "[]", THEN conjunct1]) simp
  from overrides_last_write_wins [OF r, of "Layer ''q_dense_1''" "''ReuseFactor''",
      THEN conjunct2, THEN conjunct1]
  have b: "entry (snd (run_overrides ?ovs sample_cfg_bram)) (Layer ''q_dense_1'') ''ReuseFactor''
             = entry sample_cfg_bram (Layer ''q_dense_1'') ''ReuseFactor''"
    by simp
  have c: "entry (snd (run_overrides ?ovs sample_cfg_bram)) Model ''BramFactor'' = None"
    by (rule overrides_last_write_wins [OF r, THEN conjunct2, THEN conjunct2, rule_format,
          of "[?o1]" ?o2 "[?o3]"]) simp
  have d: "entry sample_cfg_bram Model ''BramFactor'' = Some (VInt 1000000000)"
    by (simp add: sample_cfg_bram_def)
  from ok a b c d show ?thesis by simp
qed

lemma update_absent: "map_of xs k = None \<Longrightarrow> AList.update k w xs = xs @ [(k, w)]"
  by (induction xs) (auto split: if_splits)

text \<open>
  C1 as stated fails. The claim: an override that addresses a scope or key absent from
  the auto-derived dictionary raises \<open>UnknownConfigTarget\<close> and leaves the dictionary
  unchanged. The cell's own third assignment, \<^verbatim>\<open>cfg['LayerName']['q_dense_1']['Strategy'] = 'Latency'\<close>,
  run on a configuration whose \<open>q_dense_1\<close> layer has no \<open>Strategy\<close> setting, raises
  nothing and changes the dictionary: the setting is created.
\<close>

theorem absent_key_override_counterexample:
  "entry sample_cfg (Layer ''q_dense_1'') ''Strategy'' = None
   \<and> fst (exec_override (OvLayer ''q_dense_1'' ''Strategy'' (VStr ''Latency'')) sample_cfg) = None
   \<and> snd (exec_override (OvLayer ''q_dense_1'' ''Strategy'' (VStr ''Latency'')) sample_cfg) \<noteq> sample_cfg
   \<and> entry (snd (exec_override (OvLayer ''q_dense_1'' ''Strategy'' (VStr ''Latency'')) sample_cfg))
        (Layer ''q_dense_1'') ''Strategy'' = Some (VStr ''Latency'')"
  by (simp add: sample_cfg_def exec_override_def setitem3_def)

text \<open>
  C1, amended. An override \<^verbatim>\<open>cfg['LayerName'][layer][key] = v\<close> whose layer, or the
  \<open>LayerName\<close> table itself, is absent from the dictionary raises \<open>KeyError\<close> and leaves
  the dictionary unchanged; so does every override that raises. An override whose last
  key is absent (a setting missing from an existing layer, or the \<open>Model\<close> scope missing
  from the dictionary) raises nothing and creates the entry.
\<close>

theorem override_absent_target:
  assumes "cfg = VDict kvs"
  shows "(lookup cfg ''LayerName'' = None
            \<longrightarrow> exec_override (OvLayer layer key v) cfg = (Some KeyError, cfg))
       \<and> (\<forall>ls. lookup cfg ''LayerName'' = Some (VDict ls) \<and> map_of ls (KStr layer) = None
            \<longrightarrow> exec_override (OvLayer layer key v) cfg = (Some KeyError, cfg))
       \<and> (\<forall>ls ld. lookup cfg ''LayerName'' = Some (VDict ls) \<and> map_of ls (KStr layer) = Some (VDict ld)
                 \<and> map_of ld (KStr key) = None
            \<longrightarrow> fst (exec_override (OvLayer layer key v) cfg) = None
              \<and> entry (snd (exec_override (OvLayer layer key v) cfg)) (Layer layer) key = Some v)
       \<and> (lookup cfg ''Model'' = None
            \<longrightarrow> exec_override (OvModel v) cfg = (None, VDict (kvs @ [(KStr ''Model'', v)])))
       \<and> (fst (exec_override ov cfg) \<noteq> None \<longrightarrow> snd (exec_override ov cfg) = cfg)"
proof (intro conjI allI impI)
  assume "lookup cfg ''LayerName'' = None"
  with assms show "exec_override (OvLayer layer key v) cfg = (Some KeyError, cfg)"
    by (simp add: exec_override_def setitem3_def)
next
  fix ls
  assume "lookup cfg ''LayerName'' = Some (VDict ls) \<and> map_of ls (KStr layer) = None"
  with assms show "exec_override (OvLayer layer key v) cfg = (Some KeyError, cfg)"
    by (simp add: exec_override_def setitem3_def)
next
  fix ls ld
  assume h: "lookup cfg ''LayerName'' = Some (VDict ls) \<and> map_of ls (KStr layer) = Some (VDict ld)
                 \<and> map_of ld (KStr key) = None"
  with assms show "fst (exec_override (OvLayer layer key v) cfg) = None"
    by (simp add: exec_override_def setitem3_def)
next
  fix ls ld
  assume h: "lookup cfg ''LayerName'' = Some (VDict ls) \<and> map_of ls (KStr layer) = Some (VDict ld)
                 \<and> map_of ld (KStr key) = None"
  from h assms show "entry (snd (exec_override (OvLayer layer key v) cfg)) (Layer layer) key = Some v"
    by (simp add: exec_override_def setitem3_def update_conv')
next
  assume "lookup cfg ''Model'' = None"
  with assms show "exec_override (OvModel v) cfg = (None, VDict (kvs @ [(KStr ''Model'', v)]))"
    by (simp add: exec_override_def update_absent)
next
  assume "fst (exec_override ov cfg) \<noteq> None"
  then show "snd (exec_override ov cfg) = cfg"
    by (auto simp: exec_override_def split: sum.splits)
qed

theorem override_absent_target_witness:
  "exec_override (OvLayer ''q_dense'' ''ReuseFactor'' (VInt 112)) (VDict [])
     = (Some KeyError, VDict [])
   \<and> exec_override (OvLayer ''conv2d'' ''ReuseFactor'' (VInt 4))
         (VDict [(KStr ''LayerName'', VDict [(KStr ''q_dense'', VDict [(KStr ''ReuseFactor'', VInt 1)])])])
     = (Some KeyError,
        VDict [(KStr ''LayerName'', VDict [(KStr ''q_dense'', VDict [(KStr ''ReuseFactor'', VInt 1)])])])
   \<and> entry (snd (exec_override (OvLayer ''q_dense'' ''Strategy'' (VStr ''Latency''))
         (VDict [(KStr ''LayerName'', VDict [(KStr ''q_dense'', VDict [(KStr ''ReuseFactor'', VInt 1)])])])))
         (Layer ''q_dense'') ''Strategy''
     = Some (VStr ''Latency'')
   \<and> exec_override (OvModel (VDict []))
         (VDict [(KStr ''LayerName'', VDict [(KStr ''q_dense'', VDict [(KStr ''ReuseFactor'', VInt 1)])])])
     = (None,
        VDict [(KStr ''LayerName'', VDict [(KStr ''q_dense'', VDict [(KStr ''ReuseFactor'', VInt 1)])]),
               (KStr ''Model'', VDict [])])"
proof -
  let ?ls = "[(KStr ''q_dense'', VDict [(KStr ''ReuseFactor'', VInt 1)])]"
  let ?kvs = "[(KStr ''LayerName'', VDict ?ls)]"
  have e: "VDict [] = VDict []" and c: "VDict ?kvs = VDict ?kvs"
    by simp_all
  note t0 = override_absent_target [OF e, of "''q_dense''" "''ReuseFactor''" "VInt 112"]
  note t1 = override_absent_target [OF c, of "''conv2d''" "''ReuseFactor''" "VInt 4"]
  note t2 = override_absent_target [OF c, of "''q_dense''" "''Strategy''" "VStr ''Latency''"]
  note t3 = override_absent_target [OF c, of _ _ "VDict []"]
  have "exec_override (OvLayer ''q_dense'' ''ReuseFactor'' (VInt 112)) (VDict [])
          = (Some KeyError, VDict [])"
    using t0 by simp
  moreover have "exec_override (OvLayer ''conv2d'' ''ReuseFactor'' (VInt 4)) (VDict ?kvs)
          = (Some KeyError, VDict ?kvs)"
    using t1 [THEN conjunct2, THEN conjunct1, rule_format, of ?ls] by simp
  moreover have "entry (snd (exec_override (OvLayer ''q_dense'' ''Strategy'' (VStr ''Latency''))
          (VDict ?kvs))) (Layer ''q_dense'') ''Strategy'' = Some (VStr ''Latency'')"
    using t2 [THEN conjunct2, THEN conjunct2, THEN conjunct1, rule_format,
              of ?ls "[(KStr ''ReuseFactor'', VInt 1)]"] by simp
  moreover have "exec_override (OvModel (VDict [])) (VDict ?kvs)
          = (None, VDict (?kvs @ [(KStr ''Model'', VDict [])]))"
    using t3 by simp
  ultimately show ?thesis by simp
qed

subsection \<open>print_dict\<close>

lemma frames_needed_pos: "0 < frames_needed d"
  by (induction d rule: frames_needed.induct) auto

lemma print_dict_result:
  "str_keys d \<Longrightarrow>
     snd (print_dict frames d indent)
       = (if frames_needed d \<le> frames then None else Some RecursionError)"
proof (induction frames d indent rule: print_dict.induct)
  case (1 d indent)
  then show ?case using frames_needed_pos [of d] by simp
next
  case (2 frames indent)
  then show ?case by simp
next
  case (3 frames key "value" rest indent)
  from "3.prems" obtain s where k: "key = KStr s" by (cases key) auto
  from "3.prems" have rest: "str_keys rest" by simp
  show ?case
  proof (cases "value")
    case (VStr x)
    with k "3.IH"(1) [OF VStr _ rest] show ?thesis
      by (auto simp: leaf_line_def split: prod.splits)
  next
    case (VInt x)
    with k "3.IH"(2) [OF VInt _ rest] show ?thesis
      by (auto simp: leaf_line_def split: prod.splits)
  next
    case (VDict sub)
    with "3.prems" have sub: "str_keys sub" by simp
    note ih1 = "3.IH"(3) [OF VDict sub]
    show ?thesis
    proof (cases "frames_needed sub \<le> frames")
      case True
      with ih1 obtain out where o: "print_dict frames sub (indent + 1) = (out, None)"
        by (cases "print_dict frames sub (indent + 1)") auto
      from "3.IH"(4) [OF VDict o [symmetric] _ rest] o VDict True show ?thesis
        by (auto split: prod.splits)
    next
      case False
      with ih1 obtain out where o: "print_dict frames sub (indent + 1) = (out, Some RecursionError)"
        by (cases "print_dict frames sub (indent + 1)") auto
      with VDict False show ?thesis by auto
    qed
  qed
qed

lemma print_dict_no_error:
  "str_keys d \<Longrightarrow> frames_needed d \<le> frames \<Longrightarrow> snd (print_dict frames d indent) = None"
  by (simp add: print_dict_result)







subsection \<open>get_train_test_set\<close>

lemma scaled_pixel_range:
  "0 \<le> pixel_to_float p \<and> pixel_to_float p \<le> 255 / 256 \<and> pixel_to_float p < 1"
proof -
  define n where "n = unat p"
  have "n < 2 ^ 8" unfolding n_def using unsigned_less [of p] by simp
  then have "n \<le> 255" by simp
  then have "(of_nat n :: rat) \<le> of_nat 255" by (simp only: of_nat_le_iff)
  then have "(of_nat n :: rat) \<le> 255" by simp
  moreover have "0 \<le> (of_nat n :: rat)" by simp
  ultimately have "0 \<le> (of_nat n / 256 :: rat) \<and> (of_nat n / 256 :: rat) \<le> 255 / 256
      \<and> (of_nat n / 256 :: rat) < 1"
    by simp
  then show ?thesis unfolding pixel_to_float_def n_def .
qed

lemma reshape_rows_Inr:
  "reshape_rows x = Inr r \<longleftrightarrow> x \<noteq> [] \<and> r = map concat x"
  by (auto simp: reshape_rows_def)

lemma to_categorical_Inr:
  "to_categorical y n = Inr r \<longleftrightarrow>
     (\<forall>c \<in> set y. unat c < n) \<and> r = map (\<lambda>c. (replicate n 0)[unat c := 1]) y"
  by (auto simp: to_categorical_def list_all_iff)

lemma get_train_test_set_Inr:
  "get_train_test_set ((x_train, y_train), (x_test, y_test)) = Inr ((xs_train, ys_train), (xs_test, ys_test))
   \<longleftrightarrow> reshape_rows (scale x_train) = Inr xs_train \<and> reshape_rows (scale x_test) = Inr xs_test
       \<and> to_categorical y_train 10 = Inr ys_train \<and> to_categorical y_test 10 = Inr ys_test"
  by (auto simp: get_train_test_set_def split: sum.splits)

lemma flat_scale:
  "map concat (scale x) = map (\<lambda>img. map pixel_to_float (concat img)) x"
  by (simp add: scale_def map_concat)

text \<open>The function returns on every data set with samples whose labels are below ten.\<close>

lemma get_train_test_set_returns:
  assumes "x_train \<noteq> []" and "x_test \<noteq> []"
    and "\<forall>c \<in> set y_train \<union> set y_test. unat c < 10"
  shows "\<exists>r. get_train_test_set ((x_train, y_train), (x_test, y_test)) = Inr r"
  using assms
  by (simp add: get_train_test_set_def reshape_rows_def to_categorical_def scale_def list_all_iff)

text \<open>
  C9. In what \<open>get_train_test_set\<close> returns, every training and test sample is the
  row-major sequence of its image's pixels, each divided by 256 (not 255), so every feature
  value lies in \<open>[0, 255/256]\<close> and is below 1; and every label is a vector of ten
  entries, zero but for a one at the label's index.
\<close>

theorem get_train_test_set_features_labels:
  assumes "get_train_test_set ((x_train, y_train), (x_test, y_test))
             = Inr ((xs_train, ys_train), (xs_test, ys_test))"
  shows "xs_train = map (\<lambda>img. map pixel_to_float (concat img)) x_train
       \<and> xs_test = map (\<lambda>img. map pixel_to_float (concat img)) x_test
       \<and> (\<forall>s \<in> set xs_train \<union> set xs_test. \<forall>v \<in> set s. 0 \<le> v \<and> v \<le> 255 / 256 \<and> v < 1)
       \<and> ys_train = map (\<lambda>c. (replicate 10 0)[unat c := 1]) y_train
       \<and> ys_test = map (\<lambda>c. (replicate 10 0)[unat c := 1]) y_test
       \<and> (\<forall>l \<in> set ys_train \<union> set ys_test.
             length l = 10 \<and> (\<exists>j < 10. l = (replicate 10 0)[j := 1]))"
proof -
  from assms have
    xt: "xs_train = map (\<lambda>img. map pixel_to_float (concat img)) x_train" and
    xe: "xs_test = map (\<lambda>img. map pixel_to_float (concat img)) x_test" and
    yt: "ys_train = map (\<lambda>c. (replicate 10 0)[unat c := 1]) y_train" and
    ye: "ys_test = map (\<lambda>c. (replicate 10 0)[unat c := 1]) y_test" and
    lt: "\<forall>c \<in> set y_train. unat c < 10" and le: "\<forall>c \<in> set y_test. unat c < 10"
    by (simp_all add: get_train_test_set_Inr reshape_rows_Inr to_categorical_Inr flat_scale)
  have rng: "\<forall>s \<in> set xs_train \<union> set xs_test. \<forall>v \<in> set s. 0 \<le> v \<and> v \<le> 255 / 256 \<and> v < 1"
    unfolding xt xe using scaled_pixel_range by auto
  have hot: "\<forall>l \<in> set ys_train \<union> set ys_test.
               length l = 10 \<and> (\<exists>j < 10. l = (replicate 10 0)[j := 1])"
    unfolding yt ye using lt le by auto
  from xt xe rng yt ye hot show ?thesis by blast
qed

theorem get_train_test_set_features_labels_witness:
  "get_train_test_set (([[[0, 255], [128, 1]]], [3]), ([[[64]]], [9]))
     = Inr (([[0, 255 / 256, 1 / 2, 1 / 256]], [[0, 0, 0, 1, 0, 0, 0, 0, 0, 0]]),
            ([[1 / 4]], [[0, 0, 0, 0, 0, 0, 0, 0, 0, 1]]))
   \<and> list_all (\<lambda>v. 0 \<le> v \<and> v \<le> 255 / 256 \<and> v < 1) [0, 255 / 256, 1 / 2, 1 / 256 :: rat]"
proof -
  have z: "replicate 10 (0::rat) = [0, 0, 0, 0, 0, 0, 0, 0, 0, 0]"
    by (simp add: eval_nat_numeral)
  have run: "get_train_test_set (([[[0, 255], [128, 1]]], [3]), ([[[64]]], [9]))
     = Inr (([[0, 255 / 256, 1 / 2, 1 / 256]], [[0, 0, 0, 1, 0, 0, 0, 0, 0, 0]]),
            ([[1 / 4]], [[0, 0, 0, 0, 0, 0, 0, 0, 0, 1]]))"
    by (simp add: get_train_test_set_def reshape_rows_def to_categorical_def scale_def
        pixel_to_float_def z)
  from get_train_test_set_features_labels [OF run]
  have "\<forall>v \<in> set [0, 255 / 256, 1 / 2, 1 / 256 :: rat]. 0 \<le> v \<and> v \<le> 255 / 256 \<and> v < 1"
    by simp
  then have "list_all (\<lambda>v. 0 \<le> v \<and> v \<le> 255 / 256 \<and> v < 1) [0, 255 / 256, 1 / 2, 1 / 256 :: rat]"
    by (simp only: list_all_iff)
  with run show ?thesis by simp
qed

subsection \<open>The workflow\<close>

lemmas stmt_defs = bindW_def extcall_def pure_step_def print_dict_stmt_def

lemma bindW_proj:
  "bindW stmt rest w =
     (case fst (stmt w) of Inl e \<Rightarrow> (Inl e, snd (stmt w)) | Inr a \<Rightarrow> rest a (snd (stmt w)))"
  by (simp add: bindW_def split: prod.splits sum.splits)

lemma cell_load_model_ok:
  "\<forall>e \<in> set (calls w). call_ok env e \<Longrightarrow>
     \<forall>e \<in> set (calls (snd (cell_load_model env' w))). call_ok env e"
  by (auto simp: cell_load_model_def stmt_defs call_ok_def)

lemma cell_make_config_ok:
  "\<forall>e \<in> set (calls w). call_ok env e \<Longrightarrow>
     \<forall>e \<in> set (calls (snd (cell_make_config env' m w))). call_ok env e"
  by (auto simp: cell_make_config_def stmt_defs call_ok_def split: sum.splits prod.splits option.splits)

lemma cell_make_config_Inr:
  "fst (cell_make_config env m w) = Inr c \<Longrightarrow>
     \<exists>d. c = VDict d \<and> config_from_keras_model env m ''name'' = Inr d"
  by (auto simp: cell_make_config_def stmt_defs split: sum.splits prod.splits option.splits)

lemma cell_tweak_config_ok:
  "\<forall>e \<in> set (calls w). call_ok env e \<Longrightarrow>
     \<forall>e \<in> set (calls (snd (cell_tweak_config env' cfg w))). call_ok env e"
  by (auto simp: cell_tweak_config_def stmt_defs set_rounding_saturation_def
      split: sum.splits prod.splits option.splits pyval.splits)

lemma cell_tweak_config_Inr:
  "fst (cell_tweak_config env cfg w) = Inr c \<Longrightarrow>
     globals (snd (cell_tweak_config env cfg w)) = rounding_saturation_setting
     \<and> cfg_tweaks cfg = (None, c)"
  by (auto simp: cell_tweak_config_def stmt_defs set_rounding_saturation_def
        rounding_saturation_setting_def
      split: sum.splits prod.splits option.splits pyval.splits)

lemma cell_convert_ok:
  assumes "\<forall>e \<in> set (calls w). call_ok env e"
    and "globals w = rounding_saturation_setting"
    and "config_from_keras_model env m ''name'' = Inr d"
    and "cfg_tweaks (VDict d) = (None, c)"
  shows "\<forall>e \<in> set (calls (snd (cell_convert env m c w))). call_ok env e"
  using assms
  by (auto simp: cell_convert_def stmt_defs call_ok_def split: sum.splits prod.splits)

lemma cell_predict_ok:
  "\<forall>e \<in> set (calls w). call_ok env e \<Longrightarrow>
     \<forall>e \<in> set (calls (snd (cell_predict env' m h w))). call_ok env e"
  by (auto simp: cell_predict_def stmt_defs call_ok_def split: sum.splits prod.splits)

lemma cell_accuracy_ok:
  "\<forall>e \<in> set (calls w). call_ok env e \<Longrightarrow>
     \<forall>e \<in> set (calls (snd (cell_accuracy env' y_test y_hls y_qke w))). call_ok env e"
  by (auto simp: cell_accuracy_def print_accuracy_def stmt_defs split: sum.splits prod.splits)

lemma cell_build_ok:
  "\<forall>e \<in> set (calls w). call_ok env e \<Longrightarrow>
     \<forall>e \<in> set (calls (snd (cell_build env' h w))). call_ok env e"
  by (auto simp: cell_build_def stmt_defs call_ok_def)

lemma cell_report_ok:
  "\<forall>e \<in> set (calls w). call_ok env e \<Longrightarrow>
     \<forall>e \<in> set (calls (snd (cell_report env' h w))). call_ok env e"
  by (auto simp: cell_report_def stmt_defs call_ok_def)

lemma notebook_calls_ok:
  "\<forall>e \<in> set (calls (snd (notebook env (init_world g0)))). call_ok env e"
proof -
  let ?w0 = "init_world g0 :: ('a, 'b, 'c) world"
  have ok0: "\<forall>e \<in> set (calls ?w0). call_ok env e" by (simp add: init_world_def)
  let ?w1 = "snd (cell_load_model env ?w0)"
  note ok1 = cell_load_model_ok [OF ok0, of env]
  show ?thesis
  proof (cases "fst (cell_load_model env ?w0)")
    case (Inl e)
    with ok1 show ?thesis by (simp add: notebook_def bindW_proj)
  next
    case m: (Inr model)
    let ?w2 = "snd (cell_make_config env model ?w1)"
    note ok2 = cell_make_config_ok [OF ok1, of env model]
    show ?thesis
    proof (cases "fst (cell_make_config env model ?w1)")
      case (Inl e)
      with m ok2 show ?thesis by (simp add: notebook_def bindW_proj)
    next
      case c0: (Inr cfg0)
      from cell_make_config_Inr [OF c0] obtain d where
        d: "cfg0 = VDict d" "config_from_keras_model env model ''name'' = Inr d" by blast
      let ?w3 = "snd (cell_tweak_config env cfg0 ?w2)"
      note ok3 = cell_tweak_config_ok [OF ok2, of env cfg0]
      show ?thesis
      proof (cases "fst (cell_tweak_config env cfg0 ?w2)")
        case (Inl e)
        with m c0 ok3 show ?thesis by (simp add: notebook_def bindW_proj)
      next
        case c: (Inr cfg)
        from cell_tweak_config_Inr [OF c] d have
          g: "globals ?w3 = rounding_saturation_setting" and t: "cfg_tweaks (VDict d) = (None, cfg)"
          by simp_all
        let ?w4 = "snd (cell_convert env model cfg ?w3)"
        note ok4 = cell_convert_ok [OF ok3 g d(2) t]
        show ?thesis
        proof (cases "fst (cell_convert env model cfg ?w3)")
          case (Inl e)
          with m c0 c ok4 show ?thesis by (simp add: notebook_def bindW_proj)
        next
          case h: (Inr hls_model)
          let ?w5 = "snd (cell_predict env model hls_model ?w4)"
          note ok5 = cell_predict_ok [OF ok4, of env model hls_model]
          show ?thesis
          proof (cases "fst (cell_predict env model hls_model ?w4)")
            case (Inl e)
            with m c0 c h ok5 show ?thesis by (simp add: notebook_def bindW_proj)
          next
            case p: (Inr preds)
            obtain y_test y_hls y_qke where ys: "preds = (y_test, y_hls, y_qke)"
              by (cases preds) auto
            let ?w6 = "snd (cell_accuracy env y_test y_hls y_qke ?w5)"
            note ok6 = cell_accuracy_ok [OF ok5, of env y_test y_hls y_qke]
            note ok7 = cell_build_ok [OF ok6, of env hls_model]
            note ok8 = cell_report_ok [OF ok7, of env hls_model]
            from m c0 c h p ys ok6 ok7 ok8 show ?thesis
              by (simp add: notebook_def bindW_proj split: sum.splits)
          qed
        qed
      qed
    qed
  qed
qed


text \<open>The run in which no library call before the build raises.\<close>

lemma notebook_run:
  assumes lm: "load_model env ''./section2_model_0.h5'' = Inr m"
    and cf: "config_from_keras_model env m ''name'' = Inr d"
    and p1: "print_dict (recursion_frames env) d 0 = (out1, None)"
    and tw: "cfg_tweaks (VDict d) = (None, VDict d')"
    and p2: "print_dict (recursion_frames env) d' 0 = (out2, None)"
    and cv: "convert_from_keras_model env m (VDict d') ''section2_hls4ml_prj''
               ''xcu250-figd2104-2L-e'' rounding_saturation_setting = Inr h"
    and cp: "compile env h = Inr u"
    and ld: "mnist_load_data env = Inr loaded"
    and gs: "get_train_test_set loaded = Inr ((x_train, y_train), (x_test, y_test))"
    and hp: "hls_predict env h x_test = Inr y_hls"
    and kp: "keras_predict env m x_test = Inr y_qke"
    and at: "argmax_axis1 env y_test = Inr t"
    and aq: "argmax_axis1 env y_qke = Inr pq"
    and ah: "argmax_axis1 env y_hls = Inr ph"
    and sq: "accuracy_score env t pq = Inr a_qke"
    and sh: "accuracy_score env t ph = Inr a_hls"
  shows "notebook env (init_world g0) =
     bindW (cell_build env h) (\<lambda>_. cell_report env h)
       \<lparr>globals = rounding_saturation_setting,
        calls = [LoadModel ''./section2_model_0.h5'',
                 ConfigFromKerasModel m ''name'',
                 ConvertFromKerasModel m (VDict d') ''section2_hls4ml_prj'' ''xcu250-figd2104-2L-e''
                   rounding_saturation_setting,
                 Compile h, MnistLoadData, HlsPredict h x_test, KerasPredict m x_test],
        stdout = map (\<lambda>(t, e). Printed t e) out1 @ map (\<lambda>(t, e). Printed t e) out2
                 @ [Formatted ''QKeras Accuracy: '' a_qke, Formatted ''hls4ml Accuracy: '' a_hls]\<rparr>"
proof -
  have 1: "cell_load_model env (init_world g0)
             = (Inr m, \<lparr>globals = g0, calls = [LoadModel ''./section2_model_0.h5''], stdout = []\<rparr>)"
    by (simp add: cell_load_model_def stmt_defs init_world_def lm)
  have 2: "cell_make_config env m \<lparr>globals = g0, calls = cs, stdout = []\<rparr>
             = (Inr (VDict d), \<lparr>globals = g0, calls = cs @ [ConfigFromKerasModel m ''name''],
                  stdout = map (\<lambda>(t, e). Printed t e) out1\<rparr>)" for cs
    by (simp add: cell_make_config_def stmt_defs cf p1)
  have 3: "cell_tweak_config env (VDict d) \<lparr>globals = g0, calls = cs, stdout = so\<rparr>
             = (Inr (VDict d'), \<lparr>globals = rounding_saturation_setting, calls = cs,
                  stdout = so @ map (\<lambda>(t, e). Printed t e) out2\<rparr>)" for cs so
    by (simp add: cell_tweak_config_def stmt_defs tw p2 set_rounding_saturation_def
        rounding_saturation_setting_def)
  have 4: "cell_convert env m (VDict d') \<lparr>globals = rounding_saturation_setting, calls = cs, stdout = so\<rparr>
             = (Inr h, \<lparr>globals = rounding_saturation_setting,
                  calls = cs @ [ConvertFromKerasModel m (VDict d') ''section2_hls4ml_prj''
                    ''xcu250-figd2104-2L-e'' rounding_saturation_setting, Compile h],
                  stdout = so\<rparr>)" for cs so
    by (simp add: cell_convert_def stmt_defs cv cp)
  have 5: "cell_predict env m h \<lparr>globals = g, calls = cs, stdout = so\<rparr>
             = (Inr (y_test, y_hls, y_qke), \<lparr>globals = g,
                  calls = cs @ [MnistLoadData, HlsPredict h x_test, KerasPredict m x_test],
                  stdout = so\<rparr>)" for g cs so
    by (simp add: cell_predict_def stmt_defs ld gs hp kp)
  have 6: "cell_accuracy env y_test y_hls y_qke \<lparr>globals = g, calls = cs, stdout = so\<rparr>
             = (Inr (), \<lparr>globals = g, calls = cs,
                  stdout = so @ [Formatted ''QKeras Accuracy: '' a_qke,
                                 Formatted ''hls4ml Accuracy: '' a_hls]\<rparr>)" for g cs so
    by (simp add: cell_accuracy_def print_accuracy_def stmt_defs at aq ah sq sh)
  show ?thesis
    unfolding notebook_def
    by (simp add: bindW_def [of "cell_load_model env"] bindW_def [of "cell_make_config env m"]
        bindW_def [of "cell_tweak_config env (VDict d)"] bindW_def [of "cell_convert env m (VDict d')"]
        bindW_def [of "cell_predict env m h"] bindW_def [of "cell_accuracy env y_test y_hls y_qke"]
        1 2 3 4 5 6)
qed

lemma build_report_calls:
  "calls (snd (bindW (cell_build env h) (\<lambda>_. cell_report env h) w)) =
     calls w @ Build h False True True False
       # (case build env h False True True False of
            Inl e \<Rightarrow> []
          | Inr u \<Rightarrow> [ReadVivadoReport (get_output_dir env h)])"
  by (simp add: cell_build_def cell_report_def stmt_defs split: sum.splits)


lemma sample_config:
  "\<exists>d d'. config_from_keras_model sample_env () ''name'' = Inr d \<and> sample_cfg = VDict d
          \<and> snd (print_dict (recursion_frames sample_env) d 0) = None
          \<and> cfg_tweaks (VDict d) = (None, VDict d') \<and> snd (print_dict (recursion_frames sample_env) d' 0) = None"
proof -
  obtain d where d: "sample_cfg = VDict d" by (simp add: sample_cfg_def)
  have cf: "config_from_keras_model sample_env () ''name'' = Inr d"
    by (simp add: sample_env_def d)
  have "fst (cfg_tweaks sample_cfg) = None"
    by (simp add: cfg_tweaks_def sample_cfg_def setitem3_def)
  moreover have "\<exists>d'. snd (cfg_tweaks sample_cfg) = VDict d'"
    by (simp add: cfg_tweaks_def sample_cfg_def setitem3_def)
  ultimately obtain d' where tw: "cfg_tweaks (VDict d) = (None, VDict d')"
    unfolding d by (metis prod.collapse)
  have sk: "str_keys d" and fr: "frames_needed d \<le> recursion_frames sample_env"
    using d by (auto simp: sample_cfg_def sample_env_def)
  have sk': "str_keys d'" and fr': "frames_needed d' \<le> recursion_frames sample_env"
    using tw [folded d] by (auto simp: cfg_tweaks_def sample_cfg_def setitem3_def sample_env_def)
  from cf d tw print_dict_no_error [OF sk fr, of 0] print_dict_no_error [OF sk' fr', of 0]
  show ?thesis by blast
qed

lemma sample_test_set:
  "get_train_test_set (([[[0, 255]]], [1]), ([[[0, 255]], [[255, 0]]], [1, 0]))
      = Inr (([[0, 255 / 256]], [[0, 1, 0, 0, 0, 0, 0, 0, 0, 0]]),
             ([[0, 255 / 256], [255 / 256, 0]],
              [[0, 1, 0, 0, 0, 0, 0, 0, 0, 0], [1, 0, 0, 0, 0, 0, 0, 0, 0, 0]]))"
proof -
  have z: "replicate 10 (0::rat) = [0, 0, 0, 0, 0, 0, 0, 0, 0, 0]"
    by (simp add: eval_nat_numeral)
  show ?thesis
    by (simp add: get_train_test_set_def reshape_rows_def to_categorical_def scale_def
        pixel_to_float_def z)
qed

lemma sample_scores:
  "argmax_axis1 sample_env [[0, 1, 0, 0, 0, 0, 0, 0, 0, 0], [1, 0, 0, 0, 0, 0, 0, 0, 0, 0]]
      = Inr [1, 0]"
  "argmax_axis1 sample_env
      [[0, 255 / 256, 0, 0, 0, 0, 0, 0, 0, 0], [255 / 256, 0, 0, 0, 0, 0, 0, 0, 0, 0]] = Inr [1, 0]"
  "argmax_axis1 sample_env
      [[1 / 2, 1 / 2, 0, 0, 0, 0, 0, 0, 0, 0], [1 / 2, 1 / 2, 0, 0, 0, 0, 0, 0, 0, 0]] = Inr [0, 0]"
  "accuracy_score sample_env [1, 0] [1, 0] = Inr 1"
  "accuracy_score sample_env [1, 0] [0, 0] = Inr (1 / 2)"
  by (simp_all add: sample_env_def sample_argmax_def sample_accuracy_def)

lemma sample_calls:
  "mnist_load_data sample_env = Inr (([[[0, 255]]], [1]), ([[[0, 255]], [[255, 0]]], [1, 0]))"
  "hls_predict sample_env () [[0, 255 / 256], [255 / 256, 0]]
     = Inr [[1 / 2, 1 / 2, 0, 0, 0, 0, 0, 0, 0, 0], [1 / 2, 1 / 2, 0, 0, 0, 0, 0, 0, 0, 0]]"
  "keras_predict sample_env () [[0, 255 / 256], [255 / 256, 0]]
     = Inr [[0, 255 / 256, 0, 0, 0, 0, 0, 0, 0, 0], [255 / 256, 0, 0, 0, 0, 0, 0, 0, 0, 0]]"
  "load_model sample_env ''./section2_model_0.h5'' = Inr ()"
  "convert_from_keras_model sample_env () c ''section2_hls4ml_prj'' ''xcu250-figd2104-2L-e''
     rounding_saturation_setting = Inr ()"
  "compile sample_env () = Inr ()"
  by (simp_all add: sample_env_def)

lemma grows_bindW:
  assumes "grows stmt" and "\<And>a. grows (rest a)"
  shows "grows (bindW stmt rest)"
  unfolding grows_def
proof
  fix w
  from assms(1) have 1: "set (calls w) \<subseteq> set (calls (snd (stmt w)))" by (simp add: grows_def)
  show "set (calls w) \<subseteq> set (calls (snd (bindW stmt rest w)))"
  proof (cases "fst (stmt w)")
    case (Inl e)
    with 1 show ?thesis by (simp add: bindW_proj)
  next
    case (Inr a)
    from assms(2) [of a] have "set (calls (snd (stmt w))) \<subseteq> set (calls (snd (rest a (snd (stmt w)))))"
      by (simp add: grows_def)
    with 1 Inr show ?thesis by (auto simp: bindW_proj)
  qed
qed

lemma grows_cells:
  "grows (cell_predict env m h)"
  "grows (cell_accuracy env y_test y_hls y_qke)"
  "grows (cell_build env h)"
  "grows (cell_report env h)"
  by (auto simp: grows_def cell_predict_def cell_accuracy_def print_accuracy_def cell_build_def
        cell_report_def stmt_defs split: sum.splits prod.splits)

lemma cell_convert_calls:
  "ConvertFromKerasModel m c ''section2_hls4ml_prj'' ''xcu250-figd2104-2L-e'' (globals w)
     \<in> set (calls (snd (cell_convert env m c w)))"
  by (auto simp: cell_convert_def stmt_defs split: sum.splits prod.splits)

text \<open>When every step before the conversion returns, the conversion is called.\<close>

lemma notebook_reaches_conversion:
  assumes lm: "load_model env ''./section2_model_0.h5'' = Inr m"
    and cf: "config_from_keras_model env m ''name'' = Inr d"
    and p1: "snd (print_dict (recursion_frames env) d 0) = None"
    and tw: "cfg_tweaks (VDict d) = (None, VDict d')"
    and p2: "snd (print_dict (recursion_frames env) d' 0) = None"
  shows "ConvertFromKerasModel m (VDict d') ''section2_hls4ml_prj'' ''xcu250-figd2104-2L-e''
           rounding_saturation_setting \<in> set (calls (snd (notebook env (init_world g0))))"
proof -
  define tail where "tail = (\<lambda>hls_model. bindW (cell_predict env m hls_model)
      (\<lambda>preds. case preds of (y_test, y_hls, y_qke) \<Rightarrow>
         bindW (cell_accuracy env y_test y_hls y_qke)
           (\<lambda>_. bindW (cell_build env hls_model) (\<lambda>_. cell_report env hls_model))))"
  have gt: "grows (tail hls_model)" for hls_model
    unfolding tail_def
    by (intro grows_bindW grows_cells) (auto intro!: grows_bindW grows_cells split: prod.splits)
  obtain out1 where o1: "print_dict (recursion_frames env) d 0 = (out1, None)" using p1 by (metis prod.collapse)
  obtain out2 where o2: "print_dict (recursion_frames env) d' 0 = (out2, None)" using p2 by (metis prod.collapse)
  have 1: "cell_load_model env (init_world g0)
             = (Inr m, \<lparr>globals = g0, calls = [LoadModel ''./section2_model_0.h5''], stdout = []\<rparr>)"
    by (simp add: cell_load_model_def stmt_defs init_world_def lm)
  have 2: "cell_make_config env m \<lparr>globals = g0, calls = cs, stdout = []\<rparr>
             = (Inr (VDict d), \<lparr>globals = g0, calls = cs @ [ConfigFromKerasModel m ''name''],
                  stdout = map (\<lambda>(t, e). Printed t e) out1\<rparr>)" for cs
    by (simp add: cell_make_config_def stmt_defs cf o1)
  have 3: "cell_tweak_config env (VDict d) \<lparr>globals = g0, calls = cs, stdout = so\<rparr>
             = (Inr (VDict d'), \<lparr>globals = rounding_saturation_setting, calls = cs,
                  stdout = so @ map (\<lambda>(t, e). Printed t e) out2\<rparr>)" for cs so
    by (simp add: cell_tweak_config_def stmt_defs tw o2 set_rounding_saturation_def
        rounding_saturation_setting_def)
  let ?w3 = "\<lparr>globals = rounding_saturation_setting,
              calls = [LoadModel ''./section2_model_0.h5'', ConfigFromKerasModel m ''name''],
              stdout = map (\<lambda>(t, e). Printed t e) out1 @ map (\<lambda>(t, e). Printed t e) out2\<rparr>
             :: ('a, 'b, 'c) world"
  have nb: "notebook env (init_world g0) = bindW (cell_convert env m (VDict d')) tail ?w3"
    unfolding notebook_def tail_def
    by (simp add: bindW_def [of "cell_load_model env"] bindW_def [of "cell_make_config env m"]
        bindW_def [of "cell_tweak_config env (VDict d)"] 1 2 3)
  have cv: "ConvertFromKerasModel m (VDict d') ''section2_hls4ml_prj'' ''xcu250-figd2104-2L-e''
              rounding_saturation_setting \<in> set (calls (snd (cell_convert env m (VDict d') ?w3)))"
    using cell_convert_calls [of m "VDict d'" ?w3 env] by simp
  show ?thesis
  proof (cases "fst (cell_convert env m (VDict d') ?w3)")
    case (Inl e)
    with cv show ?thesis by (simp add: nb bindW_proj)
  next
    case (Inr hls_model)
    from gt [of hls_model] have
      "set (calls (snd (cell_convert env m (VDict d') ?w3)))
         \<subseteq> set (calls (snd (tail hls_model (snd (cell_convert env m (VDict d') ?w3)))))"
      by (simp add: grows_def)
    with cv Inr show ?thesis by (auto simp: nb bindW_proj)
  qed
qed

text \<open>
  C3. The rounding and saturation modes are class attributes of the converter's optimizer
  pass, held in the process-wide part of the world and not in the configuration. Every
  call of \<^verbatim>\<open>convert_from_keras_model\<close> in a run of the notebook is made when
  these attributes are \<open>['Activation']\<close>, \<open>'AP_RND'\<close>, \<open>'AP_SAT'\<close>, and it is given the
  auto-derived configuration changed by the four overrides only; and the call is made
  whenever the steps before it return.
\<close>

theorem rounding_set_before_conversion:
  "(\<forall>m c dir part g.
      ConvertFromKerasModel m c dir part g \<in> set (calls (snd (notebook env (init_world g0))))
      \<longrightarrow> g = rounding_saturation_setting
          \<and> (\<exists>d. config_from_keras_model env m ''name'' = Inr d \<and> cfg_tweaks (VDict d) = (None, c)))
   \<and> (\<forall>m d d'.
        load_model env ''./section2_model_0.h5'' = Inr m
        \<and> config_from_keras_model env m ''name'' = Inr d \<and> snd (print_dict (recursion_frames env) d 0) = None
        \<and> cfg_tweaks (VDict d) = (None, VDict d') \<and> snd (print_dict (recursion_frames env) d' 0) = None
      \<longrightarrow> ConvertFromKerasModel m (VDict d') ''section2_hls4ml_prj'' ''xcu250-figd2104-2L-e''
            rounding_saturation_setting \<in> set (calls (snd (notebook env (init_world g0)))))"
proof (intro conjI allI impI)
  fix m c dir part g
  assume "ConvertFromKerasModel m c dir part g \<in> set (calls (snd (notebook env (init_world g0))))"
  with notebook_calls_ok [of env g0] have ok: "call_ok env (ConvertFromKerasModel m c dir part g)"
    by blast
  then show "g = rounding_saturation_setting" by (simp add: call_ok_def)
  from ok show "\<exists>d. config_from_keras_model env m ''name'' = Inr d \<and> cfg_tweaks (VDict d) = (None, c)"
    by (auto simp: call_ok_def split: sum.splits)
next
  fix m d d'
  assume "load_model env ''./section2_model_0.h5'' = Inr m
        \<and> config_from_keras_model env m ''name'' = Inr d \<and> snd (print_dict (recursion_frames env) d 0) = None
        \<and> cfg_tweaks (VDict d) = (None, VDict d') \<and> snd (print_dict (recursion_frames env) d' 0) = None"
  then show "ConvertFromKerasModel m (VDict d') ''section2_hls4ml_prj'' ''xcu250-figd2104-2L-e''
            rounding_saturation_setting \<in> set (calls (snd (notebook env (init_world g0))))"
    by (intro notebook_reaches_conversion [of env m d d' g0]) simp_all
qed


theorem rounding_set_before_conversion_witness:
  "ConvertFromKerasModel () (snd (cfg_tweaks sample_cfg)) ''section2_hls4ml_prj''
      ''xcu250-figd2104-2L-e'' rounding_saturation_setting
     \<in> set (calls (snd (notebook sample_env (init_world initial_globals))))
   \<and> fst (cfg_tweaks sample_cfg) = None
   \<and> initial_globals \<noteq> rounding_saturation_setting"
proof -
  from sample_config obtain d d' where
    cf: "config_from_keras_model sample_env () ''name'' = Inr d" and d: "sample_cfg = VDict d" and
    p1: "snd (print_dict (recursion_frames sample_env) d 0) = None" and tw: "cfg_tweaks (VDict d) = (None, VDict d')" and
    p2: "snd (print_dict (recursion_frames sample_env) d' 0) = None"
    by blast
  note main = rounding_set_before_conversion [of sample_env initial_globals]
  from main [THEN conjunct2, rule_format, of "()" d d'] sample_calls(4) cf p1 tw p2
  have mem: "ConvertFromKerasModel () (VDict d') ''section2_hls4ml_prj'' ''xcu250-figd2104-2L-e''
      rounding_saturation_setting \<in> set (calls (snd (notebook sample_env (init_world initial_globals))))"
    by blast
  from main [THEN conjunct1, rule_format, OF mem] obtain d0 where
    "config_from_keras_model sample_env () ''name'' = Inr d0"
    "cfg_tweaks (VDict d0) = (None, VDict d')"
    by blast
  with cf d have "cfg_tweaks sample_cfg = (None, VDict d')" by simp
  with mem show ?thesis
    by (simp add: initial_globals_def rounding_saturation_setting_def)
qed

text \<open>
  C7. Every call of \<^verbatim>\<open>hls_model.build\<close> in a run of the notebook carries four
  boolean flags, \<open>csim\<close>, \<open>synth\<close>, \<open>vsynth\<close> and \<open>export\<close>, with the values
  \<open>False\<close>, \<open>True\<close>, \<open>True\<close>, \<open>False\<close>; and when the steps before it return, the
  run makes exactly one such call, on the handle the conversion returned.
\<close>

theorem build_flags:
  "(\<forall>h csim synth vsynth export.
      Build h csim synth vsynth export \<in> set (calls (snd (notebook env (init_world g0))))
      \<longrightarrow> \<not> csim \<and> synth \<and> vsynth \<and> \<not> export)
   \<and> (\<forall>m d d' h u loaded x_train y_train x_test y_test y_hls y_qke t pq ph a_qke a_hls.
        load_model env ''./section2_model_0.h5'' = Inr m
        \<and> config_from_keras_model env m ''name'' = Inr d \<and> snd (print_dict (recursion_frames env) d 0) = None
        \<and> cfg_tweaks (VDict d) = (None, VDict d') \<and> snd (print_dict (recursion_frames env) d' 0) = None
        \<and> convert_from_keras_model env m (VDict d') ''section2_hls4ml_prj''
              ''xcu250-figd2104-2L-e'' rounding_saturation_setting = Inr h
        \<and> compile env h = Inr u
        \<and> mnist_load_data env = Inr loaded
        \<and> get_train_test_set loaded = Inr ((x_train, y_train), (x_test, y_test))
        \<and> hls_predict env h x_test = Inr y_hls \<and> keras_predict env m x_test = Inr y_qke
        \<and> argmax_axis1 env y_test = Inr t \<and> argmax_axis1 env y_qke = Inr pq
        \<and> argmax_axis1 env y_hls = Inr ph
        \<and> accuracy_score env t pq = Inr a_qke \<and> accuracy_score env t ph = Inr a_hls
      \<longrightarrow> filter is_build (calls (snd (notebook env (init_world g0))))
            = [Build h False True True False])"
proof (intro conjI allI impI)
  fix h csim synth vsynth export
  assume "Build h csim synth vsynth export \<in> set (calls (snd (notebook env (init_world g0))))"
  with notebook_calls_ok [of env g0] have "call_ok env (Build h csim synth vsynth export)"
    by blast
  then show "\<not> csim" and "synth" and "vsynth" and "\<not> export" by (simp_all add: call_ok_def)
next
  fix m d d' h u loaded x_train y_train x_test y_test y_hls y_qke t pq ph a_qke a_hls
  assume a: "load_model env ''./section2_model_0.h5'' = Inr m
        \<and> config_from_keras_model env m ''name'' = Inr d \<and> snd (print_dict (recursion_frames env) d 0) = None
        \<and> cfg_tweaks (VDict d) = (None, VDict d') \<and> snd (print_dict (recursion_frames env) d' 0) = None
        \<and> convert_from_keras_model env m (VDict d') ''section2_hls4ml_prj''
              ''xcu250-figd2104-2L-e'' rounding_saturation_setting = Inr h
        \<and> compile env h = Inr u
        \<and> mnist_load_data env = Inr loaded
        \<and> get_train_test_set loaded = Inr ((x_train, y_train), (x_test, y_test))
        \<and> hls_predict env h x_test = Inr y_hls \<and> keras_predict env m x_test = Inr y_qke
        \<and> argmax_axis1 env y_test = Inr t \<and> argmax_axis1 env y_qke = Inr pq
        \<and> argmax_axis1 env y_hls = Inr ph
        \<and> accuracy_score env t pq = Inr a_qke \<and> accuracy_score env t ph = Inr a_hls"
  obtain out1 where o1: "print_dict (recursion_frames env) d 0 = (out1, None)" using a by (metis prod.collapse)
  obtain out2 where o2: "print_dict (recursion_frames env) d' 0 = (out2, None)" using a by (metis prod.collapse)
  from a have
    lm: "load_model env ''./section2_model_0.h5'' = Inr m" and
    cf: "config_from_keras_model env m ''name'' = Inr d" and
    tw: "cfg_tweaks (VDict d) = (None, VDict d')" and
    cv: "convert_from_keras_model env m (VDict d') ''section2_hls4ml_prj''
              ''xcu250-figd2104-2L-e'' rounding_saturation_setting = Inr h" and
    cp: "compile env h = Inr u" and
    ld: "mnist_load_data env = Inr loaded" and
    gs: "get_train_test_set loaded = Inr ((x_train, y_train), (x_test, y_test))" and
    hp: "hls_predict env h x_test = Inr y_hls" and kp: "keras_predict env m x_test = Inr y_qke" and
    at: "argmax_axis1 env y_test = Inr t" and aq: "argmax_axis1 env y_qke = Inr pq" and
    ah: "argmax_axis1 env y_hls = Inr ph" and
    sq: "accuracy_score env t pq = Inr a_qke" and sh: "accuracy_score env t ph = Inr a_hls"
    by simp_all
  note run = notebook_run [OF lm cf o1 tw o2 cv cp ld gs hp kp at aq ah sq sh, of g0]
  show "filter is_build (calls (snd (notebook env (init_world g0)))) = [Build h False True True False]"
    unfolding run build_report_calls by (simp split: sum.splits)
qed


theorem build_flags_witness:
  "filter is_build (calls (snd (notebook sample_env (init_world initial_globals))))
     = [Build () False True True False]
   \<and> Build () False True True False
       \<in> set (calls (snd (notebook sample_env (init_world initial_globals))))"
proof -
  from sample_config obtain d d' where
    cf: "config_from_keras_model sample_env () ''name'' = Inr d" and
    p1: "snd (print_dict (recursion_frames sample_env) d 0) = None" and tw: "cfg_tweaks (VDict d) = (None, VDict d')" and
    p2: "snd (print_dict (recursion_frames sample_env) d' 0) = None"
    by blast
  note main = build_flags [of sample_env initial_globals]
  have hyp: "load_model sample_env ''./section2_model_0.h5'' = Inr ()
        \<and> config_from_keras_model sample_env () ''name'' = Inr d \<and> snd (print_dict (recursion_frames sample_env) d 0) = None
        \<and> cfg_tweaks (VDict d) = (None, VDict d') \<and> snd (print_dict (recursion_frames sample_env) d' 0) = None
        \<and> convert_from_keras_model sample_env () (VDict d') ''section2_hls4ml_prj''
              ''xcu250-figd2104-2L-e'' rounding_saturation_setting = Inr ()
        \<and> compile sample_env () = Inr ()
        \<and> mnist_load_data sample_env
            = Inr (([[[0, 255]]], [1]), ([[[0, 255]], [[255, 0]]], [1, 0]))
        \<and> get_train_test_set (([[[0, 255]]], [1]), ([[[0, 255]], [[255, 0]]], [1, 0]))
            = Inr (([[0, 255 / 256]], [[0, 1, 0, 0, 0, 0, 0, 0, 0, 0]]),
                   ([[0, 255 / 256], [255 / 256, 0]],
                    [[0, 1, 0, 0, 0, 0, 0, 0, 0, 0], [1, 0, 0, 0, 0, 0, 0, 0, 0, 0]]))
        \<and> hls_predict sample_env () [[0, 255 / 256], [255 / 256, 0]]
            = Inr [[1 / 2, 1 / 2, 0, 0, 0, 0, 0, 0, 0, 0], [1 / 2, 1 / 2, 0, 0, 0, 0, 0, 0, 0, 0]]
        \<and> keras_predict sample_env () [[0, 255 / 256], [255 / 256, 0]]
            = Inr [[0, 255 / 256, 0, 0, 0, 0, 0, 0, 0, 0], [255 / 256, 0, 0, 0, 0, 0, 0, 0, 0, 0]]
        \<and> argmax_axis1 sample_env [[0, 1, 0, 0, 0, 0, 0, 0, 0, 0], [1, 0, 0, 0, 0, 0, 0, 0, 0, 0]]
            = Inr [1, 0]
        \<and> argmax_axis1 sample_env
              [[0, 255 / 256, 0, 0, 0, 0, 0, 0, 0, 0], [255 / 256, 0, 0, 0, 0, 0, 0, 0, 0, 0]]
            = Inr [1, 0]
        \<and> argmax_axis1 sample_env
              [[1 / 2, 1 / 2, 0, 0, 0, 0, 0, 0, 0, 0], [1 / 2, 1 / 2, 0, 0, 0, 0, 0, 0, 0, 0]]
            = Inr [0, 0]
        \<and> accuracy_score sample_env [1, 0] [1, 0] = Inr 1
        \<and> accuracy_score sample_env [1, 0] [0, 0] = Inr (1 / 2)"
    using cf p1 tw p2 sample_calls sample_test_set sample_scores by (intro conjI) assumption+
  have one: "filter is_build (calls (snd (notebook sample_env (init_world initial_globals))))
     = [Build () False True True False]"
    by (rule main [THEN conjunct2, rule_format, OF hyp])
  then have "Build () False True True False
       \<in> set (filter is_build (calls (snd (notebook sample_env (init_world initial_globals)))))"
    by simp
  then have mem: "Build () False True True False
       \<in> set (calls (snd (notebook sample_env (init_world initial_globals))))"
    by simp
  from main [THEN conjunct1, rule_format, OF mem] one mem show ?thesis by simp
qed

text \<open>
  C6. The evaluator calls the emulation and the original model on the same test features
  (those \<open>get_train_test_set\<close> returns), computes for each the accuracy score of the
  row-wise argmax of its predictions against the row-wise argmax of the one-hot labels,
  and prints exactly these two numbers, changing nothing else. Nothing compares the two
  numbers: whatever their values, the cell returns normally and the run goes on to the
  build.
\<close>

theorem evaluator_compares_without_gating:
  assumes ld: "mnist_load_data env = Inr loaded"
    and gs: "get_train_test_set loaded = Inr ((x_train, y_train), (x_test, y_test))"
    and hp: "hls_predict env h x_test = Inr y_hls"
    and kp: "keras_predict env m x_test = Inr y_qke"
    and at: "argmax_axis1 env y_test = Inr t"
    and aq: "argmax_axis1 env y_qke = Inr pq"
    and ah: "argmax_axis1 env y_hls = Inr ph"
    and sq: "accuracy_score env t pq = Inr a_qke"
    and sh: "accuracy_score env t ph = Inr a_hls"
  shows "cell_predict env m h w
           = (Inr (y_test, y_hls, y_qke),
              w\<lparr>calls := calls w @ [MnistLoadData, HlsPredict h x_test, KerasPredict m x_test]\<rparr>)
       \<and> cell_accuracy env y_test y_hls y_qke w'
           = (Inr (), w'\<lparr>stdout := stdout w' @ [Formatted ''QKeras Accuracy: '' a_qke,
                                                 Formatted ''hls4ml Accuracy: '' a_hls]\<rparr>)
       \<and> (\<forall>d d' u.
            load_model env ''./section2_model_0.h5'' = Inr m
            \<and> config_from_keras_model env m ''name'' = Inr d \<and> snd (print_dict (recursion_frames env) d 0) = None
            \<and> cfg_tweaks (VDict d) = (None, VDict d') \<and> snd (print_dict (recursion_frames env) d' 0) = None
            \<and> convert_from_keras_model env m (VDict d') ''section2_hls4ml_prj''
                  ''xcu250-figd2104-2L-e'' rounding_saturation_setting = Inr h
            \<and> compile env h = Inr u
          \<longrightarrow> Build h False True True False \<in> set (calls (snd (notebook env (init_world g0)))))"
proof (intro conjI allI impI)
  show "cell_predict env m h w
           = (Inr (y_test, y_hls, y_qke),
              w\<lparr>calls := calls w @ [MnistLoadData, HlsPredict h x_test, KerasPredict m x_test]\<rparr>)"
    by (simp add: cell_predict_def stmt_defs ld gs hp kp)
  show "cell_accuracy env y_test y_hls y_qke w'
           = (Inr (), w'\<lparr>stdout := stdout w' @ [Formatted ''QKeras Accuracy: '' a_qke,
                                                 Formatted ''hls4ml Accuracy: '' a_hls]\<rparr>)"
    by (simp add: cell_accuracy_def print_accuracy_def stmt_defs at aq ah sq sh)
next
  fix d d' u
  assume a: "load_model env ''./section2_model_0.h5'' = Inr m
            \<and> config_from_keras_model env m ''name'' = Inr d \<and> snd (print_dict (recursion_frames env) d 0) = None
            \<and> cfg_tweaks (VDict d) = (None, VDict d') \<and> snd (print_dict (recursion_frames env) d' 0) = None
            \<and> convert_from_keras_model env m (VDict d') ''section2_hls4ml_prj''
                  ''xcu250-figd2104-2L-e'' rounding_saturation_setting = Inr h
            \<and> compile env h = Inr u"
  obtain out1 where o1: "print_dict (recursion_frames env) d 0 = (out1, None)" using a by (metis prod.collapse)
  obtain out2 where o2: "print_dict (recursion_frames env) d' 0 = (out2, None)" using a by (metis prod.collapse)
  from a have
    lm: "load_model env ''./section2_model_0.h5'' = Inr m" and
    cf: "config_from_keras_model env m ''name'' = Inr d" and
    tw: "cfg_tweaks (VDict d) = (None, VDict d')" and
    cv: "convert_from_keras_model env m (VDict d') ''section2_hls4ml_prj''
              ''xcu250-figd2104-2L-e'' rounding_saturation_setting = Inr h" and
    cp: "compile env h = Inr u"
    by simp_all
  note run = notebook_run [OF lm cf o1 tw o2 cv cp ld gs hp kp at aq ah sq sh, of g0]
  show "Build h False True True False \<in> set (calls (snd (notebook env (init_world g0))))"
    unfolding run build_report_calls by simp
qed

theorem evaluator_compares_without_gating_witness:
  "cell_predict sample_env () () (init_world initial_globals)
     = (Inr ([[0, 1, 0, 0, 0, 0, 0, 0, 0, 0], [1, 0, 0, 0, 0, 0, 0, 0, 0, 0]],
             [[1 / 2, 1 / 2, 0, 0, 0, 0, 0, 0, 0, 0], [1 / 2, 1 / 2, 0, 0, 0, 0, 0, 0, 0, 0]],
             [[0, 255 / 256, 0, 0, 0, 0, 0, 0, 0, 0], [255 / 256, 0, 0, 0, 0, 0, 0, 0, 0, 0]]),
        \<lparr>globals = initial_globals,
         calls = [MnistLoadData, HlsPredict () [[0, 255 / 256], [255 / 256, 0]],
                  KerasPredict () [[0, 255 / 256], [255 / 256, 0]]],
         stdout = []\<rparr>)
   \<and> cell_accuracy sample_env
        [[0, 1, 0, 0, 0, 0, 0, 0, 0, 0], [1, 0, 0, 0, 0, 0, 0, 0, 0, 0]]
        [[1 / 2, 1 / 2, 0, 0, 0, 0, 0, 0, 0, 0], [1 / 2, 1 / 2, 0, 0, 0, 0, 0, 0, 0, 0]]
        [[0, 255 / 256, 0, 0, 0, 0, 0, 0, 0, 0], [255 / 256, 0, 0, 0, 0, 0, 0, 0, 0, 0]]
        (init_world initial_globals)
     = (Inr (), \<lparr>globals = initial_globals, calls = [],
                 stdout = [Formatted ''QKeras Accuracy: '' 1,
                           Formatted ''hls4ml Accuracy: '' (1 / 2)]\<rparr>)
   \<and> Build () False True True False
       \<in> set (calls (snd (notebook sample_env (init_world initial_globals))))"
proof -
  from sample_config obtain d d' where
    cf: "config_from_keras_model sample_env () ''name'' = Inr d" and
    p1: "snd (print_dict (recursion_frames sample_env) d 0) = None" and tw: "cfg_tweaks (VDict d) = (None, VDict d')" and
    p2: "snd (print_dict (recursion_frames sample_env) d' 0) = None"
    by blast
  note main = evaluator_compares_without_gating [OF sample_calls(1) sample_test_set sample_calls(2)
      sample_calls(3) sample_scores, of "init_world initial_globals" "init_world initial_globals"
      initial_globals]
  have hyp: "load_model sample_env ''./section2_model_0.h5'' = Inr ()
        \<and> config_from_keras_model sample_env () ''name'' = Inr d \<and> snd (print_dict (recursion_frames sample_env) d 0) = None
        \<and> cfg_tweaks (VDict d) = (None, VDict d') \<and> snd (print_dict (recursion_frames sample_env) d' 0) = None
        \<and> convert_from_keras_model sample_env () (VDict d') ''section2_hls4ml_prj''
              ''xcu250-figd2104-2L-e'' rounding_saturation_setting = Inr ()
        \<and> compile sample_env () = Inr ()"
    using cf p1 tw p2 sample_calls by (intro conjI) assumption+
  have "Build () False True True False
       \<in> set (calls (snd (notebook sample_env (init_world initial_globals))))"
    by (rule main [THEN conjunct2, THEN conjunct2, rule_format, OF hyp])
  with main [THEN conjunct1] main [THEN conjunct2, THEN conjunct1] show ?thesis
    by (simp add: init_world_def)
qed

subsection \<open>The synthesis report\<close>

lemma block_preamble:
  "foldr headed_step rpt_preamble ([], blocks) =
     (take 13 rpt_preamble, (''Table of Contents'', drop 15 rpt_preamble) # blocks)"
  by code_simp

lemma block_clb_logic:
  "foldr headed_step rpt_clb_logic ([], blocks) = ([], (''1. CLB Logic'', drop 2 rpt_clb_logic) # blocks)"
  by code_simp

lemma block_registers:
  "foldr headed_step rpt_registers ([], blocks) = ([], (''1.1 Summary of Registers by Type'', drop 2 rpt_registers) # blocks)"
  by code_simp

lemma block_blockram:
  "foldr headed_step rpt_blockram ([], blocks) = ([], (''2. BLOCKRAM'', drop 2 rpt_blockram) # blocks)"
  by code_simp

lemma block_arithmetic:
  "foldr headed_step rpt_arithmetic ([], blocks) = ([], (''3. ARITHMETIC'', drop 2 rpt_arithmetic) # blocks)"
  by code_simp

lemma block_io:
  "foldr headed_step rpt_io ([], blocks) = ([], (''4. I/O'', drop 2 rpt_io) # blocks)"
  by code_simp

lemma block_clock:
  "foldr headed_step rpt_clock ([], blocks) = ([], (''5. CLOCK'', drop 2 rpt_clock) # blocks)"
  by code_simp

lemma block_advanced:
  "foldr headed_step rpt_advanced ([], blocks) = ([], (''6. ADVANCED'', drop 2 rpt_advanced) # blocks)"
  by code_simp

lemma block_configuration:
  "foldr headed_step rpt_configuration ([], blocks) = ([], (''7. CONFIGURATION'', drop 2 rpt_configuration) # blocks)"
  by code_simp

lemma block_primitives:
  "foldr headed_step rpt_primitives ([], blocks) = ([], (''8. Primitives'', drop 2 rpt_primitives) # blocks)"
  by code_simp

lemma block_black_boxes:
  "foldr headed_step rpt_black_boxes ([], blocks) = ([], (''9. Black Boxes'', drop 2 rpt_black_boxes) # blocks)"
  by code_simp

lemma block_netlists:
  "foldr headed_step rpt_netlists ([], blocks) = ([], (''10. Instantiated Netlists'', drop 2 rpt_netlists) # blocks)"
  by code_simp

lemma block_slr_connectivity:
  "foldr headed_step rpt_slr_connectivity ([], blocks) = ([], (''11. SLR Connectivity'', drop 2 rpt_slr_connectivity) # blocks)"
  by code_simp

lemma block_slr_matrix:
  "foldr headed_step rpt_slr_matrix ([], blocks) = ([], (''12. SLR Connectivity Matrix'', drop 2 rpt_slr_matrix) # blocks)"
  by code_simp

lemma block_slr_clb:
  "foldr headed_step rpt_slr_clb ([], blocks) = ([], (''13. SLR CLB Logic and Dedicated Block Utilization'', drop 2 rpt_slr_clb) # blocks)"
  by code_simp

lemma block_slr_io:
  "foldr headed_step rpt_slr_io ([], blocks) = ([], (''14. SLR IO Utilization'', drop 2 rpt_slr_io) # blocks)"
  by code_simp

lemmas block_lemmas =
  block_preamble block_clb_logic block_registers block_blockram block_arithmetic block_io block_clock block_advanced block_configuration block_primitives block_black_boxes block_netlists block_slr_connectivity block_slr_matrix block_slr_clb block_slr_io

lemma report_blocks:
  "headed_blocks vivado_synth_rpt =
     [(''Table of Contents'', drop 15 rpt_preamble),
      (''1. CLB Logic'', drop 2 rpt_clb_logic),
      (''1.1 Summary of Registers by Type'', drop 2 rpt_registers),
      (''2. BLOCKRAM'', drop 2 rpt_blockram),
      (''3. ARITHMETIC'', drop 2 rpt_arithmetic),
      (''4. I/O'', drop 2 rpt_io),
      (''5. CLOCK'', drop 2 rpt_clock),
      (''6. ADVANCED'', drop 2 rpt_advanced),
      (''7. CONFIGURATION'', drop 2 rpt_configuration),
      (''8. Primitives'', drop 2 rpt_primitives),
      (''9. Black Boxes'', drop 2 rpt_black_boxes),
      (''10. Instantiated Netlists'', drop 2 rpt_netlists),
      (''11. SLR Connectivity'', drop 2 rpt_slr_connectivity),
      (''12. SLR Connectivity Matrix'', drop 2 rpt_slr_matrix),
      (''13. SLR CLB Logic and Dedicated Block Utilization'', drop 2 rpt_slr_clb),
      (''14. SLR IO Utilization'', drop 2 rpt_slr_io)]"
  by (simp add: headed_blocks_def vivado_synth_rpt_def block_lemmas)

lemma title_parse_section: "title (parse_section b) = fst b"
  by (simp add: parse_section_def split: list.splits)

lemma columns_clb_logic:
  "columns (parse_section (''1. CLB Logic'', drop 2 rpt_clb_logic)) =
     [''Site Type'', ''Used'', ''Fixed'', ''Available'', ''Util%'']"
  by code_simp

lemma width_clb_logic: "fixed_width (drop 2 rpt_clb_logic)"
  by code_simp

lemma rows_clb_logic:
  "rows (parse_section (''1. CLB Logic'', drop 2 rpt_clb_logic)) =
     [[''CLB LUTs*'', ''50888'', ''0'', ''1728000'', ''2.94''],
      [''LUT as Logic'', ''50536'', ''0'', ''1728000'', ''2.92''],
      [''LUT as Memory'', ''352'', ''0'', ''791040'', ''0.04''],
      [''LUT as Distributed RAM'', ''0'', ''0'', '''', ''''],
      [''LUT as Shift Register'', ''352'', ''0'', '''', ''''],
      [''CLB Registers'', ''71920'', ''0'', ''3456000'', ''2.08''],
      [''Register as Flip Flop'', ''71920'', ''0'', ''3456000'', ''2.08''],
      [''Register as Latch'', ''0'', ''0'', ''3456000'', ''0.00''],
      [''CARRY8'', ''1693'', ''0'', ''216000'', ''0.78''],
      [''F7 Muxes'', ''2027'', ''0'', ''864000'', ''0.23''],
      [''F8 Muxes'', ''795'', ''0'', ''432000'', ''0.18''],
      [''F9 Muxes'', ''0'', ''0'', ''216000'', ''0.00'']]"
  by code_simp

lemma figures_clb_logic:
  "section_figures (parse_section (''1. CLB Logic'', drop 2 rpt_clb_logic)) =
     [(''CLB LUTs*'', \<lparr>used = Some 50888, available = Some 1728000, util = Some (294 / 100)\<rparr>),
      (''LUT as Logic'', \<lparr>used = Some 50536, available = Some 1728000, util = Some (292 / 100)\<rparr>),
      (''LUT as Memory'', \<lparr>used = Some 352, available = Some 791040, util = Some (4 / 100)\<rparr>),
      (''LUT as Distributed RAM'', \<lparr>used = Some 0, available = None, util = None\<rparr>),
      (''LUT as Shift Register'', \<lparr>used = Some 352, available = None, util = None\<rparr>),
      (''CLB Registers'', \<lparr>used = Some 71920, available = Some 3456000, util = Some (208 / 100)\<rparr>),
      (''Register as Flip Flop'', \<lparr>used = Some 71920, available = Some 3456000, util = Some (208 / 100)\<rparr>),
      (''Register as Latch'', \<lparr>used = Some 0, available = Some 3456000, util = Some (0 / 100)\<rparr>),
      (''CARRY8'', \<lparr>used = Some 1693, available = Some 216000, util = Some (78 / 100)\<rparr>),
      (''F7 Muxes'', \<lparr>used = Some 2027, available = Some 864000, util = Some (23 / 100)\<rparr>),
      (''F8 Muxes'', \<lparr>used = Some 795, available = Some 432000, util = Some (18 / 100)\<rparr>),
      (''F9 Muxes'', \<lparr>used = Some 0, available = Some 216000, util = Some (0 / 100)\<rparr>)]"
  by (simp add: section_figures_def has_utilization_columns_def row_figures_def cell_under_def
      parse_nat_def parse_decimal_def digit_val_def columns_clb_logic rows_clb_logic)

lemma columns_registers:
  "columns (parse_section (''1.1 Summary of Registers by Type'', drop 2 rpt_registers)) =
     [''Total'', ''Clock Enable'', ''Synchronous'', ''Asynchronous'']"
  by code_simp

lemma width_registers: "fixed_width (drop 2 rpt_registers)"
  by code_simp

lemma columns_blockram:
  "columns (parse_section (''2. BLOCKRAM'', drop 2 rpt_blockram)) =
     [''Site Type'', ''Used'', ''Fixed'', ''Available'', ''Util%'']"
  by code_simp

lemma width_blockram: "fixed_width (drop 2 rpt_blockram)"
  by code_simp

lemma columns_arithmetic:
  "columns (parse_section (''3. ARITHMETIC'', drop 2 rpt_arithmetic)) =
     [''Site Type'', ''Used'', ''Fixed'', ''Available'', ''Util%'']"
  by code_simp

lemma width_arithmetic: "fixed_width (drop 2 rpt_arithmetic)"
  by code_simp

lemma columns_io:
  "columns (parse_section (''4. I/O'', drop 2 rpt_io)) =
     [''Site Type'', ''Used'', ''Fixed'', ''Available'', ''Util%'']"
  by code_simp

lemma width_io: "fixed_width (drop 2 rpt_io)"
  by code_simp

lemma columns_clock:
  "columns (parse_section (''5. CLOCK'', drop 2 rpt_clock)) =
     [''Site Type'', ''Used'', ''Fixed'', ''Available'', ''Util%'']"
  by code_simp

lemma width_clock: "fixed_width (drop 2 rpt_clock)"
  by code_simp

lemma columns_advanced:
  "columns (parse_section (''6. ADVANCED'', drop 2 rpt_advanced)) =
     [''Site Type'', ''Used'', ''Fixed'', ''Available'', ''Util%'']"
  by code_simp

lemma width_advanced: "fixed_width (drop 2 rpt_advanced)"
  by code_simp

lemma columns_configuration:
  "columns (parse_section (''7. CONFIGURATION'', drop 2 rpt_configuration)) =
     [''Site Type'', ''Used'', ''Fixed'', ''Available'', ''Util%'']"
  by code_simp

lemma width_configuration: "fixed_width (drop 2 rpt_configuration)"
  by code_simp

lemma columns_primitives:
  "columns (parse_section (''8. Primitives'', drop 2 rpt_primitives)) =
     [''Ref Name'', ''Used'', ''Functional Category'']"
  by code_simp

lemma width_primitives: "fixed_width (drop 2 rpt_primitives)"
  by code_simp

lemma columns_black_boxes:
  "columns (parse_section (''9. Black Boxes'', drop 2 rpt_black_boxes)) =
     [''Ref Name'', ''Used'']"
  by code_simp

lemma width_black_boxes: "fixed_width (drop 2 rpt_black_boxes)"
  by code_simp

lemma columns_netlists:
  "columns (parse_section (''10. Instantiated Netlists'', drop 2 rpt_netlists)) =
     [''Ref Name'', ''Used'']"
  by code_simp

lemma width_netlists: "fixed_width (drop 2 rpt_netlists)"
  by code_simp

lemma columns_slr_connectivity:
  "columns (parse_section (''11. SLR Connectivity'', drop 2 rpt_slr_connectivity)) =
     ['''', ''Used'', ''Fixed'', ''Available'', ''Util%'']"
  by code_simp

lemma width_slr_connectivity: "fixed_width (drop 2 rpt_slr_connectivity)"
  by code_simp

lemma columns_slr_matrix:
  "columns (parse_section (''12. SLR Connectivity Matrix'', drop 2 rpt_slr_matrix)) =
     [''FROM '' @ [CHR 0x5C] @ '' TO'', ''SLR3'', ''SLR2'', ''SLR1'', ''SLR0'']"
  by code_simp

lemma width_slr_matrix: "fixed_width (drop 2 rpt_slr_matrix)"
  by code_simp

lemma columns_slr_clb:
  "columns (parse_section (''13. SLR CLB Logic and Dedicated Block Utilization'', drop 2 rpt_slr_clb)) =
     [''Site Type'', ''SLR0'', ''SLR1'', ''SLR2'', ''SLR3'', ''SLR0 %'', ''SLR1 %'', ''SLR2 %'', ''SLR3 %'']"
  by code_simp

lemma width_slr_clb: "fixed_width (drop 2 rpt_slr_clb)"
  by code_simp

lemma columns_slr_io:
  "columns (parse_section (''14. SLR IO Utilization'', drop 2 rpt_slr_io)) =
     [''SLR Index'', ''Used IOBs'', ''(%)IOBs'', ''Used IPADs'', ''(%)IPADs'', ''Used OPADs'', ''(%)OPADs'', ''GTs'']"
  by code_simp

lemma width_slr_io: "fixed_width (drop 2 rpt_slr_io)"
  by code_simp


lemmas column_lemmas = columns_clb_logic columns_registers columns_blockram columns_arithmetic columns_io columns_clock columns_advanced columns_configuration columns_primitives columns_black_boxes columns_netlists columns_slr_connectivity columns_slr_matrix columns_slr_clb columns_slr_io

lemmas width_lemmas = width_clb_logic width_registers width_blockram width_arithmetic width_io width_clock width_advanced width_configuration width_primitives width_black_boxes width_netlists width_slr_connectivity width_slr_matrix width_slr_clb width_slr_io

lemma report_sections:
  "sections vivado_synth_rpt =
     map parse_section
       [(''1. CLB Logic'', drop 2 rpt_clb_logic),
        (''1.1 Summary of Registers by Type'', drop 2 rpt_registers),
        (''2. BLOCKRAM'', drop 2 rpt_blockram),
        (''3. ARITHMETIC'', drop 2 rpt_arithmetic),
        (''4. I/O'', drop 2 rpt_io),
        (''5. CLOCK'', drop 2 rpt_clock),
        (''6. ADVANCED'', drop 2 rpt_advanced),
        (''7. CONFIGURATION'', drop 2 rpt_configuration),
        (''8. Primitives'', drop 2 rpt_primitives),
        (''9. Black Boxes'', drop 2 rpt_black_boxes),
        (''10. Instantiated Netlists'', drop 2 rpt_netlists),
        (''11. SLR Connectivity'', drop 2 rpt_slr_connectivity),
        (''12. SLR Connectivity Matrix'', drop 2 rpt_slr_matrix),
        (''13. SLR CLB Logic and Dedicated Block Utilization'', drop 2 rpt_slr_clb),
        (''14. SLR IO Utilization'', drop 2 rpt_slr_io)]"
  by (simp add: sections_def split_sections_def report_blocks)

lemma report_contents:
  "table_of_contents vivado_synth_rpt =
     [''1. CLB Logic'',
      ''1.1 Summary of Registers by Type'',
      ''2. BLOCKRAM'',
      ''3. ARITHMETIC'',
      ''4. I/O'',
      ''5. CLOCK'',
      ''6. ADVANCED'',
      ''7. CONFIGURATION'',
      ''8. Primitives'',
      ''9. Black Boxes'',
      ''10. Instantiated Netlists'',
      ''11. SLR Connectivity'',
      ''12. SLR Connectivity Matrix'',
      ''13. SLR CLB Logic and Dedicated Block Utilization'',
      ''14. SLR IO Utilization'']"
  unfolding table_of_contents_def report_blocks by code_simp

lemma figures_registers:
  "section_figures (parse_section (''1.1 Summary of Registers by Type'', drop 2 rpt_registers)) = []"
  by (simp add: section_figures_def has_utilization_columns_def columns_registers)

lemma rows_blockram:
  "rows (parse_section (''2. BLOCKRAM'', drop 2 rpt_blockram)) =
     [[''Block RAM Tile'', ''580'', ''0'', ''2688'', ''21.58''],
      [''RAMB36/FIFO*'', ''348'', ''0'', ''2688'', ''12.95''],
      [''RAMB36E2 only'', ''348'', '''', '''', ''''],
      [''RAMB18'', ''464'', ''0'', ''5376'', ''8.63''],
      [''RAMB18E2 only'', ''464'', '''', '''', ''''],
      [''URAM'', ''0'', ''0'', ''1280'', ''0.00'']]"
  by code_simp

lemma figures_blockram:
  "section_figures (parse_section (''2. BLOCKRAM'', drop 2 rpt_blockram)) =
     [(''Block RAM Tile'', \<lparr>used = Some 580, available = Some 2688, util = Some (2158 / 100)\<rparr>),
      (''RAMB36/FIFO*'', \<lparr>used = Some 348, available = Some 2688, util = Some (1295 / 100)\<rparr>),
      (''RAMB36E2 only'', \<lparr>used = Some 348, available = None, util = None\<rparr>),
      (''RAMB18'', \<lparr>used = Some 464, available = Some 5376, util = Some (863 / 100)\<rparr>),
      (''RAMB18E2 only'', \<lparr>used = Some 464, available = None, util = None\<rparr>),
      (''URAM'', \<lparr>used = Some 0, available = Some 1280, util = Some (0 / 100)\<rparr>)]"
  by (simp add: section_figures_def has_utilization_columns_def row_figures_def cell_under_def
      parse_nat_def parse_decimal_def digit_val_def columns_blockram rows_blockram)

lemma rows_arithmetic:
  "rows (parse_section (''3. ARITHMETIC'', drop 2 rpt_arithmetic)) =
     [[''DSPs'', ''79'', ''0'', ''12288'', ''0.64''],
      [''DSP48E2 only'', ''79'', '''', '''', '''']]"
  by code_simp

lemma figures_arithmetic:
  "section_figures (parse_section (''3. ARITHMETIC'', drop 2 rpt_arithmetic)) =
     [(''DSPs'', \<lparr>used = Some 79, available = Some 12288, util = Some (64 / 100)\<rparr>),
      (''DSP48E2 only'', \<lparr>used = Some 79, available = None, util = None\<rparr>)]"
  by (simp add: section_figures_def has_utilization_columns_def row_figures_def cell_under_def
      parse_nat_def parse_decimal_def digit_val_def columns_arithmetic rows_arithmetic)

lemma rows_io:
  "rows (parse_section (''4. I/O'', drop 2 rpt_io)) =
     [[''Bonded IOB'', ''12755'', ''0'', ''676'', ''1886.83'']]"
  by code_simp

lemma figures_io:
  "section_figures (parse_section (''4. I/O'', drop 2 rpt_io)) =
     [(''Bonded IOB'', \<lparr>used = Some 12755, available = Some 676, util = Some (188683 / 100)\<rparr>)]"
  by (simp add: section_figures_def has_utilization_columns_def row_figures_def cell_under_def
      parse_nat_def parse_decimal_def digit_val_def columns_io rows_io)

lemma rows_clock:
  "rows (parse_section (''5. CLOCK'', drop 2 rpt_clock)) =
     [[''GLOBAL CLOCK BUFFERs'', ''1'', ''0'', ''1344'', ''0.07''],
      [''BUFGCE'', ''1'', ''0'', ''384'', ''0.26''],
      [''BUFGCE_DIV'', ''0'', ''0'', ''64'', ''0.00''],
      [''BUFG_GT'', ''0'', ''0'', ''768'', ''0.00''],
      [''BUFGCTRL*'', ''0'', ''0'', ''128'', ''0.00''],
      [''PLL'', ''0'', ''0'', ''32'', ''0.00''],
      [''MMCM'', ''0'', ''0'', ''16'', ''0.00'']]"
  by code_simp

lemma figures_clock:
  "section_figures (parse_section (''5. CLOCK'', drop 2 rpt_clock)) =
     [(''GLOBAL CLOCK BUFFERs'', \<lparr>used = Some 1, available = Some 1344, util = Some (7 / 100)\<rparr>),
      (''BUFGCE'', \<lparr>used = Some 1, available = Some 384, util = Some (26 / 100)\<rparr>),
      (''BUFGCE_DIV'', \<lparr>used = Some 0, available = Some 64, util = Some (0 / 100)\<rparr>),
      (''BUFG_GT'', \<lparr>used = Some 0, available = Some 768, util = Some (0 / 100)\<rparr>),
      (''BUFGCTRL*'', \<lparr>used = Some 0, available = Some 128, util = Some (0 / 100)\<rparr>),
      (''PLL'', \<lparr>used = Some 0, available = Some 32, util = Some (0 / 100)\<rparr>),
      (''MMCM'', \<lparr>used = Some 0, available = Some 16, util = Some (0 / 100)\<rparr>)]"
  by (simp add: section_figures_def has_utilization_columns_def row_figures_def cell_under_def
      parse_nat_def parse_decimal_def digit_val_def columns_clock rows_clock)

lemma rows_advanced:
  "rows (parse_section (''6. ADVANCED'', drop 2 rpt_advanced)) =
     [[''CMACE4'', ''0'', ''0'', ''12'', ''0.00''],
      [''GTYE4_CHANNEL'', ''0'', ''0'', ''24'', ''0.00''],
      [''GTYE4_COMMON'', ''0'', ''0'', ''6'', ''0.00''],
      [''ILKNE4'', ''0'', ''0'', ''8'', ''0.00''],
      [''OBUFDS_GTE4'', ''0'', ''0'', ''12'', ''0.00''],
      [''OBUFDS_GTE4_ADV'', ''0'', ''0'', ''12'', ''0.00''],
      [''PCIE40E4'', ''0'', ''0'', ''4'', ''0.00''],
      [''SYSMONE4'', ''0'', ''0'', ''4'', ''0.00'']]"
  by code_simp

lemma figures_advanced:
  "section_figures (parse_section (''6. ADVANCED'', drop 2 rpt_advanced)) =
     [(''CMACE4'', \<lparr>used = Some 0, available = Some 12, util = Some (0 / 100)\<rparr>),
      (''GTYE4_CHANNEL'', \<lparr>used = Some 0, available = Some 24, util = Some (0 / 100)\<rparr>),
      (''GTYE4_COMMON'', \<lparr>used = Some 0, available = Some 6, util = Some (0 / 100)\<rparr>),
      (''ILKNE4'', \<lparr>used = Some 0, available = Some 8, util = Some (0 / 100)\<rparr>),
      (''OBUFDS_GTE4'', \<lparr>used = Some 0, available = Some 12, util = Some (0 / 100)\<rparr>),
      (''OBUFDS_GTE4_ADV'', \<lparr>used = Some 0, available = Some 12, util = Some (0 / 100)\<rparr>),
      (''PCIE40E4'', \<lparr>used = Some 0, available = Some 4, util = Some (0 / 100)\<rparr>),
      (''SYSMONE4'', \<lparr>used = Some 0, available = Some 4, util = Some (0 / 100)\<rparr>)]"
  by (simp add: section_figures_def has_utilization_columns_def row_figures_def cell_under_def
      parse_nat_def parse_decimal_def digit_val_def columns_advanced rows_advanced)

lemma rows_configuration:
  "rows (parse_section (''7. CONFIGURATION'', drop 2 rpt_configuration)) =
     [[''BSCANE2'', ''0'', ''0'', ''16'', ''0.00''],
      [''DNA_PORTE2'', ''0'', ''0'', ''4'', ''0.00''],
      [''EFUSE_USR'', ''0'', ''0'', ''4'', ''0.00''],
      [''FRAME_ECCE4'', ''0'', ''0'', ''4'', ''0.00''],
      [''ICAPE3'', ''0'', ''0'', ''8'', ''0.00''],
      [''MASTER_JTAG'', ''0'', ''0'', ''4'', ''0.00''],
      [''STARTUPE3'', ''0'', ''0'', ''4'', ''0.00'']]"
  by code_simp

lemma figures_configuration:
  "section_figures (parse_section (''7. CONFIGURATION'', drop 2 rpt_configuration)) =
     [(''BSCANE2'', \<lparr>used = Some 0, available = Some 16, util = Some (0 / 100)\<rparr>),
      (''DNA_PORTE2'', \<lparr>used = Some 0, available = Some 4, util = Some (0 / 100)\<rparr>),
      (''EFUSE_USR'', \<lparr>used = Some 0, available = Some 4, util = Some (0 / 100)\<rparr>),
      (''FRAME_ECCE4'', \<lparr>used = Some 0, available = Some 4, util = Some (0 / 100)\<rparr>),
      (''ICAPE3'', \<lparr>used = Some 0, available = Some 8, util = Some (0 / 100)\<rparr>),
      (''MASTER_JTAG'', \<lparr>used = Some 0, available = Some 4, util = Some (0 / 100)\<rparr>),
      (''STARTUPE3'', \<lparr>used = Some 0, available = Some 4, util = Some (0 / 100)\<rparr>)]"
  by (simp add: section_figures_def has_utilization_columns_def row_figures_def cell_under_def
      parse_nat_def parse_decimal_def digit_val_def columns_configuration rows_configuration)

lemma figures_primitives:
  "section_figures (parse_section (''8. Primitives'', drop 2 rpt_primitives)) = []"
  by (simp add: section_figures_def has_utilization_columns_def columns_primitives)

lemma figures_black_boxes:
  "section_figures (parse_section (''9. Black Boxes'', drop 2 rpt_black_boxes)) = []"
  by (simp add: section_figures_def has_utilization_columns_def columns_black_boxes)

lemma figures_netlists:
  "section_figures (parse_section (''10. Instantiated Netlists'', drop 2 rpt_netlists)) = []"
  by (simp add: section_figures_def has_utilization_columns_def columns_netlists)

lemma rows_slr_connectivity:
  "rows (parse_section (''11. SLR Connectivity'', drop 2 rpt_slr_connectivity)) =
     [[''SLR3 <-> SLR2'', ''0'', '''', ''23040'', ''0.00''],
      [''SLR2 -> SLR3'', ''0'', '''', '''', ''0.00''],
      [''Using TX_REG only'', ''0'', ''0'', '''', ''''],
      [''Using RX_REG only'', ''0'', ''0'', '''', ''''],
      [''Using Both TX_REG and RX_REG'', ''0'', ''0'', '''', ''''],
      [''SLR3 -> SLR2'', ''0'', '''', '''', ''0.00''],
      [''Using TX_REG only'', ''0'', ''0'', '''', ''''],
      [''Using RX_REG only'', ''0'', ''0'', '''', ''''],
      [''Using Both TX_REG and RX_REG'', ''0'', ''0'', '''', ''''],
      [''SLR2 <-> SLR1'', ''0'', '''', ''23040'', ''0.00''],
      [''SLR1 -> SLR2'', ''0'', '''', '''', ''0.00''],
      [''Using TX_REG only'', ''0'', ''0'', '''', ''''],
      [''Using RX_REG only'', ''0'', ''0'', '''', ''''],
      [''Using Both TX_REG and RX_REG'', ''0'', ''0'', '''', ''''],
      [''SLR2 -> SLR1'', ''0'', '''', '''', ''0.00''],
      [''Using TX_REG only'', ''0'', ''0'', '''', ''''],
      [''Using RX_REG only'', ''0'', ''0'', '''', ''''],
      [''Using Both TX_REG and RX_REG'', ''0'', ''0'', '''', ''''],
      [''SLR1 <-> SLR0'', ''0'', '''', ''23040'', ''0.00''],
      [''SLR0 -> SLR1'', ''0'', '''', '''', ''0.00''],
      [''Using TX_REG only'', ''0'', ''0'', '''', ''''],
      [''Using RX_REG only'', ''0'', ''0'', '''', ''''],
      [''Using Both TX_REG and RX_REG'', ''0'', ''0'', '''', ''''],
      [''SLR1 -> SLR0'', ''0'', '''', '''', ''0.00''],
      [''Using TX_REG only'', ''0'', ''0'', '''', ''''],
      [''Using RX_REG only'', ''0'', ''0'', '''', ''''],
      [''Using Both TX_REG and RX_REG'', ''0'', ''0'', '''', ''''],
      [''Total SLLs Used'', ''0'', '''', '''', '''']]"
  by code_simp

lemma figures_slr_connectivity:
  "section_figures (parse_section (''11. SLR Connectivity'', drop 2 rpt_slr_connectivity)) =
     [(''SLR3 <-> SLR2'', \<lparr>used = Some 0, available = Some 23040, util = Some (0 / 100)\<rparr>),
      (''SLR2 -> SLR3'', \<lparr>used = Some 0, available = None, util = Some (0 / 100)\<rparr>),
      (''Using TX_REG only'', \<lparr>used = Some 0, available = None, util = None\<rparr>),
      (''Using RX_REG only'', \<lparr>used = Some 0, available = None, util = None\<rparr>),
      (''Using Both TX_REG and RX_REG'', \<lparr>used = Some 0, available = None, util = None\<rparr>),
      (''SLR3 -> SLR2'', \<lparr>used = Some 0, available = None, util = Some (0 / 100)\<rparr>),
      (''Using TX_REG only'', \<lparr>used = Some 0, available = None, util = None\<rparr>),
      (''Using RX_REG only'', \<lparr>used = Some 0, available = None, util = None\<rparr>),
      (''Using Both TX_REG and RX_REG'', \<lparr>used = Some 0, available = None, util = None\<rparr>),
      (''SLR2 <-> SLR1'', \<lparr>used = Some 0, available = Some 23040, util = Some (0 / 100)\<rparr>),
      (''SLR1 -> SLR2'', \<lparr>used = Some 0, available = None, util = Some (0 / 100)\<rparr>),
      (''Using TX_REG only'', \<lparr>used = Some 0, available = None, util = None\<rparr>),
      (''Using RX_REG only'', \<lparr>used = Some 0, available = None, util = None\<rparr>),
      (''Using Both TX_REG and RX_REG'', \<lparr>used = Some 0, available = None, util = None\<rparr>),
      (''SLR2 -> SLR1'', \<lparr>used = Some 0, available = None, util = Some (0 / 100)\<rparr>),
      (''Using TX_REG only'', \<lparr>used = Some 0, available = None, util = None\<rparr>),
      (''Using RX_REG only'', \<lparr>used = Some 0, available = None, util = None\<rparr>),
      (''Using Both TX_REG and RX_REG'', \<lparr>used = Some 0, available = None, util = None\<rparr>),
      (''SLR1 <-> SLR0'', \<lparr>used = Some 0, available = Some 23040, util = Some (0 / 100)\<rparr>),
      (''SLR0 -> SLR1'', \<lparr>used = Some 0, available = None, util = Some (0 / 100)\<rparr>),
      (''Using TX_REG only'', \<lparr>used = Some 0, available = None, util = None\<rparr>),
      (''Using RX_REG only'', \<lparr>used = Some 0, available = None, util = None\<rparr>),
      (''Using Both TX_REG and RX_REG'', \<lparr>used = Some 0, available = None, util = None\<rparr>),
      (''SLR1 -> SLR0'', \<lparr>used = Some 0, available = None, util = Some (0 / 100)\<rparr>),
      (''Using TX_REG only'', \<lparr>used = Some 0, available = None, util = None\<rparr>),
      (''Using RX_REG only'', \<lparr>used = Some 0, available = None, util = None\<rparr>),
      (''Using Both TX_REG and RX_REG'', \<lparr>used = Some 0, available = None, util = None\<rparr>),
      (''Total SLLs Used'', \<lparr>used = Some 0, available = None, util = None\<rparr>)]"
  by (simp add: section_figures_def has_utilization_columns_def row_figures_def cell_under_def
      parse_nat_def parse_decimal_def digit_val_def columns_slr_connectivity rows_slr_connectivity)

lemma figures_slr_matrix:
  "section_figures (parse_section (''12. SLR Connectivity Matrix'', drop 2 rpt_slr_matrix)) = []"
  by (simp add: section_figures_def has_utilization_columns_def columns_slr_matrix)

lemma figures_slr_clb:
  "section_figures (parse_section (''13. SLR CLB Logic and Dedicated Block Utilization'', drop 2 rpt_slr_clb)) = []"
  by (simp add: section_figures_def has_utilization_columns_def columns_slr_clb)

lemma figures_slr_io:
  "section_figures (parse_section (''14. SLR IO Utilization'', drop 2 rpt_slr_io)) = []"
  by (simp add: section_figures_def has_utilization_columns_def columns_slr_io)

lemmas figures_lemmas = figures_clb_logic figures_registers figures_blockram figures_arithmetic figures_io figures_clock figures_advanced figures_configuration figures_primitives figures_black_boxes figures_netlists figures_slr_connectivity figures_slr_matrix figures_slr_clb figures_slr_io

text \<open>
  C5. The reader, run on the checked-in report, returns the figures of the file: for each
  row of the eight tables with the columns \<open>Used\<close>, \<open>Available\<close> and \<open>Util%\<close>
  (sections 1 to 7 and 11), in the order of the file, the numbers printed under these
  columns, and no figure where the cell is empty; 71 rows in all. For the row
  \<open>CLB LUTs\<close> (the report marks it with an asterisk) these are 50888 used, 1728000
  available and 2.94 percent.
\<close>

theorem read_report_clb_luts:
  "read_report vivado_synth_rpt =
     [(''CLB LUTs*'', \<lparr>used = Some 50888, available = Some 1728000, util = Some (294 / 100)\<rparr>),
      (''LUT as Logic'', \<lparr>used = Some 50536, available = Some 1728000, util = Some (292 / 100)\<rparr>),
      (''LUT as Memory'', \<lparr>used = Some 352, available = Some 791040, util = Some (4 / 100)\<rparr>),
      (''LUT as Distributed RAM'', \<lparr>used = Some 0, available = None, util = None\<rparr>),
      (''LUT as Shift Register'', \<lparr>used = Some 352, available = None, util = None\<rparr>),
      (''CLB Registers'', \<lparr>used = Some 71920, available = Some 3456000, util = Some (208 / 100)\<rparr>),
      (''Register as Flip Flop'', \<lparr>used = Some 71920, available = Some 3456000, util = Some (208 / 100)\<rparr>),
      (''Register as Latch'', \<lparr>used = Some 0, available = Some 3456000, util = Some (0 / 100)\<rparr>),
      (''CARRY8'', \<lparr>used = Some 1693, available = Some 216000, util = Some (78 / 100)\<rparr>),
      (''F7 Muxes'', \<lparr>used = Some 2027, available = Some 864000, util = Some (23 / 100)\<rparr>),
      (''F8 Muxes'', \<lparr>used = Some 795, available = Some 432000, util = Some (18 / 100)\<rparr>),
      (''F9 Muxes'', \<lparr>used = Some 0, available = Some 216000, util = Some (0 / 100)\<rparr>),
      (''Block RAM Tile'', \<lparr>used = Some 580, available = Some 2688, util = Some (2158 / 100)\<rparr>),
      (''RAMB36/FIFO*'', \<lparr>used = Some 348, available = Some 2688, util = Some (1295 / 100)\<rparr>),
      (''RAMB36E2 only'', \<lparr>used = Some 348, available = None, util = None\<rparr>),
      (''RAMB18'', \<lparr>used = Some 464, available = Some 5376, util = Some (863 / 100)\<rparr>),
      (''RAMB18E2 only'', \<lparr>used = Some 464, available = None, util = None\<rparr>),
      (''URAM'', \<lparr>used = Some 0, available = Some 1280, util = Some (0 / 100)\<rparr>),
      (''DSPs'', \<lparr>used = Some 79, available = Some 12288, util = Some (64 / 100)\<rparr>),
      (''DSP48E2 only'', \<lparr>used = Some 79, available = None, util = None\<rparr>),
      (''Bonded IOB'', \<lparr>used = Some 12755, available = Some 676, util = Some (188683 / 100)\<rparr>),
      (''GLOBAL CLOCK BUFFERs'', \<lparr>used = Some 1, available = Some 1344, util = Some (7 / 100)\<rparr>),
      (''BUFGCE'', \<lparr>used = Some 1, available = Some 384, util = Some (26 / 100)\<rparr>),
      (''BUFGCE_DIV'', \<lparr>used = Some 0, available = Some 64, util = Some (0 / 100)\<rparr>),
      (''BUFG_GT'', \<lparr>used = Some 0, available = Some 768, util = Some (0 / 100)\<rparr>),
      (''BUFGCTRL*'', \<lparr>used = Some 0, available = Some 128, util = Some (0 / 100)\<rparr>),
      (''PLL'', \<lparr>used = Some 0, available = Some 32, util = Some (0 / 100)\<rparr>),
      (''MMCM'', \<lparr>used = Some 0, available = Some 16, util = Some (0 / 100)\<rparr>),
      (''CMACE4'', \<lparr>used = Some 0, available = Some 12, util = Some (0 / 100)\<rparr>),
      (''GTYE4_CHANNEL'', \<lparr>used = Some 0, available = Some 24, util = Some (0 / 100)\<rparr>),
      (''GTYE4_COMMON'', \<lparr>used = Some 0, available = Some 6, util = Some (0 / 100)\<rparr>),
      (''ILKNE4'', \<lparr>used = Some 0, available = Some 8, util = Some (0 / 100)\<rparr>),
      (''OBUFDS_GTE4'', \<lparr>used = Some 0, available = Some 12, util = Some (0 / 100)\<rparr>),
      (''OBUFDS_GTE4_ADV'', \<lparr>used = Some 0, available = Some 12, util = Some (0 / 100)\<rparr>),
      (''PCIE40E4'', \<lparr>used = Some 0, available = Some 4, util = Some (0 / 100)\<rparr>),
      (''SYSMONE4'', \<lparr>used = Some 0, available = Some 4, util = Some (0 / 100)\<rparr>),
      (''BSCANE2'', \<lparr>used = Some 0, available = Some 16, util = Some (0 / 100)\<rparr>),
      (''DNA_PORTE2'', \<lparr>used = Some 0, available = Some 4, util = Some (0 / 100)\<rparr>),
      (''EFUSE_USR'', \<lparr>used = Some 0, available = Some 4, util = Some (0 / 100)\<rparr>),
      (''FRAME_ECCE4'', \<lparr>used = Some 0, available = Some 4, util = Some (0 / 100)\<rparr>),
      (''ICAPE3'', \<lparr>used = Some 0, available = Some 8, util = Some (0 / 100)\<rparr>),
      (''MASTER_JTAG'', \<lparr>used = Some 0, available = Some 4, util = Some (0 / 100)\<rparr>),
      (''STARTUPE3'', \<lparr>used = Some 0, available = Some 4, util = Some (0 / 100)\<rparr>),
      (''SLR3 <-> SLR2'', \<lparr>used = Some 0, available = Some 23040, util = Some (0 / 100)\<rparr>),
      (''SLR2 -> SLR3'', \<lparr>used = Some 0, available = None, util = Some (0 / 100)\<rparr>),
      (''Using TX_REG only'', \<lparr>used = Some 0, available = None, util = None\<rparr>),
      (''Using RX_REG only'', \<lparr>used = Some 0, available = None, util = None\<rparr>),
      (''Using Both TX_REG and RX_REG'', \<lparr>used = Some 0, available = None, util = None\<rparr>),
      (''SLR3 -> SLR2'', \<lparr>used = Some 0, available = None, util = Some (0 / 100)\<rparr>),
      (''Using TX_REG only'', \<lparr>used = Some 0, available = None, util = None\<rparr>),
      (''Using RX_REG only'', \<lparr>used = Some 0, available = None, util = None\<rparr>),
      (''Using Both TX_REG and RX_REG'', \<lparr>used = Some 0, available = None, util = None\<rparr>),
      (''SLR2 <-> SLR1'', \<lparr>used = Some 0, available = Some 23040, util = Some (0 / 100)\<rparr>),
      (''SLR1 -> SLR2'', \<lparr>used = Some 0, available = None, util = Some (0 / 100)\<rparr>),
      (''Using TX_REG only'', \<lparr>used = Some 0, available = None, util = None\<rparr>),
      (''Using RX_REG only'', \<lparr>used = Some 0, available = None, util = None\<rparr>),
      (''Using Both TX_REG and RX_REG'', \<lparr>used = Some 0, available = None, util = None\<rparr>),
      (''SLR2 -> SLR1'', \<lparr>used = Some 0, available = None, util = Some (0 / 100)\<rparr>),
      (''Using TX_REG only'', \<lparr>used = Some 0, available = None, util = None\<rparr>),
      (''Using RX_REG only'', \<lparr>used = Some 0, available = None, util = None\<rparr>),
      (''Using Both TX_REG and RX_REG'', \<lparr>used = Some 0, available = None, util = None\<rparr>),
      (''SLR1 <-> SLR0'', \<lparr>used = Some 0, available = Some 23040, util = Some (0 / 100)\<rparr>),
      (''SLR0 -> SLR1'', \<lparr>used = Some 0, available = None, util = Some (0 / 100)\<rparr>),
      (''Using TX_REG only'', \<lparr>used = Some 0, available = None, util = None\<rparr>),
      (''Using RX_REG only'', \<lparr>used = Some 0, available = None, util = None\<rparr>),
      (''Using Both TX_REG and RX_REG'', \<lparr>used = Some 0, available = None, util = None\<rparr>),
      (''SLR1 -> SLR0'', \<lparr>used = Some 0, available = None, util = Some (0 / 100)\<rparr>),
      (''Using TX_REG only'', \<lparr>used = Some 0, available = None, util = None\<rparr>),
      (''Using RX_REG only'', \<lparr>used = Some 0, available = None, util = None\<rparr>),
      (''Using Both TX_REG and RX_REG'', \<lparr>used = Some 0, available = None, util = None\<rparr>),
      (''Total SLLs Used'', \<lparr>used = Some 0, available = None, util = None\<rparr>)]
   \<and> map_of (read_report vivado_synth_rpt) ''CLB LUTs*''
       = Some \<lparr>used = Some 50888, available = Some 1728000, util = Some (294 / 100)\<rparr>"
proof -
  have all: "read_report vivado_synth_rpt =
     [(''CLB LUTs*'', \<lparr>used = Some 50888, available = Some 1728000, util = Some (294 / 100)\<rparr>),
      (''LUT as Logic'', \<lparr>used = Some 50536, available = Some 1728000, util = Some (292 / 100)\<rparr>),
      (''LUT as Memory'', \<lparr>used = Some 352, available = Some 791040, util = Some (4 / 100)\<rparr>),
      (''LUT as Distributed RAM'', \<lparr>used = Some 0, available = None, util = None\<rparr>),
      (''LUT as Shift Register'', \<lparr>used = Some 352, available = None, util = None\<rparr>),
      (''CLB Registers'', \<lparr>used = Some 71920, available = Some 3456000, util = Some (208 / 100)\<rparr>),
      (''Register as Flip Flop'', \<lparr>used = Some 71920, available = Some 3456000, util = Some (208 / 100)\<rparr>),
      (''Register as Latch'', \<lparr>used = Some 0, available = Some 3456000, util = Some (0 / 100)\<rparr>),
      (''CARRY8'', \<lparr>used = Some 1693, available = Some 216000, util = Some (78 / 100)\<rparr>),
      (''F7 Muxes'', \<lparr>used = Some 2027, available = Some 864000, util = Some (23 / 100)\<rparr>),
      (''F8 Muxes'', \<lparr>used = Some 795, available = Some 432000, util = Some (18 / 100)\<rparr>),
      (''F9 Muxes'', \<lparr>used = Some 0, available = Some 216000, util = Some (0 / 100)\<rparr>),
      (''Block RAM Tile'', \<lparr>used = Some 580, available = Some 2688, util = Some (2158 / 100)\<rparr>),
      (''RAMB36/FIFO*'', \<lparr>used = Some 348, available = Some 2688, util = Some (1295 / 100)\<rparr>),
      (''RAMB36E2 only'', \<lparr>used = Some 348, available = None, util = None\<rparr>),
      (''RAMB18'', \<lparr>used = Some 464, available = Some 5376, util = Some (863 / 100)\<rparr>),
      (''RAMB18E2 only'', \<lparr>used = Some 464, available = None, util = None\<rparr>),
      (''URAM'', \<lparr>used = Some 0, available = Some 1280, util = Some (0 / 100)\<rparr>),
      (''DSPs'', \<lparr>used = Some 79, available = Some 12288, util = Some (64 / 100)\<rparr>),
      (''DSP48E2 only'', \<lparr>used = Some 79, available = None, util = None\<rparr>),
      (''Bonded IOB'', \<lparr>used = Some 12755, available = Some 676, util = Some (188683 / 100)\<rparr>),
      (''GLOBAL CLOCK BUFFERs'', \<lparr>used = Some 1, available = Some 1344, util = Some (7 / 100)\<rparr>),
      (''BUFGCE'', \<lparr>used = Some 1, available = Some 384, util = Some (26 / 100)\<rparr>),
      (''BUFGCE_DIV'', \<lparr>used = Some 0, available = Some 64, util = Some (0 / 100)\<rparr>),
      (''BUFG_GT'', \<lparr>used = Some 0, available = Some 768, util = Some (0 / 100)\<rparr>),
      (''BUFGCTRL*'', \<lparr>used = Some 0, available = Some 128, util = Some (0 / 100)\<rparr>),
      (''PLL'', \<lparr>used = Some 0, available = Some 32, util = Some (0 / 100)\<rparr>),
      (''MMCM'', \<lparr>used = Some 0, available = Some 16, util = Some (0 / 100)\<rparr>),
      (''CMACE4'', \<lparr>used = Some 0, available = Some 12, util = Some (0 / 100)\<rparr>),
      (''GTYE4_CHANNEL'', \<lparr>used = Some 0, available = Some 24, util = Some (0 / 100)\<rparr>),
      (''GTYE4_COMMON'', \<lparr>used = Some 0, available = Some 6, util = Some (0 / 100)\<rparr>),
      (''ILKNE4'', \<lparr>used = Some 0, available = Some 8, util = Some (0 / 100)\<rparr>),
      (''OBUFDS_GTE4'', \<lparr>used = Some 0, available = Some 12, util = Some (0 / 100)\<rparr>),
      (''OBUFDS_GTE4_ADV'', \<lparr>used = Some 0, available = Some 12, util = Some (0 / 100)\<rparr>),
      (''PCIE40E4'', \<lparr>used = Some 0, available = Some 4, util = Some (0 / 100)\<rparr>),
      (''SYSMONE4'', \<lparr>used = Some 0, available = Some 4, util = Some (0 / 100)\<rparr>),
      (''BSCANE2'', \<lparr>used = Some 0, available = Some 16, util = Some (0 / 100)\<rparr>),
      (''DNA_PORTE2'', \<lparr>used = Some 0, available = Some 4, util = Some (0 / 100)\<rparr>),
      (''EFUSE_USR'', \<lparr>used = Some 0, available = Some 4, util = Some (0 / 100)\<rparr>),
      (''FRAME_ECCE4'', \<lparr>used = Some 0, available = Some 4, util = Some (0 / 100)\<rparr>),
      (''ICAPE3'', \<lparr>used = Some 0, available = Some 8, util = Some (0 / 100)\<rparr>),
      (''MASTER_JTAG'', \<lparr>used = Some 0, available = Some 4, util = Some (0 / 100)\<rparr>),
      (''STARTUPE3'', \<lparr>used = Some 0, available = Some 4, util = Some (0 / 100)\<rparr>),
      (''SLR3 <-> SLR2'', \<lparr>used = Some 0, available = Some 23040, util = Some (0 / 100)\<rparr>),
      (''SLR2 -> SLR3'', \<lparr>used = Some 0, available = None, util = Some (0 / 100)\<rparr>),
      (''Using TX_REG only'', \<lparr>used = Some 0, available = None, util = None\<rparr>),
      (''Using RX_REG only'', \<lparr>used = Some 0, available = None, util = None\<rparr>),
      (''Using Both TX_REG and RX_REG'', \<lparr>used = Some 0, available = None, util = None\<rparr>),
      (''SLR3 -> SLR2'', \<lparr>used = Some 0, available = None, util = Some (0 / 100)\<rparr>),
      (''Using TX_REG only'', \<lparr>used = Some 0, available = None, util = None\<rparr>),
      (''Using RX_REG only'', \<lparr>used = Some 0, available = None, util = None\<rparr>),
      (''Using Both TX_REG and RX_REG'', \<lparr>used = Some 0, available = None, util = None\<rparr>),
      (''SLR2 <-> SLR1'', \<lparr>used = Some 0, available = Some 23040, util = Some (0 / 100)\<rparr>),
      (''SLR1 -> SLR2'', \<lparr>used = Some 0, available = None, util = Some (0 / 100)\<rparr>),
      (''Using TX_REG only'', \<lparr>used = Some 0, available = None, util = None\<rparr>),
      (''Using RX_REG only'', \<lparr>used = Some 0, available = None, util = None\<rparr>),
      (''Using Both TX_REG and RX_REG'', \<lparr>used = Some 0, available = None, util = None\<rparr>),
      (''SLR2 -> SLR1'', \<lparr>used = Some 0, available = None, util = Some (0 / 100)\<rparr>),
      (''Using TX_REG only'', \<lparr>used = Some 0, available = None, util = None\<rparr>),
      (''Using RX_REG only'', \<lparr>used = Some 0, available = None, util = None\<rparr>),
      (''Using Both TX_REG and RX_REG'', \<lparr>used = Some 0, available = None, util = None\<rparr>),
      (''SLR1 <-> SLR0'', \<lparr>used = Some 0, available = Some 23040, util = Some (0 / 100)\<rparr>),
      (''SLR0 -> SLR1'', \<lparr>used = Some 0, available = None, util = Some (0 / 100)\<rparr>),
      (''Using TX_REG only'', \<lparr>used = Some 0, available = None, util = None\<rparr>),
      (''Using RX_REG only'', \<lparr>used = Some 0, available = None, util = None\<rparr>),
      (''Using Both TX_REG and RX_REG'', \<lparr>used = Some 0, available = None, util = None\<rparr>),
      (''SLR1 -> SLR0'', \<lparr>used = Some 0, available = None, util = Some (0 / 100)\<rparr>),
      (''Using TX_REG only'', \<lparr>used = Some 0, available = None, util = None\<rparr>),
      (''Using RX_REG only'', \<lparr>used = Some 0, available = None, util = None\<rparr>),
      (''Using Both TX_REG and RX_REG'', \<lparr>used = Some 0, available = None, util = None\<rparr>),
      (''Total SLLs Used'', \<lparr>used = Some 0, available = None, util = None\<rparr>)]"
    by (simp add: read_report_def report_sections figures_lemmas)
  show ?thesis unfolding all by simp
qed

text \<open>
  C8 as stated fails on the report. Seven of its fifteen sections do not have the columns
  \<open>Used\<close>, \<open>Fixed\<close>, \<open>Available\<close>, \<open>Util%\<close>, and only two titles mention
  \<open>SLR Connectivity\<close>: section 13 is \<open>SLR CLB Logic and Dedicated Block Utilization\<close>.
\<close>

theorem report_sections_counterexample:
  "map title (filter (\<lambda>s. \<not> has_utilization_columns s) (sections vivado_synth_rpt)) =
     [''1.1 Summary of Registers by Type'',
      ''8. Primitives'',
      ''9. Black Boxes'',
      ''10. Instantiated Netlists'',
      ''12. SLR Connectivity Matrix'',
      ''13. SLR CLB Logic and Dedicated Block Utilization'',
      ''14. SLR IO Utilization'']
   \<and> filter (mentions ''SLR Connectivity'') (table_of_contents vivado_synth_rpt) =
       [''11. SLR Connectivity'', ''12. SLR Connectivity Matrix'']"
  by (simp add: report_sections report_contents has_utilization_columns_def column_lemmas
      title_parse_section)

text \<open>
  C8, amended. The report is a fixed-width text table (in every section the rules and rows
  have one length) in the numbered sections its table of contents lists: 1 CLB Logic with
  1.1 Summary of Registers by Type, 2 BLOCKRAM, 3 ARITHMETIC, 4 I/O, 5 CLOCK, 6 ADVANCED,
  7 CONFIGURATION, 8 Primitives, 9 Black Boxes, 10 Instantiated Netlists, 11 SLR
  Connectivity, 12 SLR Connectivity Matrix, 13 SLR CLB Logic and Dedicated Block
  Utilization, 14 SLR IO Utilization. Sections 1 to 7 and 11 list their rows under the
  columns \<open>Used\<close>, \<open>Fixed\<close>, \<open>Available\<close>, \<open>Util%\<close>; the other sections have columns
  of their own.
\<close>

theorem report_layout:
  "table_of_contents vivado_synth_rpt =
     [''1. CLB Logic'',
      ''1.1 Summary of Registers by Type'',
      ''2. BLOCKRAM'',
      ''3. ARITHMETIC'',
      ''4. I/O'',
      ''5. CLOCK'',
      ''6. ADVANCED'',
      ''7. CONFIGURATION'',
      ''8. Primitives'',
      ''9. Black Boxes'',
      ''10. Instantiated Netlists'',
      ''11. SLR Connectivity'',
      ''12. SLR Connectivity Matrix'',
      ''13. SLR CLB Logic and Dedicated Block Utilization'',
      ''14. SLR IO Utilization'']
   \<and> map title (sections vivado_synth_rpt) = table_of_contents vivado_synth_rpt
   \<and> list_all (\<lambda>b. fixed_width (snd b)) (split_sections vivado_synth_rpt)
   \<and> map title (filter has_utilization_columns (sections vivado_synth_rpt)) =
       [''1. CLB Logic'',
       ''2. BLOCKRAM'',
       ''3. ARITHMETIC'',
       ''4. I/O'',
       ''5. CLOCK'',
       ''6. ADVANCED'',
       ''7. CONFIGURATION'',
       ''11. SLR Connectivity'']
   \<and> map (\<lambda>s. (title s, columns s))
         (filter (\<lambda>s. \<not> has_utilization_columns s) (sections vivado_synth_rpt)) =
       [(''1.1 Summary of Registers by Type'', [''Total'', ''Clock Enable'', ''Synchronous'', ''Asynchronous'']),
       (''8. Primitives'', [''Ref Name'', ''Used'', ''Functional Category'']),
       (''9. Black Boxes'', [''Ref Name'', ''Used'']),
       (''10. Instantiated Netlists'', [''Ref Name'', ''Used'']),
       (''12. SLR Connectivity Matrix'', [''FROM '' @ [CHR 0x5C] @ '' TO'', ''SLR3'', ''SLR2'', ''SLR1'', ''SLR0'']),
       (''13. SLR CLB Logic and Dedicated Block Utilization'', [''Site Type'', ''SLR0'', ''SLR1'', ''SLR2'', ''SLR3'', ''SLR0 %'', ''SLR1 %'', ''SLR2 %'', ''SLR3 %'']),
       (''14. SLR IO Utilization'', [''SLR Index'', ''Used IOBs'', ''(%)IOBs'', ''Used IPADs'', ''(%)IPADs'', ''Used OPADs'', ''(%)OPADs'', ''GTs''])]"
proof -
  have w: "list_all (\<lambda>b. fixed_width (snd b)) (split_sections vivado_synth_rpt)"
    by (simp add: split_sections_def report_blocks width_lemmas)
  have rest: "map title (sections vivado_synth_rpt) = table_of_contents vivado_synth_rpt
   \<and> map title (filter has_utilization_columns (sections vivado_synth_rpt)) =
       [''1. CLB Logic'',
       ''2. BLOCKRAM'',
       ''3. ARITHMETIC'',
       ''4. I/O'',
       ''5. CLOCK'',
       ''6. ADVANCED'',
       ''7. CONFIGURATION'',
       ''11. SLR Connectivity'']
   \<and> map (\<lambda>s. (title s, columns s))
         (filter (\<lambda>s. \<not> has_utilization_columns s) (sections vivado_synth_rpt)) =
       [(''1.1 Summary of Registers by Type'', [''Total'', ''Clock Enable'', ''Synchronous'', ''Asynchronous'']),
       (''8. Primitives'', [''Ref Name'', ''Used'', ''Functional Category'']),
       (''9. Black Boxes'', [''Ref Name'', ''Used'']),
       (''10. Instantiated Netlists'', [''Ref Name'', ''Used'']),
       (''12. SLR Connectivity Matrix'', [''FROM '' @ [CHR 0x5C] @ '' TO'', ''SLR3'', ''SLR2'', ''SLR1'', ''SLR0'']),
       (''13. SLR CLB Logic and Dedicated Block Utilization'', [''Site Type'', ''SLR0'', ''SLR1'', ''SLR2'', ''SLR3'', ''SLR0 %'', ''SLR1 %'', ''SLR2 %'', ''SLR3 %'']),
       (''14. SLR IO Utilization'', [''SLR Index'', ''Used IOBs'', ''(%)IOBs'', ''Used IPADs'', ''(%)IPADs'', ''Used OPADs'', ''(%)OPADs'', ''GTs''])]"
    by (simp add: report_sections report_contents has_utilization_columns_def column_lemmas
        title_parse_section)
  from report_contents w rest show ?thesis by blast
qed

end
